theory Spec2Isabelle
  imports Complex_Main "HOL-Library.Monad_Syntax"
begin

section \<open>Camera undistortion and stereo rectification (base/undistortion.cc)\<close>

text \<open>
  A shallow embedding of \<^verbatim>\<open>SelectPointOnRay\<close>, \<^verbatim>\<open>UndistortCamera\<close> and
  \<^verbatim>\<open>RectifyStereoCameras\<close> of \<^verbatim>\<open>src/base/undistortion.cc\<close>.

  Numbers. The source computes in IEEE \<^verbatim>\<open>double\<close>; the embedding computes in \<^typ>\<open>real\<close>,
  so every statement below is about the algorithm in exact arithmetic: rounding is outside
  the model. IEEE arithmetic does not stop at a division by zero: the quotient is an
  infinity or a NaN and the computation goes on. In \<open>UndistortCamera\<close> every quotient of the
  source is the checked quotient \<open>fdiv\<close>, which has no value when the divisor is zero, and
  a run that divides by zero ends in the outcome \<open>DivisionByZero\<close>, so that a theorem about
  the camera that \<open>UndistortCamera\<close> returns is about a run without such a division. The
  size limit is the exception: its quotients by a width or height of 0 are \<open>+\<infinity>\<close> and are
  followed through. The maps of the \<^verbatim>\<open>Camera\<close> class and \<open>RectifyStereoCameras\<close> divide with
  HOL's quotient, whose value at a zero divisor is 0: the theorems on \<open>SelectPointOnRay\<close>
  hold whatever the map \<open>ImageToWorld\<close> is, and every theorem that evaluates a camera or a
  pair of cameras does so at non-zero focal lengths and a non-zero baseline.
  \<^verbatim>\<open>size_t\<close> is \<^typ>\<open>nat\<close>, and the conversion of a \<^verbatim>\<open>double\<close> to \<^verbatim>\<open>size_t\<close> is
  \<open>size_t_of_double\<close>; the \<^verbatim>\<open>int\<close> option \<^verbatim>\<open>max_image_size\<close> is \<^typ>\<open>int\<close>.
\<close>

subsection \<open>Eigen::Vector2d\<close>

type_synonym vec2 = "real \<times> real"

definition vec2_add :: "vec2 \<Rightarrow> vec2 \<Rightarrow> vec2" where
  "vec2_add a b = (fst a + fst b, snd a + snd b)"

definition vec2_sub :: "vec2 \<Rightarrow> vec2 \<Rightarrow> vec2" where
  "vec2_sub a b = (fst a - fst b, snd a - snd b)"

definition vec2_scale :: "vec2 \<Rightarrow> real \<Rightarrow> vec2" where
  "vec2_scale a s = (fst a * s, snd a * s)"

definition vec2_norm :: "vec2 \<Rightarrow> real" where
  "vec2_norm a = sqrt ((fst a)\<^sup>2 + (snd a)\<^sup>2)"

text \<open>
  \<^verbatim>\<open>normalized()\<close> of Eigen 3.3: the vector divided by its norm, and the vector itself
  when its squared norm is not positive.
\<close>

definition vec2_normalized :: "vec2 \<Rightarrow> vec2" where
  "vec2_normalized a =
     (if 0 < (fst a)\<^sup>2 + (snd a)\<^sup>2 then (fst a / vec2_norm a, snd a / vec2_norm a) else a)"

subsection \<open>The Camera class, as far as the three functions use it\<close>

text \<open>
  Modelled from the spec: the class \<^verbatim>\<open>Camera\<close> of \<^verbatim>\<open>base/camera.h\<close>, which is not among
  the sources (the spec's Camera Model: kind, intrinsic parameters, width, height, with
  accessors for the intrinsics). A camera is held as the values its accessors return: model
  id, width, height, the index lists of the focal-length and principal-point parameters
  (the source reads only their sizes), the focal lengths and the principal point. The two
  pinhole kinds are the ones the source names; every other kind is \<open>OtherCameraModel\<close> with
  its numeric id.
\<close>

datatype model_id = SimplePinholeCameraModel | PinholeCameraModel | OtherCameraModel int

record Camera =
  ModelId :: model_id
  Width :: nat
  Height :: nat
  FocalLengthIdxs :: "nat list"
  PrincipalPointIdxs :: "nat list"
  FocalLengthX :: real
  FocalLengthY :: real
  PrincipalPointX :: real
  PrincipalPointY :: real
  Unproject :: "vec2 \<Rightarrow> vec2"
  Project :: "vec2 \<Rightarrow> vec2"

text \<open>
  Modelled from the spec: \<^verbatim>\<open>Camera::ImageToWorld\<close> and \<^verbatim>\<open>Camera::WorldToImage\<close>
  (the spec's \<^verbatim>\<open>imageToWorld(point) -> direction\<close> and \<^verbatim>\<open>worldToImage(direction) -> point\<close>).
  For the two pinhole kinds the image point is the linear function of the direction given
  by focal lengths and principal point; for every other kind the two maps are opaque and
  are the fields \<open>Unproject\<close> and \<open>Project\<close> of the camera.
\<close>

definition ImageToWorld :: "Camera \<Rightarrow> vec2 \<Rightarrow> vec2" where
  "ImageToWorld camera p =
     (case ModelId camera of
        OtherCameraModel k \<Rightarrow> Unproject camera p
      | _ \<Rightarrow> ((fst p - PrincipalPointX camera) / FocalLengthX camera,
              (snd p - PrincipalPointY camera) / FocalLengthY camera))"

definition WorldToImage :: "Camera \<Rightarrow> vec2 \<Rightarrow> vec2" where
  "WorldToImage camera w =
     (case ModelId camera of
        OtherCameraModel k \<Rightarrow> Project camera w
      | _ \<Rightarrow> (FocalLengthX camera * fst w + PrincipalPointX camera,
              FocalLengthY camera * snd w + PrincipalPointY camera))"

subsection \<open>SelectPointOnRay\<close>

text \<open>
  The validity test of one round, at distance \<open>m\<close> from \<open>origin\<close> along \<open>dir\<close>
  (\<^verbatim>\<open>m_valid\<close> of the source). The three angles are compared as signed values, as the
  source does.
\<close>

definition m_valid :: "Camera \<Rightarrow> vec2 \<Rightarrow> vec2 \<Rightarrow> real \<Rightarrow> real \<Rightarrow> real \<Rightarrow> real \<Rightarrow> bool" where
  "m_valid camera origin dir max_angle max_horizontal_angle max_vertical_angle m =
     (let world_point = ImageToWorld camera (vec2_add origin (vec2_scale dir m));
          vertical_angle = arctan (snd world_point);
          horizontal_angle = arctan (fst world_point);
          full_angle = arctan (vec2_norm world_point)
      in vertical_angle < max_vertical_angle \<and>
         horizontal_angle < max_horizontal_angle \<and>
         full_angle < max_angle)"

text \<open>
  The \<^verbatim>\<open>for (int i = 0; i < 32; ++i)\<close> loop over the pair \<open>(l, r)\<close>, for any number of
  rounds and any validity test.
\<close>

fun bisection_rounds :: "(real \<Rightarrow> bool) \<Rightarrow> nat \<Rightarrow> real \<times> real \<Rightarrow> real \<times> real" where
  "bisection_rounds valid 0 (l, r) = (l, r)"
| "bisection_rounds valid (Suc n) (l, r) =
     (let m = (r + l) / 2
      in if valid m then bisection_rounds valid n (m, r)
         else bisection_rounds valid n (l, m))"

text \<open>The value of \<open>l\<close> when the loop ends.\<close>

definition SelectLengthOnRay ::
  "Camera \<Rightarrow> vec2 \<Rightarrow> vec2 \<Rightarrow> real \<Rightarrow> real \<Rightarrow> real \<Rightarrow> real \<Rightarrow> real" where
  "SelectLengthOnRay camera origin target max_length max_angle max_horizontal_angle
       max_vertical_angle =
     (let diff = vec2_sub target origin;
          dir = vec2_normalized diff
      in fst (bisection_rounds
                (m_valid camera origin dir max_angle max_horizontal_angle max_vertical_angle)
                32 (0, min max_length (vec2_norm diff))))"

definition SelectPointOnRay ::
  "Camera \<Rightarrow> vec2 \<Rightarrow> vec2 \<Rightarrow> real \<Rightarrow> real \<Rightarrow> real \<Rightarrow> real \<Rightarrow> vec2" where
  "SelectPointOnRay camera origin target max_length max_angle max_horizontal_angle
       max_vertical_angle =
     (let diff = vec2_sub target origin;
          dir = vec2_normalized diff
      in vec2_add origin
           (vec2_scale dir
              (SelectLengthOnRay camera origin target max_length max_angle
                 max_horizontal_angle max_vertical_angle)))"

subsection \<open>UndistortCameraOptions and the operations of Camera that are not in the sources\<close>

record UndistortCameraOptions =
  blank_pixels :: real
  min_scale :: real
  max_scale :: real
  max_image_size :: int
  max_fov :: real
  max_horizontal_fov :: real
  max_vertical_fov :: real
  camera_model_override :: string
  camera_model_override_params :: string
  estimate_focal_length_from_fov :: bool

text \<open>
  A failed \<^verbatim>\<open>CHECK\<close> aborts the program; the model returns the text of the check.
  \<open>DivisionByZero\<close> is not an outcome of the source: it marks a run in which
  \<^verbatim>\<open>UndistortCamera\<close> divides by zero and goes on with an IEEE infinity or NaN, which is
  where the embedding over the reals ends.
\<close>

datatype error = CheckFailed string | DivisionByZero

text \<open>
  \<^verbatim>\<open>CameraModelNameToId\<close>, \<^verbatim>\<open>Camera::SetParamsFromString\<close>, \<^verbatim>\<open>Camera::VerifyParams\<close>
  and \<^verbatim>\<open>Camera::Rescale\<close> are called by \<^verbatim>\<open>UndistortCamera\<close> and defined outside the
  sources. They are parameters of the model: \<open>UndistortCamera\<close> takes them as a record, and a
  theorem that needs a property of one of them states it as a hypothesis.
\<close>

record CameraOps =
  CameraModelNameToId :: "string \<Rightarrow> model_id"
  SetParamsFromString :: "string \<Rightarrow> Camera \<Rightarrow> Camera"
  VerifyParams :: "Camera \<Rightarrow> bool"
  Rescale :: "real \<Rightarrow> Camera \<Rightarrow> Camera"

text \<open>
  Modelled from the spec: the default constructor, \<^verbatim>\<open>Camera undistorted_camera;\<close>. The
  default camera has the invalid model id \<open>-1\<close>, width and height 0 and no parameters.
\<close>

definition DefaultCamera :: Camera where
  "DefaultCamera =
     \<lparr>ModelId = OtherCameraModel (- 1), Width = 0, Height = 0,
      FocalLengthIdxs = [], PrincipalPointIdxs = [],
      FocalLengthX = 0, FocalLengthY = 0, PrincipalPointX = 0, PrincipalPointY = 0,
      Unproject = id, Project = id\<rparr>"

text \<open>
  Modelled from the spec: \<^verbatim>\<open>Camera::SetModelId\<close>, the new kind with zeroed parameters. For
  the two pinhole kinds the index lists are those of the kind (one focal length and a
  principal point; two focal lengths and a principal point); for another kind they are
  left to \<open>SetParamsFromString\<close>. The other setters of the source (\<^verbatim>\<open>SetWidth\<close>,
  \<^verbatim>\<open>SetFocalLengthX\<close>, ...) are record updates.
\<close>

definition SetModelId :: "model_id \<Rightarrow> Camera \<Rightarrow> Camera" where
  "SetModelId m camera =
     camera\<lparr>ModelId := m,
       FocalLengthIdxs :=
         (case m of SimplePinholeCameraModel \<Rightarrow> [0] | PinholeCameraModel \<Rightarrow> [0, 1]
          | OtherCameraModel k \<Rightarrow> FocalLengthIdxs camera),
       PrincipalPointIdxs :=
         (case m of SimplePinholeCameraModel \<Rightarrow> [1, 2] | PinholeCameraModel \<Rightarrow> [2, 3]
          | OtherCameraModel k \<Rightarrow> PrincipalPointIdxs camera),
       FocalLengthX := 0, FocalLengthY := 0, PrincipalPointX := 0, PrincipalPointY := 0\<rparr>"

text \<open>
  Modelled from the spec: \<^verbatim>\<open>Camera::FocalLength\<close>, the accessor of a kind with one focal
  length.
\<close>

definition FocalLength :: "Camera \<Rightarrow> real" where
  "FocalLength camera = FocalLengthX camera"

text \<open>
  Modelled from the spec: \<^verbatim>\<open>DegToRad\<close> and \<^verbatim>\<open>Clip\<close> of \<^verbatim>\<open>util/math.h\<close>, which is not
  among the sources (the fields of view are configured in degrees; the spec's "clip the
  result into [minScale, maxScale]").
\<close>

definition DegToRad :: "real \<Rightarrow> real" where
  "DegToRad deg = deg * pi / 180"

definition Clip :: "real \<Rightarrow> real \<Rightarrow> real \<Rightarrow> real" where
  "Clip v low high = max low (min v high)"

text \<open>\<^verbatim>\<open>std::numeric_limits<double>::max()\<close>; \<^verbatim>\<open>lowest()\<close> is its negation.\<close>

definition DBL_MAX :: real where
  "DBL_MAX = (2 - 1 / 2 ^ 52) * 2 ^ 1023"

text \<open>
  The quotient of two doubles. When the divisor is zero the source does not stop: the
  quotient is an IEEE infinity or a NaN (which of them depends on the signs of the
  dividend and of the zero), and the computation goes on with it. The reals have no such
  value; the checked quotient is then \<open>None\<close>, and so is everything computed from it.
\<close>

definition fdiv :: "real \<Rightarrow> real \<Rightarrow> real option" where
  "fdiv a b = (if b = 0 then None else Some (a / b))"

text \<open>
  \<^verbatim>\<open>static_cast<size_t>\<close> of a double that is at least 1. Below \<open>2^64\<close> the value is
  truncated. The conversion of a value that \<^verbatim>\<open>size_t\<close> cannot hold is undefined in C++;
  the code compiled for x86-64 yields 0, and so does the model.
\<close>

definition size_t_of_double :: "real \<Rightarrow> nat" where
  "size_t_of_double x = (if x < 2 ^ 64 then nat \<lfloor>x\<rfloor> else 0)"

subsection \<open>UndistortCamera: the option checks\<close>

definition CheckOptions :: "UndistortCameraOptions \<Rightarrow> error option" where
  "CheckOptions options =
     (if \<not> 0 \<le> blank_pixels options then Some (CheckFailed ''CHECK_GE(options.blank_pixels, 0)'')
      else if \<not> blank_pixels options \<le> 1 then Some (CheckFailed ''CHECK_LE(options.blank_pixels, 1)'')
      else if \<not> 0 < min_scale options then Some (CheckFailed ''CHECK_GT(options.min_scale, 0.0)'')
      else if \<not> min_scale options \<le> max_scale options
        then Some (CheckFailed ''CHECK_LE(options.min_scale, options.max_scale)'')
      else if \<not> max_image_size options \<noteq> 0
        then Some (CheckFailed ''CHECK_NE(options.max_image_size, 0)'')
      else if \<not> max_fov options < 180 then Some (CheckFailed ''CHECK_LT(options.max_fov, 180.0)'')
      else if \<not> 0 < max_fov options then Some (CheckFailed ''CHECK_GT(options.max_fov, 0.0)'')
      else if \<not> max_vertical_fov options \<le> 180
        then Some (CheckFailed ''CHECK_LE(options.max_vertical_fov, 180.0)'')
      else if \<not> 0 < max_vertical_fov options
        then Some (CheckFailed ''CHECK_GT(options.max_vertical_fov, 0.0)'')
      else if \<not> max_horizontal_fov options \<le> 180
        then Some (CheckFailed ''CHECK_LE(options.max_horizontal_fov, 180.0)'')
      else if \<not> 0 < max_horizontal_fov options
        then Some (CheckFailed ''CHECK_GT(options.max_horizontal_fov, 0.0)'')
      else None)"

subsection \<open>UndistortCamera: the maximal valid radius\<close>

text \<open>The array \<^verbatim>\<open>corners\<close>, entry by entry as the source writes it.\<close>

definition corners :: "Camera \<Rightarrow> vec2 list" where
  "corners camera =
     [(0, 0), (real (Width camera), 0),
      (real (Height camera), real (Width camera)),
      (0, real (Height camera))]"

text \<open>
  The loop over the four corners: the largest distance from the principal point and the
  direction of the corner that has it. \<^verbatim>\<open>corner_dir\<close> is uninitialised in the source
  until a corner is farther than \<open>0\<close>; the model starts it at \<open>(0, 0)\<close>, and it is read only
  when some corner was farther.
\<close>

fun farthest_corner :: "vec2 list \<Rightarrow> vec2 \<Rightarrow> real \<times> vec2 \<Rightarrow> real \<times> vec2" where
  "farthest_corner [] principal_point (max_radius, corner_dir) = (max_radius, corner_dir)"
| "farthest_corner (corner # rest) principal_point (max_radius, corner_dir) =
     (let diff = vec2_sub corner principal_point;
          norm = vec2_norm diff
      in if norm > max_radius
         then farthest_corner rest principal_point (norm, vec2_normalized diff)
         else farthest_corner rest principal_point (max_radius, corner_dir))"

text \<open>
  The march \<^verbatim>\<open>for (int i = 1; i < max_radius; ++i)\<close>. Its state is the pair of the
  variable \<^verbatim>\<open>max_valid_fov_half\<close> that the source declares inside the \<^verbatim>\<open>if\<close> block and
  of \<^verbatim>\<open>max_valid_radius\<close>. The counter is a \<^typ>\<open>nat\<close>; the overflow of the source's
  \<^verbatim>\<open>int\<close> beyond \<open>2^31\<close> pixels is not modelled.
\<close>

function march ::
  "Camera \<Rightarrow> vec2 \<Rightarrow> vec2 \<Rightarrow> real \<Rightarrow> real \<Rightarrow> nat \<Rightarrow> real \<times> real \<Rightarrow> real \<times> real" where
  "march camera principal_point corner_dir max_radius max_fov_rad i
       (max_valid_fov_half, max_valid_radius) =
     (if real i < max_radius then
        (let world_point =
               ImageToWorld camera (vec2_add (vec2_scale corner_dir (real i)) principal_point);
             phi = arctan (vec2_norm world_point)
         in if phi \<le> max_valid_fov_half \<or> 2 * phi > max_fov_rad
            then (max_valid_fov_half, max_valid_radius)
            else march camera principal_point corner_dir max_radius max_fov_rad (Suc i)
                   (phi, real i))
      else (max_valid_fov_half, max_valid_radius))"
  by pat_completeness auto
termination
  by (relation "measure (\<lambda>(camera, principal_point, corner_dir, max_radius, max_fov_rad, i, st).
        nat \<lceil>max_radius\<rceil> - i)") (auto intro!: diff_less_mono2, linarith)

declare march.simps [simp del]

text \<open>
  The block that estimates the maximal valid radius. It returns the three variables the
  rest of the function reads: \<^verbatim>\<open>max_valid_fov_half\<close>, \<^verbatim>\<open>max_valid_radius\<close> and
  \<^verbatim>\<open>principal_point\<close>. The \<^verbatim>\<open>max_valid_fov_half\<close> that the march updates is the one
  declared inside the \<^verbatim>\<open>if\<close> block (\<open>inner_max_valid_fov_half\<close> here); it goes out of
  scope at the end of the block.
\<close>

definition MaxValidRegion :: "UndistortCameraOptions \<Rightarrow> Camera \<Rightarrow> real \<times> real \<times> vec2" where
  "MaxValidRegion options camera =
     (let max_fov_rad = DegToRad (max_fov options);
          max_valid_fov_half = max_fov_rad / 2;
          principal_point = (0, 0);
          image_size = (real (Width camera), real (Height camera));
          max_valid_radius = vec2_norm image_size
      in if length (PrincipalPointIdxs camera) = 2 then
           (let principal_point = (PrincipalPointX camera, PrincipalPointY camera);
                (max_radius, corner_dir) =
                   farthest_corner (corners camera) principal_point (0, (0, 0));
                (inner_max_valid_fov_half, max_valid_radius) =
                   march camera principal_point corner_dir max_radius max_fov_rad 1
                     (0, max_valid_radius)
            in (max_valid_fov_half, max_valid_radius, principal_point))
         else (max_valid_fov_half, max_valid_radius, principal_point))"

subsection \<open>UndistortCamera: the focal length\<close>

text \<open>
  The six calls of \<^verbatim>\<open>SelectPointOnRay\<close> in \<^verbatim>\<open>UndistortCamera\<close> differ only in the target:
  the origin is \<^verbatim>\<open>principal_point\<close>, the length bound \<^verbatim>\<open>max_valid_radius\<close>, the angle
  bounds \<^verbatim>\<open>max_valid_fov_half\<close>, \<^verbatim>\<open>max_horizontal_fov / 2.0\<close> and
  \<^verbatim>\<open>max_vertical_fov / 2.0\<close>.
\<close>

definition ProbeBorder :: "UndistortCameraOptions \<Rightarrow> Camera \<Rightarrow> vec2 \<Rightarrow> vec2" where
  "ProbeBorder options camera target =
     (let (max_valid_fov_half, max_valid_radius, principal_point) = MaxValidRegion options camera
      in SelectPointOnRay camera principal_point target max_valid_radius max_valid_fov_half
           (DegToRad (max_horizontal_fov options) / 2)
           (DegToRad (max_vertical_fov options) / 2))"

text \<open>The initial value of \<^verbatim>\<open>focal_diagonal_fov\<close>.\<close>

definition focal_from_max_valid_fov :: "UndistortCameraOptions \<Rightarrow> Camera \<Rightarrow> real option" where
  "focal_from_max_valid_fov options camera =
     (let (max_valid_fov_half, max_valid_radius, principal_point) = MaxValidRegion options camera;
          image_size = (real (Width camera), real (Height camera))
      in fdiv (vec2_norm image_size / 2) (tan max_valid_fov_half))"

text \<open>
  The candidate of round \<open>i\<close> of the loop \<^verbatim>\<open>for (int i = 0; i < 2; ++i)\<close>, from
  \<^verbatim>\<open>corners[i]\<close> and \<^verbatim>\<open>corners[i + 2]\<close>.
\<close>

definition focal_from_corner_pair ::
  "UndistortCameraOptions \<Rightarrow> Camera \<Rightarrow> nat \<Rightarrow> real option" where
  "focal_from_corner_pair options camera i =
     (let image_size = (real (Width camera), real (Height camera));
          cornerA = ProbeBorder options camera (corners camera ! i);
          cornerB = ProbeBorder options camera (corners camera ! (i + 2));
          fov = arctan (vec2_norm (ImageToWorld camera cornerA)) +
                arctan (vec2_norm (ImageToWorld camera cornerB))
      in fdiv (vec2_norm image_size / 2) (tan (fov / 2)))"

text \<open>\<^verbatim>\<open>focal_diagonal_fov\<close> after the loop over the two pairs of corners.\<close>

definition focal_diagonal_fov :: "UndistortCameraOptions \<Rightarrow> Camera \<Rightarrow> real option" where
  "focal_diagonal_fov options camera =
     foldl (\<lambda>focal_diagonal_fov i.
              do {
                previous \<leftarrow> focal_diagonal_fov;
                candidate \<leftarrow> focal_from_corner_pair options camera i;
                Some (max previous candidate)
              })
       (focal_from_max_valid_fov options camera) [0, 1]"

definition focal_horizontal_fov :: "UndistortCameraOptions \<Rightarrow> Camera \<Rightarrow> real option" where
  "focal_horizontal_fov options camera =
     (let (max_valid_fov_half, max_valid_radius, principal_point) = MaxValidRegion options camera;
          max_horizontal_fov_rad = DegToRad (max_horizontal_fov options);
          image_size = (real (Width camera), real (Height camera));
          left = (max 0 (fst principal_point - max_valid_radius), snd principal_point);
          right = (min (fst image_size) (fst principal_point + max_valid_radius),
                   snd principal_point);
          horizontal_fov = arctan \<bar>fst (ImageToWorld camera left)\<bar> +
                           arctan \<bar>fst (ImageToWorld camera right)\<bar>
      in fdiv (fst image_size / 2) (tan (min max_horizontal_fov_rad horizontal_fov / 2)))"

definition focal_vertical_fov :: "UndistortCameraOptions \<Rightarrow> Camera \<Rightarrow> real option" where
  "focal_vertical_fov options camera =
     (let (max_valid_fov_half, max_valid_radius, principal_point) = MaxValidRegion options camera;
          max_vertical_fov_rad = DegToRad (max_vertical_fov options);
          image_size = (real (Width camera), real (Height camera));
          top = (fst principal_point, max 0 (snd principal_point - max_valid_radius));
          bottom = (fst principal_point,
                    min (snd image_size) (snd principal_point + max_valid_radius));
          vertical_fov = arctan \<bar>snd (ImageToWorld camera top)\<bar> +
                         arctan \<bar>snd (ImageToWorld camera bottom)\<bar>
      in fdiv (snd image_size / 2) (tan (min max_vertical_fov_rad vertical_fov / 2)))"

text \<open>The value of \<^verbatim>\<open>focal\<close>.\<close>

definition EstimateFocalLength :: "UndistortCameraOptions \<Rightarrow> Camera \<Rightarrow> real option" where
  "EstimateFocalLength options camera =
     do {
       diagonal \<leftarrow> focal_diagonal_fov options camera;
       horizontal \<leftarrow> focal_horizontal_fov options camera;
       vertical \<leftarrow> focal_vertical_fov options camera;
       Some (max diagonal (max horizontal vertical))
     }"

text \<open>The block \<^verbatim>\<open>Copy focal length parameters, or estimate them\<close>.\<close>

definition SetFocalLengths ::
  "UndistortCameraOptions \<Rightarrow> Camera \<Rightarrow> Camera \<Rightarrow> error + Camera" where
  "SetFocalLengths options camera undistorted_camera =
     (if estimate_focal_length_from_fov options then
        (case EstimateFocalLength options camera of
           None \<Rightarrow> Inl DivisionByZero
         | Some focal \<Rightarrow>
             Inr (undistorted_camera\<lparr>FocalLengthX := focal, FocalLengthY := focal\<rparr>))
      else if \<not> length (FocalLengthIdxs camera) \<le> 2 then
        Inl (CheckFailed ''Not more than two focal length parameters supported.'')
      else if length (FocalLengthIdxs camera) = 1 then
        Inr (undistorted_camera\<lparr>FocalLengthX := FocalLength camera,
                                FocalLengthY := FocalLength camera\<rparr>)
      else if length (FocalLengthIdxs camera) = 2 then
        Inr (undistorted_camera\<lparr>FocalLengthX := FocalLengthX camera,
                                FocalLengthY := FocalLengthY camera\<rparr>)
      else Inr undistorted_camera)"

subsection \<open>UndistortCamera: the scale that avoids blank pixels\<close>

definition UndistortedBorderPoint ::
  "UndistortCameraOptions \<Rightarrow> Camera \<Rightarrow> Camera \<Rightarrow> vec2 \<Rightarrow> vec2" where
  "UndistortedBorderPoint options camera undistorted_camera target =
     (let border_point = ProbeBorder options camera target;
          world_point = ImageToWorld camera border_point
      in WorldToImage undistorted_camera world_point)"

text \<open>
  The loop over the rows: \<^verbatim>\<open>(left_min_x, left_max_x, right_min_x, right_max_x)\<close>, starting
  from \<^verbatim>\<open>max()\<close> and \<^verbatim>\<open>lowest()\<close>.
\<close>

definition RowExtrema ::
  "UndistortCameraOptions \<Rightarrow> Camera \<Rightarrow> Camera \<Rightarrow> real \<times> real \<times> real \<times> real" where
  "RowExtrema options camera undistorted_camera =
     foldl (\<lambda>(left_min_x, left_max_x, right_min_x, right_max_x) y.
        (let undistorted_point1 =
               UndistortedBorderPoint options camera undistorted_camera (0.5, real y + 0.5);
             undistorted_point2 =
               UndistortedBorderPoint options camera undistorted_camera
                 (real (Width camera) - 0.5, real y + 0.5)
         in (min left_min_x (fst undistorted_point1), max left_max_x (fst undistorted_point1),
             min right_min_x (fst undistorted_point2), max right_max_x (fst undistorted_point2))))
       (DBL_MAX, - DBL_MAX, DBL_MAX, - DBL_MAX) [0..<Height camera]"

text \<open>The loop over the columns: \<^verbatim>\<open>(top_min_y, top_max_y, bottom_min_y, bottom_max_y)\<close>.\<close>

definition ColumnExtrema ::
  "UndistortCameraOptions \<Rightarrow> Camera \<Rightarrow> Camera \<Rightarrow> real \<times> real \<times> real \<times> real" where
  "ColumnExtrema options camera undistorted_camera =
     foldl (\<lambda>(top_min_y, top_max_y, bottom_min_y, bottom_max_y) x.
        (let undistorted_point1 =
               UndistortedBorderPoint options camera undistorted_camera (real x + 0.5, 0.5);
             undistorted_point2 =
               UndistortedBorderPoint options camera undistorted_camera
                 (real x + 0.5, real (Height camera) - 0.5)
         in (min top_min_y (snd undistorted_point1), max top_max_y (snd undistorted_point1),
             min bottom_min_y (snd undistorted_point2), max bottom_max_y (snd undistorted_point2))))
       (DBL_MAX, - DBL_MAX, DBL_MAX, - DBL_MAX) [0..<Width camera]"

text \<open>
  The four quantities the source calls \<^verbatim>\<open>min_scale_x\<close>, \<^verbatim>\<open>min_scale_y\<close> (the undistorted
  image contains all pixels of the distorted image) and \<^verbatim>\<open>max_scale_x\<close>,
  \<^verbatim>\<open>max_scale_y\<close> (no blank pixels in the undistorted image), as functions of the principal
  point coordinate and the border extrema. Each is the smaller or the larger of two
  quotients, and has a value when both divisors are non-zero.
\<close>

definition min_scale_x ::
  "Camera \<Rightarrow> real \<Rightarrow> real \<times> real \<times> real \<times> real \<Rightarrow> real option" where
  "min_scale_x camera cx ex =
     (case ex of (left_min_x, left_max_x, right_min_x, right_max_x) \<Rightarrow>
        do {
          a \<leftarrow> fdiv cx (cx - left_min_x);
          b \<leftarrow> fdiv (real (Width camera) - 0.5 - cx) (right_max_x - cx);
          Some (min a b)
        })"

definition min_scale_y ::
  "Camera \<Rightarrow> real \<Rightarrow> real \<times> real \<times> real \<times> real \<Rightarrow> real option" where
  "min_scale_y camera cy ey =
     (case ey of (top_min_y, top_max_y, bottom_min_y, bottom_max_y) \<Rightarrow>
        do {
          a \<leftarrow> fdiv cy (cy - top_min_y);
          b \<leftarrow> fdiv (real (Height camera) - 0.5 - cy) (bottom_max_y - cy);
          Some (min a b)
        })"

definition max_scale_x ::
  "Camera \<Rightarrow> real \<Rightarrow> real \<times> real \<times> real \<times> real \<Rightarrow> real option" where
  "max_scale_x camera cx ex =
     (case ex of (left_min_x, left_max_x, right_min_x, right_max_x) \<Rightarrow>
        do {
          a \<leftarrow> fdiv cx (cx - left_max_x);
          b \<leftarrow> fdiv (real (Width camera) - 0.5 - cx) (right_min_x - cx);
          Some (max a b)
        })"

definition max_scale_y ::
  "Camera \<Rightarrow> real \<Rightarrow> real \<times> real \<times> real \<times> real \<Rightarrow> real option" where
  "max_scale_y camera cy ey =
     (case ey of (top_min_y, top_max_y, bottom_min_y, bottom_max_y) \<Rightarrow>
        do {
          a \<leftarrow> fdiv cy (cy - top_max_y);
          b \<leftarrow> fdiv (real (Height camera) - 0.5 - cy) (bottom_min_y - cy);
          Some (max a b)
        })"

text \<open>
  \<^verbatim>\<open>scale_x\<close> and \<^verbatim>\<open>scale_y\<close> after \<^verbatim>\<open>Interpolate scale according to blank_pixels\<close> and
  after \<^verbatim>\<open>Clip the scaling factors\<close>: the quotient of 1 by the interpolation, clipped.
\<close>

definition scale_x ::
  "UndistortCameraOptions \<Rightarrow> Camera \<Rightarrow> real \<Rightarrow> real \<times> real \<times> real \<times> real \<Rightarrow> real option" where
  "scale_x options camera cx ex =
     do {
       min_x \<leftarrow> min_scale_x camera cx ex;
       max_x \<leftarrow> max_scale_x camera cx ex;
       s \<leftarrow> fdiv 1 (min_x * blank_pixels options + max_x * (1 - blank_pixels options));
       Some (Clip s (min_scale options) (max_scale options))
     }"

definition scale_y ::
  "UndistortCameraOptions \<Rightarrow> Camera \<Rightarrow> real \<Rightarrow> real \<times> real \<times> real \<times> real \<Rightarrow> real option" where
  "scale_y options camera cy ey =
     do {
       min_y \<leftarrow> min_scale_y camera cy ey;
       max_y \<leftarrow> max_scale_y camera cy ey;
       s \<leftarrow> fdiv 1 (min_y * blank_pixels options + max_y * (1 - blank_pixels options));
       Some (Clip s (min_scale options) (max_scale options))
     }"

text \<open>
  The block \<^verbatim>\<open>Scale the image such the the boundary of the undistorted image\<close>, from the
  test of the model id to the rescaled principal point. The new width and height are
  converted to \<^verbatim>\<open>size_t\<close>; the principal point is divided by the width and the height of
  the input camera.
\<close>

definition ScaleToBorder ::
  "UndistortCameraOptions \<Rightarrow> Camera \<Rightarrow> Camera \<Rightarrow> Camera option" where
  "ScaleToBorder options camera undistorted_camera =
     (if ModelId camera \<noteq> SimplePinholeCameraModel \<and> ModelId camera \<noteq> PinholeCameraModel then
        do {
          let ex = RowExtrema options camera undistorted_camera;
          let ey = ColumnExtrema options camera undistorted_camera;
          let cx = PrincipalPointX undistorted_camera;
          let cy = PrincipalPointY undistorted_camera;
          sx \<leftarrow> scale_x options camera cx ex;
          sy \<leftarrow> scale_y options camera cy ey;
          let c1 = undistorted_camera
                     \<lparr>Width := size_t_of_double (max 1 (sx * real (Width undistorted_camera)))\<rparr>;
          let c2 = c1\<lparr>Height := size_t_of_double (max 1 (sy * real (Height c1)))\<rparr>;
          px \<leftarrow> fdiv (PrincipalPointX c2 * real (Width c2)) (real (Width camera));
          let c3 = c2\<lparr>PrincipalPointX := px\<rparr>;
          py \<leftarrow> fdiv (PrincipalPointY c3 * real (Height c3)) (real (Height camera));
          Some (c3\<lparr>PrincipalPointY := py\<rparr>)
        }
      else Some undistorted_camera)"

subsection \<open>UndistortCamera: the size limit, and the function\<close>

text \<open>
  The block \<^verbatim>\<open>if (options.max_image_size > 0)\<close>. The two quotients have the positive
  \<^verbatim>\<open>max_image_size\<close> as dividend, so that a width or height of 0 gives the IEEE quotient
  \<open>+\<infinity>\<close> whatever the rounding: \<^verbatim>\<open>std::min\<close> then returns the other quotient, and when both
  are \<open>+\<infinity>\<close> the minimum is not less than 1 and the camera is left as it is. The model
  distinguishes these cases, and divides only by a width or height that is not 0.
\<close>

definition LimitImageSize :: "CameraOps \<Rightarrow> UndistortCameraOptions \<Rightarrow> Camera \<Rightarrow> Camera" where
  "LimitImageSize ops options undistorted_camera =
     (if max_image_size options > 0 then
        (if Width undistorted_camera = 0 \<and> Height undistorted_camera = 0
         then undistorted_camera
         else
           (let max_image_scale =
                  (if Width undistorted_camera = 0 then
                     real_of_int (max_image_size options) / real (Height undistorted_camera)
                   else if Height undistorted_camera = 0 then
                     real_of_int (max_image_size options) / real (Width undistorted_camera)
                   else
                     (let max_image_scale_x =
                            real_of_int (max_image_size options) /
                              real (Width undistorted_camera);
                          max_image_scale_y =
                            real_of_int (max_image_size options) /
                              real (Height undistorted_camera)
                      in min max_image_scale_x max_image_scale_y))
            in if max_image_scale < 1 then Rescale ops max_image_scale undistorted_camera
               else undistorted_camera))
      else undistorted_camera)"

text \<open>
  \<^verbatim>\<open>undistorted_camera\<close> as it stands before the override is looked at: a pinhole camera
  with the width and height of the input.
\<close>

definition InitialUndistortedCamera :: "Camera \<Rightarrow> Camera" where
  "InitialUndistortedCamera camera =
     (SetModelId PinholeCameraModel DefaultCamera)\<lparr>Width := Width camera, Height := Height camera\<rparr>"

text \<open>
  The function from \<^verbatim>\<open>Estimate maximal valid radius\<close> up to, and without, the size limit:
  focal lengths, principal point, scale.
\<close>

definition UndistortCameraBeforeSizeLimit ::
  "UndistortCameraOptions \<Rightarrow> Camera \<Rightarrow> error + Camera" where
  "UndistortCameraBeforeSizeLimit options camera =
     (case SetFocalLengths options camera (InitialUndistortedCamera camera) of
        Inl e \<Rightarrow> Inl e
      | Inr undistorted_camera \<Rightarrow>
          (case ScaleToBorder options camera
                  (undistorted_camera\<lparr>PrincipalPointX := PrincipalPointX camera,
                                        PrincipalPointY := PrincipalPointY camera\<rparr>) of
             None \<Rightarrow> Inl DivisionByZero
           | Some undistorted_camera \<Rightarrow> Inr undistorted_camera))"

definition UndistortCamera ::
  "CameraOps \<Rightarrow> UndistortCameraOptions \<Rightarrow> Camera \<Rightarrow> error + Camera" where
  "UndistortCamera ops options camera =
     (case CheckOptions options of
        Some e \<Rightarrow> Inl e
      | None \<Rightarrow>
          if camera_model_override options \<noteq> [] then
            (let camera_model_id = CameraModelNameToId ops (camera_model_override options);
                 undistorted_camera =
                   SetParamsFromString ops (camera_model_override_params options)
                     (SetModelId camera_model_id (InitialUndistortedCamera camera))
             in if VerifyParams ops undistorted_camera then Inr undistorted_camera
                else Inl (CheckFailed ''CHECK(undistorted_camera.VerifyParams())''))
          else
            (case UndistortCameraBeforeSizeLimit options camera of
               Inl e \<Rightarrow> Inl e
             | Inr undistorted_camera \<Rightarrow> Inr (LimitImageSize ops options undistorted_camera)))"


subsection \<open>Eigen vectors and matrices of RectifyStereoCameras\<close>

text \<open>
  A vector is the list of its coefficients, a matrix the list of its rows, so that
  \<open>M ! i ! j\<close> is the source's \<^verbatim>\<open>M(i, j)\<close>. The operations are those of the Eigen
  library (products, transpose, cross product, norm, the inverse of a 3x3 matrix by
  cofactors, the conversions between quaternion, angle-axis and rotation matrix), written
  from Eigen 3.3.
\<close>

type_synonym vec = "real list"
type_synonym mat = "real list list"

definition vec_dot :: "vec \<Rightarrow> vec \<Rightarrow> real" where
  "vec_dot a b = sum_list (map2 (*) a b)"

definition vec_norm :: "vec \<Rightarrow> real" where
  "vec_norm a = sqrt (vec_dot a a)"

definition vec_scale :: "vec \<Rightarrow> real \<Rightarrow> vec" where
  "vec_scale a s = map (\<lambda>x. x * s) a"

definition vec_div :: "vec \<Rightarrow> real \<Rightarrow> vec" where
  "vec_div a s = map (\<lambda>x. x / s) a"

definition vec_normalized :: "vec \<Rightarrow> vec" where
  "vec_normalized a = (if 0 < vec_dot a a then vec_div a (vec_norm a) else a)"

definition vec3_cross :: "vec \<Rightarrow> vec \<Rightarrow> vec" where
  "vec3_cross a b =
     [a ! 1 * b ! 2 - a ! 2 * b ! 1,
      a ! 2 * b ! 0 - a ! 0 * b ! 2,
      a ! 0 * b ! 1 - a ! 1 * b ! 0]"

definition mat_vec :: "mat \<Rightarrow> vec \<Rightarrow> vec" where
  "mat_vec A v = map (\<lambda>row. vec_dot row v) A"

definition vec_mat :: "vec \<Rightarrow> mat \<Rightarrow> vec" where
  "vec_mat v A = map (\<lambda>col. vec_dot v col) (transpose A)"

definition mat_mul :: "mat \<Rightarrow> mat \<Rightarrow> mat" where
  "mat_mul A B = map (\<lambda>row. map (\<lambda>col. vec_dot row col) (transpose B)) A"

definition mat_set :: "mat \<Rightarrow> nat \<Rightarrow> nat \<Rightarrow> real \<Rightarrow> mat" where
  "mat_set A i j v = A[i := (A ! i)[j := v]]"

definition Identity3 :: mat where
  "Identity3 = [[1, 0, 0], [0, 1, 0], [0, 0, 1]]"

definition Identity4 :: mat where
  "Identity4 = [[1, 0, 0, 0], [0, 1, 0, 0], [0, 0, 1, 0], [0, 0, 0, 1]]"

definition mat3_determinant :: "mat \<Rightarrow> real" where
  "mat3_determinant A =
     A ! 0 ! 0 * (A ! 1 ! 1 * A ! 2 ! 2 - A ! 1 ! 2 * A ! 2 ! 1) -
     A ! 0 ! 1 * (A ! 1 ! 0 * A ! 2 ! 2 - A ! 1 ! 2 * A ! 2 ! 0) +
     A ! 0 ! 2 * (A ! 1 ! 0 * A ! 2 ! 1 - A ! 1 ! 1 * A ! 2 ! 0)"

definition mat3_inverse :: "mat \<Rightarrow> mat" where
  "mat3_inverse A =
     (let d = mat3_determinant A
      in [[(A ! 1 ! 1 * A ! 2 ! 2 - A ! 1 ! 2 * A ! 2 ! 1) / d,
           (A ! 0 ! 2 * A ! 2 ! 1 - A ! 0 ! 1 * A ! 2 ! 2) / d,
           (A ! 0 ! 1 * A ! 1 ! 2 - A ! 0 ! 2 * A ! 1 ! 1) / d],
          [(A ! 1 ! 2 * A ! 2 ! 0 - A ! 1 ! 0 * A ! 2 ! 2) / d,
           (A ! 0 ! 0 * A ! 2 ! 2 - A ! 0 ! 2 * A ! 2 ! 0) / d,
           (A ! 0 ! 2 * A ! 1 ! 0 - A ! 0 ! 0 * A ! 1 ! 2) / d],
          [(A ! 1 ! 0 * A ! 2 ! 1 - A ! 1 ! 1 * A ! 2 ! 0) / d,
           (A ! 0 ! 1 * A ! 2 ! 0 - A ! 0 ! 0 * A ! 2 ! 1) / d,
           (A ! 0 ! 0 * A ! 1 ! 1 - A ! 0 ! 1 * A ! 1 ! 0) / d]])"

text \<open>\<^verbatim>\<open>std::atan2\<close>, without the signed zeros of IEEE.\<close>

definition atan2 :: "real \<Rightarrow> real \<Rightarrow> real" where
  "atan2 y x =
     (if 0 < x then arctan (y / x)
      else if x < 0 \<and> 0 \<le> y then arctan (y / x) + pi
      else if x < 0 then arctan (y / x) - pi
      else if 0 < y then pi / 2
      else if y < 0 then - pi / 2
      else 0)"

text \<open>
  \<^verbatim>\<open>Eigen::AngleAxisd(Eigen::Quaterniond(w, x, y, z))\<close>: the pair of angle and axis. A
  quaternion whose vector part has norm \<open>0\<close> gives the angle \<open>0\<close> about the x-axis.
\<close>

definition AngleAxis_of_Quaternion :: "vec \<Rightarrow> real \<times> vec" where
  "AngleAxis_of_Quaternion q =
     (let w = q ! 0;
          v = [q ! 1, q ! 2, q ! 3];
          n = vec_norm v
      in if n \<noteq> 0 then (2 * atan2 n \<bar>w\<bar>, vec_div v (if w < 0 then - n else n))
         else (0, [1, 0, 0]))"

text \<open>\<^verbatim>\<open>AngleAxisd::toRotationMatrix()\<close>.\<close>

definition toRotationMatrix :: "real \<times> vec \<Rightarrow> mat" where
  "toRotationMatrix aa =
     (let angle = fst aa; axis = snd aa;
          sin_axis = vec_scale axis (sin angle);
          c = cos angle;
          cos1_axis = vec_scale axis (1 - c)
      in [[cos1_axis ! 0 * axis ! 0 + c,
           cos1_axis ! 0 * axis ! 1 - sin_axis ! 2,
           cos1_axis ! 0 * axis ! 2 + sin_axis ! 1],
          [cos1_axis ! 0 * axis ! 1 + sin_axis ! 2,
           cos1_axis ! 1 * axis ! 1 + c,
           cos1_axis ! 1 * axis ! 2 - sin_axis ! 0],
          [cos1_axis ! 0 * axis ! 2 - sin_axis ! 1,
           cos1_axis ! 1 * axis ! 2 + sin_axis ! 0,
           cos1_axis ! 2 * axis ! 2 + c]])"

text \<open>\<^verbatim>\<open>std::numeric_limits<double>::epsilon()\<close>.\<close>

definition DBL_EPSILON :: real where
  "DBL_EPSILON = 1 / 2 ^ 52"

subsection \<open>RectifyStereoCameras\<close>

text \<open>
  Modelled from the spec: \<^verbatim>\<open>Camera::MeanFocalLength\<close> (the spec's mean focal length of a
  camera) and \<^verbatim>\<open>Camera::CalibrationMatrix\<close>, which are not in the sources. The calibration
  matrix is the one \<^verbatim>\<open>WriteProjectionMatrix\<close> of the source builds by hand: the identity
  with the focal lengths on the diagonal and the principal point in the last column.
\<close>

definition MeanFocalLength :: "Camera \<Rightarrow> real" where
  "MeanFocalLength camera =
     (if length (FocalLengthIdxs camera) = 1 then FocalLengthX camera
      else (FocalLengthX camera + FocalLengthY camera) / 2)"

definition CalibrationMatrix :: "Camera \<Rightarrow> mat" where
  "CalibrationMatrix camera =
     [[FocalLengthX camera, 0, PrincipalPointX camera],
      [0, FocalLengthY camera, PrincipalPointY camera],
      [0, 0, 1]]"

text \<open>
  The first half of the function: the rotations \<^verbatim>\<open>R1\<close>, \<^verbatim>\<open>R2\<close> and the translation
  \<^verbatim>\<open>t\<close> after \<^verbatim>\<open>Apply the X-axis correction\<close>.
\<close>

definition RectifyingRotations :: "vec \<Rightarrow> vec \<Rightarrow> mat \<times> mat \<times> vec" where
  "RectifyingRotations qvec tvec =
     (let rvec = AngleAxis_of_Quaternion [qvec ! 0, qvec ! 1, qvec ! 2, qvec ! 3];
          rvec = (fst rvec * (- 0.5), snd rvec);
          R2 = toRotationMatrix rvec;
          R1 = transpose R2;
          t = mat_vec R2 tvec;
          x_unit_vector = [1, 0, 0];
          x_unit_vector =
            (if vec_dot t x_unit_vector < 0 then vec_scale x_unit_vector (- 1)
             else x_unit_vector);
          rotation_axis = vec3_cross t x_unit_vector;
          R_x =
            (if vec_norm rotation_axis < DBL_EPSILON then Identity3
             else
               (let angle = arccos (\<bar>vec_dot t x_unit_vector\<bar> /
                                     (vec_norm t * vec_norm x_unit_vector))
                in toRotationMatrix (angle, vec_normalized rotation_axis)));
          R1 = mat_mul R_x R1;
          R2 = mat_mul R_x R2;
          t = mat_vec R_x t
      in (R1, R2, t))"

text \<open>The matrix \<^verbatim>\<open>K\<close> of \<^verbatim>\<open>Determine the intrinsic calibration matrix\<close>.\<close>

definition RectifiedCalibration :: "Camera \<Rightarrow> Camera \<Rightarrow> mat" where
  "RectifiedCalibration camera1 camera2 =
     (let K = Identity3;
          K = mat_set K 0 0 (min (MeanFocalLength camera1) (MeanFocalLength camera2));
          K = mat_set K 1 1 (K ! 0 ! 0);
          K = mat_set K 0 2 (PrincipalPointX camera1)
      in mat_set K 1 2 ((PrincipalPointY camera1 + PrincipalPointY camera2) / 2))"

text \<open>The matrix \<^verbatim>\<open>Q\<close>, assignment by assignment.\<close>

definition DisparityToDepth :: "mat \<Rightarrow> vec \<Rightarrow> mat" where
  "DisparityToDepth K t =
     (let Q = Identity4;
          Q = mat_set Q 3 0 (- (K ! 1 ! 2));
          Q = mat_set Q 3 1 (- (K ! 0 ! 2));
          Q = mat_set Q 3 2 (K ! 0 ! 0);
          Q = mat_set Q 2 3 (- 1 / t ! 0)
      in mat_set Q 3 3 0)"

definition RectifyStereoCameras ::
  "Camera \<Rightarrow> Camera \<Rightarrow> vec \<Rightarrow> vec \<Rightarrow> error + mat \<times> mat \<times> mat" where
  "RectifyStereoCameras camera1 camera2 qvec tvec =
     (if \<not> (ModelId camera1 = SimplePinholeCameraModel \<or> ModelId camera1 = PinholeCameraModel)
        then Inl (CheckFailed ''CHECK(camera1.ModelId() == SimplePinholeCameraModel::model_id || camera1.ModelId() == PinholeCameraModel::model_id)'')
      else if \<not> (ModelId camera2 = SimplePinholeCameraModel \<or> ModelId camera2 = PinholeCameraModel)
        then Inl (CheckFailed ''CHECK(camera2.ModelId() == SimplePinholeCameraModel::model_id || camera2.ModelId() == PinholeCameraModel::model_id)'')
      else
        (let (R1, R2, t) = RectifyingRotations qvec tvec;
             K = RectifiedCalibration camera1 camera2;
             H1 = mat_mul (mat_mul K R1) (mat3_inverse (CalibrationMatrix camera1));
             H2 = mat_mul (mat_mul K R2) (mat3_inverse (CalibrationMatrix camera2));
             Q = DisparityToDepth K t
         in Inr (H1, H2, Q)))"

subsection \<open>Concrete cameras, options and camera operations\<close>

text \<open>
  The inputs at which the theorems below are evaluated. \<open>ExampleOps\<close> is one instance of
  the four operations that are outside the sources: it knows the kinds \<^verbatim>\<open>SIMPLE_PINHOLE\<close>,
  \<^verbatim>\<open>PINHOLE\<close> and \<^verbatim>\<open>SIMPLE_RADIAL\<close> by name, reads a parameter string of unsigned
  integers separated by commas, stores the parameters of the two pinhole kinds in the
  order focal length(s), principal point, and rescales a camera of positive width and
  height by rounding the new width and height to the nearest integer.
\<close>

fun CSVToVector :: "nat \<Rightarrow> string \<Rightarrow> real list" where
  "CSVToVector n [] = [real n]"
| "CSVToVector n (c # cs) =
     (if c = CHR '','' then real n # CSVToVector 0 cs
      else CSVToVector (10 * n + (of_char c - 48)) cs)"

definition ExampleNameToId :: "string \<Rightarrow> model_id" where
  "ExampleNameToId name =
     (if name = ''SIMPLE_PINHOLE'' then SimplePinholeCameraModel
      else if name = ''PINHOLE'' then PinholeCameraModel
      else if name = ''SIMPLE_RADIAL'' then OtherCameraModel 2
      else OtherCameraModel (- 1))"

definition ExampleSetParams :: "string \<Rightarrow> Camera \<Rightarrow> Camera" where
  "ExampleSetParams s camera =
     (let ps = CSVToVector 0 s
      in case ModelId camera of
           SimplePinholeCameraModel \<Rightarrow>
             camera\<lparr>FocalLengthX := ps ! 0, FocalLengthY := ps ! 0,
                    PrincipalPointX := ps ! 1, PrincipalPointY := ps ! 2\<rparr>
         | PinholeCameraModel \<Rightarrow>
             camera\<lparr>FocalLengthX := ps ! 0, FocalLengthY := ps ! 1,
                    PrincipalPointX := ps ! 2, PrincipalPointY := ps ! 3\<rparr>
         | OtherCameraModel k \<Rightarrow> camera)"

definition ExampleVerifyParams :: "Camera \<Rightarrow> bool" where
  "ExampleVerifyParams camera =
     (case ModelId camera of OtherCameraModel k \<Rightarrow> 0 \<le> k | _ \<Rightarrow> True)"

definition ExampleRescale :: "real \<Rightarrow> Camera \<Rightarrow> Camera" where
  "ExampleRescale s camera =
     (let w = nat \<lfloor>s * real (Width camera) + 1 / 2\<rfloor>;
          h = nat \<lfloor>s * real (Height camera) + 1 / 2\<rfloor>;
          sx = real w / real (Width camera);
          sy = real h / real (Height camera)
      in camera\<lparr>Width := w, Height := h,
                FocalLengthX := sx * FocalLengthX camera,
                FocalLengthY := sy * FocalLengthY camera,
                PrincipalPointX := sx * PrincipalPointX camera,
                PrincipalPointY := sy * PrincipalPointY camera\<rparr>)"

definition ExampleOps :: CameraOps where
  "ExampleOps =
     \<lparr>CameraModelNameToId = ExampleNameToId,
      SetParamsFromString = ExampleSetParams,
      VerifyParams = ExampleVerifyParams,
      Rescale = ExampleRescale\<rparr>"

text \<open>A pinhole camera of 640 x 480 pixels, focal length 500, principal point (320, 240).\<close>

definition ExamplePinhole :: Camera where
  "ExamplePinhole =
     \<lparr>ModelId = PinholeCameraModel, Width = 640, Height = 480,
      FocalLengthIdxs = [0, 1], PrincipalPointIdxs = [2, 3],
      FocalLengthX = 500, FocalLengthY = 500, PrincipalPointX = 320, PrincipalPointY = 240,
      Unproject = id, Project = id\<rparr>"

text \<open>
  A pinhole camera of 3 x 4 pixels with focal length 1 and principal point (0, 0): its
  \<open>ImageToWorld\<close> is the identity.
\<close>

definition UnitPinhole :: Camera where
  "UnitPinhole =
     \<lparr>ModelId = PinholeCameraModel, Width = 3, Height = 4,
      FocalLengthIdxs = [0, 1], PrincipalPointIdxs = [2, 3],
      FocalLengthX = 1, FocalLengthY = 1, PrincipalPointX = 0, PrincipalPointY = 0,
      Unproject = id, Project = id\<rparr>"

text \<open>
  A pinhole camera of 4 x 4 pixels with focal length 1 and principal point (1, 0): the
  corner farthest from the principal point is (4, 4), at distance 5.
\<close>

definition SquarePinhole :: Camera where
  "SquarePinhole =
     \<lparr>ModelId = PinholeCameraModel, Width = 4, Height = 4,
      FocalLengthIdxs = [0, 1], PrincipalPointIdxs = [2, 3],
      FocalLengthX = 1, FocalLengthY = 1, PrincipalPointX = 1, PrincipalPointY = 0,
      Unproject = id, Project = id\<rparr>"

text \<open>
  A pinhole camera of 4 x 3 pixels with focal length 1.5 and principal point (2.5, 2),
  to the right of and below the centre (2, 1.5) of the image.
\<close>

definition OffCentrePinhole :: Camera where
  "OffCentrePinhole =
     \<lparr>ModelId = PinholeCameraModel, Width = 4, Height = 3,
      FocalLengthIdxs = [0, 1], PrincipalPointIdxs = [2, 3],
      FocalLengthX = 3 / 2, FocalLengthY = 3 / 2, PrincipalPointX = 5 / 2, PrincipalPointY = 2,
      Unproject = id, Project = id\<rparr>"

text \<open>
  A camera of the kind \<^verbatim>\<open>SIMPLE_RADIAL\<close> (model id 2) with distortion coefficient 0: 2 x 2
  pixels, focal length 1, principal point (1, 1). Without distortion its two maps are those
  of a pinhole camera.
\<close>

definition PlainRadialUnproject :: "vec2 \<Rightarrow> vec2" where
  "PlainRadialUnproject p = (fst p - 1, snd p - 1)"

definition PlainRadialProject :: "vec2 \<Rightarrow> vec2" where
  "PlainRadialProject w = (fst w + 1, snd w + 1)"

definition PlainRadial :: Camera where
  "PlainRadial =
     \<lparr>ModelId = OtherCameraModel 2, Width = 2, Height = 2,
      FocalLengthIdxs = [0], PrincipalPointIdxs = [1, 2],
      FocalLengthX = 1, FocalLengthY = 1, PrincipalPointX = 1, PrincipalPointY = 1,
      Unproject = PlainRadialUnproject, Project = PlainRadialProject\<rparr>"

text \<open>
  A camera of another kind whose back-projection is not monotonic: image points with
  \<open>2 \<le> x < 3\<close> go to the direction \<open>(1, 0)\<close> (45 degrees), all others to the optical axis.
\<close>

definition BandUnproject :: "vec2 \<Rightarrow> vec2" where
  "BandUnproject p = (if 2 \<le> fst p \<and> fst p < 3 then (1, 0) else (0, 0))"

definition BandCamera :: Camera where
  "BandCamera =
     \<lparr>ModelId = OtherCameraModel 2, Width = 4, Height = 4,
      FocalLengthIdxs = [0], PrincipalPointIdxs = [1, 2],
      FocalLengthX = 1, FocalLengthY = 1, PrincipalPointX = 0, PrincipalPointY = 0,
      Unproject = BandUnproject, Project = id\<rparr>"

text \<open>
  Options that pass every check: no override, no size limit, focal lengths copied.
\<close>

definition ExampleOptions :: UndistortCameraOptions where
  "ExampleOptions =
     \<lparr>blank_pixels = 1 / 2, min_scale = 1 / 2, max_scale = 2, max_image_size = - 1,
      max_fov = 120, max_horizontal_fov = 180, max_vertical_fov = 180,
      camera_model_override = [], camera_model_override_params = [],
      estimate_focal_length_from_fov = False\<rparr>"

text \<open>The same options with \<^verbatim>\<open>estimate_focal_length_from_fov\<close> set.\<close>

definition EstimateOptions :: UndistortCameraOptions where
  "EstimateOptions = ExampleOptions\<lparr>estimate_focal_length_from_fov := True\<rparr>"

section \<open>Properties\<close>

subsection \<open>RectifyStereoCameras\<close>

lemma RectifyingRotations_aligned:
  "RectifyingRotations [1, 0, 0, 0] [0.1, 0, 0] = (Identity3, Identity3, [0.1, 0, 0])"
  by (simp add: RectifyingRotations_def AngleAxis_of_Quaternion_def toRotationMatrix_def
      vec_norm_def vec_dot_def vec_scale_def Let_def mat_vec_def vec3_cross_def Identity3_def
      mat_mul_def DBL_EPSILON_def)

lemma mat_mul_Identity3_right:
  "mat_mul [[a, b, c], [d, e, f], [g, h, i]] Identity3 = [[a, b, c], [d, e, f], [g, h, i]]"
  by (simp add: mat_mul_def Identity3_def vec_dot_def)

lemma RectifiedCalibration_eq:
  "RectifiedCalibration camera1 camera2 =
     [[min (MeanFocalLength camera1) (MeanFocalLength camera2), 0, PrincipalPointX camera1],
      [0, min (MeanFocalLength camera1) (MeanFocalLength camera2),
       (PrincipalPointY camera1 + PrincipalPointY camera2) / 2],
      [0, 0, 1]]"
  by (simp add: RectifiedCalibration_def Identity3_def mat_set_def Let_def)

lemma DisparityToDepth_eq:
  "DisparityToDepth K t =
     [[1, 0, 0, 0], [0, 1, 0, 0], [0, 0, 1, - 1 / t ! 0],
      [- (K ! 1 ! 2), - (K ! 0 ! 2), K ! 0 ! 0, 0]]"
  by (simp add: DisparityToDepth_def Identity4_def mat_set_def Let_def)

lemma row_vector_times_DisparityToDepth:
  "vec_mat [x, y, d, 1] (DisparityToDepth K t) =
     [x - K ! 1 ! 2, y - K ! 0 ! 2, d + K ! 0 ! 0, - d / t ! 0]"
  by (simp add: DisparityToDepth_eq vec_mat_def vec_dot_def)

lemma calibration_times_inverse:
  assumes "fx \<noteq> 0" "fy \<noteq> 0"
  shows "mat_mul [[fx, 0, cx], [0, fy, cy], [0, 0, 1]]
           (mat3_inverse [[fx, 0, cx], [0, fy, cy], [0, 0, 1]]) = Identity3"
  using assms
  by (simp add: mat_mul_def mat3_inverse_def mat3_determinant_def Identity3_def vec_dot_def
      Let_def field_simps)

lemma RectifyStereoCameras_identical_aligned:
  assumes "ModelId camera = SimplePinholeCameraModel \<or> ModelId camera = PinholeCameraModel"
    and "FocalLengthX camera = f" and "FocalLengthY camera = f" and "f \<noteq> 0"
  shows "RectifyStereoCameras camera camera [1, 0, 0, 0] [0.1, 0, 0] =
           Inr (Identity3, Identity3,
                [[1, 0, 0, 0], [0, 1, 0, 0], [0, 0, 1, - 10],
                 [- PrincipalPointY camera, - PrincipalPointX camera, f, 0]])"
proof -
  have K: "RectifiedCalibration camera camera = CalibrationMatrix camera"
    using assms by (simp add: RectifiedCalibration_eq CalibrationMatrix_def MeanFocalLength_def)
  have inv: "mat_mul (CalibrationMatrix camera) (mat3_inverse (CalibrationMatrix camera)) = Identity3"
    unfolding CalibrationMatrix_def using assms by (intro calibration_times_inverse) simp_all
  have KI: "mat_mul (CalibrationMatrix camera) Identity3 = CalibrationMatrix camera"
    unfolding CalibrationMatrix_def by (rule mat_mul_Identity3_right)
  have Q: "DisparityToDepth (CalibrationMatrix camera) [0.1, 0, 0] =
             [[1, 0, 0, 0], [0, 1, 0, 0], [0, 0, 1, - 10],
              [- PrincipalPointY camera, - PrincipalPointX camera, f, 0]]"
    using assms by (simp add: DisparityToDepth_eq CalibrationMatrix_def)
  show ?thesis
    using assms(1)
    by (simp add: RectifyStereoCameras_def RectifyingRotations_aligned K KI inv Q Let_def)
qed

text \<open>
  C3. Two identical cameras of a pinhole kind with focal length 500, the identity rotation
  \<open>qvec = (1, 0, 0, 0)\<close> and the baseline \<open>tvec = (0.1, 0, 0)\<close>: \<open>RectifyStereoCameras\<close>
  returns \<open>H1 = H2 = identity\<close> and a matrix \<open>Q\<close> with \<open>Q(2, 3) = -10\<close>. The rotation axis
  \<open>t \<times> x\<close> is zero here, so the correction rotation is the identity.
\<close>

theorem C3_identical_cameras_aligned_baseline:
  assumes "ModelId camera = SimplePinholeCameraModel \<or> ModelId camera = PinholeCameraModel"
    and "FocalLengthX camera = 500" and "FocalLengthY camera = 500"
  shows "case RectifyStereoCameras camera camera [1, 0, 0, 0] [0.1, 0, 0] of
           Inl e \<Rightarrow> False
         | Inr (H1, H2, Q) \<Rightarrow> H1 = Identity3 \<and> H2 = Identity3 \<and> Q ! 2 ! 3 = - 1 / 0.1 \<and>
             Q ! 2 ! 3 = - 10"
  using RectifyStereoCameras_identical_aligned [OF assms(1) assms(2) assms(3)] by simp

theorem C3_witness:
  "(ModelId ExamplePinhole = SimplePinholeCameraModel \<or>
      ModelId ExamplePinhole = PinholeCameraModel) \<and>
   FocalLengthX ExamplePinhole = 500 \<and> FocalLengthY ExamplePinhole = 500 \<and>
   (case RectifyStereoCameras ExamplePinhole ExamplePinhole [1, 0, 0, 0] [0.1, 0, 0] of
      Inl e \<Rightarrow> False
    | Inr (H1, H2, Q) \<Rightarrow> H1 = Identity3 \<and> H2 = Identity3 \<and> Q ! 2 ! 3 = - 1 / 0.1 \<and>
        Q ! 2 ! 3 = - 10)"
proof -
  have m: "ModelId ExamplePinhole = SimplePinholeCameraModel \<or>
           ModelId ExamplePinhole = PinholeCameraModel"
    by (simp add: ExamplePinhole_def)
  have fx: "FocalLengthX ExamplePinhole = 500" by (simp add: ExamplePinhole_def)
  have fy: "FocalLengthY ExamplePinhole = 500" by (simp add: ExamplePinhole_def)
  from C3_identical_cameras_aligned_baseline [OF m fx fy] m fx fy show ?thesis by blast
qed

text \<open>
  C4. At the failing input: two pinhole cameras of 640 x 480 pixels, focal length 500,
  principal point (320, 240), identity rotation, baseline (0.1, 0, 0). The product
  \<open>[x, y, d, 1] \<cdot> Q\<close> subtracts \<open>K(1, 2) = 240\<close>, the vertical principal-point offset, from
  \<open>x\<close> and \<open>K(0, 2) = 320\<close>, the horizontal one, from \<open>y\<close>; its third entry is \<open>d + K(0, 0)\<close>
  and its fourth \<open>- d / t(0)\<close>.
\<close>

theorem C4_principal_point_offsets_swapped:
  "RectifiedCalibration ExamplePinhole ExamplePinhole ! 0 ! 2 = 320 \<and>
   RectifiedCalibration ExamplePinhole ExamplePinhole ! 1 ! 2 = 240 \<and>
   (\<exists>H1 H2 Q. RectifyStereoCameras ExamplePinhole ExamplePinhole [1, 0, 0, 0] [0.1, 0, 0] =
                  Inr (H1, H2, Q) \<and>
               vec_mat [x, y, d, 1] Q = [x - 240, y - 320, d + 500, - d / 0.1])"
proof -
  have m: "ModelId ExamplePinhole = SimplePinholeCameraModel \<or>
           ModelId ExamplePinhole = PinholeCameraModel"
    by (simp add: ExamplePinhole_def)
  have r: "RectifyStereoCameras ExamplePinhole ExamplePinhole [1, 0, 0, 0] [0.1, 0, 0] =
           Inr (Identity3, Identity3,
                [[1, 0, 0, 0], [0, 1, 0, 0], [0, 0, 1, - 10], [- 240, - 320, 500, 0]])"
    using RectifyStereoCameras_identical_aligned [OF m, of 500]
    by (simp add: ExamplePinhole_def)
  have v: "vec_mat [x, y, d, 1]
             [[1, 0, 0, 0], [0, 1, 0, 0], [0, 0, 1, - 10], [- 240, - 320, 500, 0]] =
           [x - 240, y - 320, d + 500, - d / 0.1]"
    by (simp add: vec_mat_def vec_dot_def)
  show ?thesis
    using r v by (simp add: RectifiedCalibration_eq ExamplePinhole_def)
qed

subsection \<open>The bisection of SelectPointOnRay\<close>

lemma bisection_rounds_width:
  "snd (bisection_rounds valid n (l, r)) - fst (bisection_rounds valid n (l, r)) = (r - l) / 2 ^ n"
proof (induction n arbitrary: l r)
  case 0
  then show ?case by simp
next
  case (Suc n)
  let ?m = "(r + l) / 2"
  have a: "(r - ?m) / 2 ^ n = (r - l) / 2 ^ Suc n" by (simp add: field_simps)
  have b: "(?m - l) / 2 ^ n = (r - l) / 2 ^ Suc n" by (simp add: field_simps)
  show ?case
  proof (cases "valid ?m")
    case True
    with Suc.IH [of ?m r] a show ?thesis by (simp add: Let_def)
  next
    case False
    with Suc.IH [of l ?m] b show ?thesis by (simp add: Let_def)
  qed
qed

lemma bisection_rounds_bounds:
  "l \<le> r \<Longrightarrow> l \<le> fst (bisection_rounds valid n (l, r)) \<and>
     fst (bisection_rounds valid n (l, r)) \<le> snd (bisection_rounds valid n (l, r)) \<and>
     snd (bisection_rounds valid n (l, r)) \<le> r"
proof (induction n arbitrary: l r)
  case 0
  then show ?case by simp
next
  case (Suc n)
  let ?m = "(r + l) / 2"
  have lm: "l \<le> ?m" and mr: "?m \<le> r" using Suc.prems by simp_all
  show ?case
  proof (cases "valid ?m")
    case True
    with Suc.IH [OF mr] lm show ?thesis by (simp add: Let_def)
  next
    case False
    with Suc.IH [OF lm] mr show ?thesis by (simp add: Let_def)
  qed
qed

lemma bisection_rounds_lower_valid:
  "fst (bisection_rounds valid n (l, r)) = l \<or> valid (fst (bisection_rounds valid n (l, r)))"
proof (induction n arbitrary: l r)
  case 0
  then show ?case by simp
next
  case (Suc n)
  let ?m = "(r + l) / 2"
  show ?case
  proof (cases "valid ?m")
    case True
    have eq: "bisection_rounds valid (Suc n) (l, r) = bisection_rounds valid n (?m, r)"
      using True by (simp add: Let_def)
    from Suc.IH [of ?m r] True show ?thesis unfolding eq by metis
  next
    case False
    have eq: "bisection_rounds valid (Suc n) (l, r) = bisection_rounds valid n (l, ?m)"
      using False by (simp add: Let_def)
    from Suc.IH [of l ?m] show ?thesis unfolding eq .
  qed
qed

lemma bisection_rounds_upper_invalid:
  "snd (bisection_rounds valid n (l, r)) = r \<or> \<not> valid (snd (bisection_rounds valid n (l, r)))"
proof (induction n arbitrary: l r)
  case 0
  then show ?case by simp
next
  case (Suc n)
  let ?m = "(r + l) / 2"
  show ?case
  proof (cases "valid ?m")
    case True
    have eq: "bisection_rounds valid (Suc n) (l, r) = bisection_rounds valid n (?m, r)"
      using True by (simp add: Let_def)
    from Suc.IH [of ?m r] show ?thesis unfolding eq .
  next
    case False
    have eq: "bisection_rounds valid (Suc n) (l, r) = bisection_rounds valid n (l, ?m)"
      using False by (simp add: Let_def)
    from Suc.IH [of l ?m] False show ?thesis unfolding eq by metis
  qed
qed

lemma bisection_rounds_all_valid:
  "(\<And>m. min l r \<le> m \<Longrightarrow> m \<le> max l r \<Longrightarrow> valid m) \<Longrightarrow>
   fst (bisection_rounds valid n (l, r)) = r - (r - l) / 2 ^ n"
proof (induction n arbitrary: l)
  case 0
  then show ?case by simp
next
  case (Suc n)
  let ?m = "(r + l) / 2"
  have vm: "valid ?m" by (rule Suc.prems) (auto simp: min_def max_def)
  have "fst (bisection_rounds valid n (?m, r)) = r - (r - ?m) / 2 ^ n"
    by (rule Suc.IH) (rule Suc.prems, auto simp: min_def max_def)
  with vm show ?case by (simp add: Let_def field_simps)
qed

lemma bisection_rounds_none_valid:
  "(\<And>m. l < m \<Longrightarrow> m < r \<Longrightarrow> \<not> valid m) \<Longrightarrow> l \<le> r \<Longrightarrow>
   fst (bisection_rounds valid n (l, r)) = l"
proof (induction n arbitrary: r)
  case 0
  then show ?case by simp
next
  case (Suc n)
  let ?m = "(r + l) / 2"
  show ?case
  proof (cases "l < r")
    case True
    then have "\<not> valid ?m" by (intro Suc.prems(1)) simp_all
    moreover have "fst (bisection_rounds valid n (l, ?m)) = l"
      using True by (intro Suc.IH Suc.prems(1)) simp_all
    ultimately show ?thesis by (simp add: Let_def)
  next
    case False
    with Suc.prems(2) have eq: "r = l" by simp
    have "fst (bisection_rounds valid n (l, l)) = l"
      using bisection_rounds_bounds [of l l valid n] by simp
    then show ?thesis by (simp add: eq Let_def)
  qed
qed


lemma vec2_norm_nonneg: "0 \<le> vec2_norm a"
  by (simp add: vec2_norm_def)

lemma vec2_norm_pos_iff: "0 < vec2_norm a \<longleftrightarrow> 0 < (fst a)\<^sup>2 + (snd a)\<^sup>2"
  by (simp add: vec2_norm_def)

lemma vec2_norm_normalized:
  "0 < (fst a)\<^sup>2 + (snd a)\<^sup>2 \<Longrightarrow> vec2_norm (vec2_normalized a) = 1"
proof -
  assume pos: "0 < (fst a)\<^sup>2 + (snd a)\<^sup>2"
  let ?n = "vec2_norm a"
  have n2: "?n\<^sup>2 = (fst a)\<^sup>2 + (snd a)\<^sup>2"
    using pos by (simp add: vec2_norm_def)
  have npos: "0 < ?n" using pos by (simp add: vec2_norm_pos_iff)
  have "(fst a / ?n)\<^sup>2 + (snd a / ?n)\<^sup>2 = ((fst a)\<^sup>2 + (snd a)\<^sup>2) / ?n\<^sup>2"
    by (simp add: power_divide add_divide_distrib)
  also have "\<dots> = ?n\<^sup>2 / ?n\<^sup>2" by (simp only: n2)
  also have "\<dots> = 1" using npos by simp
  finally show ?thesis using pos by (simp add: vec2_normalized_def vec2_norm_def)
qed

lemma vec2_norm_scale: "vec2_norm (vec2_scale a s) = \<bar>s\<bar> * vec2_norm a"
proof -
  have "(fst a * s)\<^sup>2 + (snd a * s)\<^sup>2 = s\<^sup>2 * ((fst a)\<^sup>2 + (snd a)\<^sup>2)"
    by (simp add: power_mult_distrib algebra_simps)
  then show ?thesis
    by (simp add: vec2_norm_def vec2_scale_def real_sqrt_mult)
qed

lemma vec2_add_sub_cancel: "vec2_sub (vec2_add a b) a = b"
  by (simp add: vec2_add_def vec2_sub_def)

lemma vec2_scale_normalized:
  "vec2_scale (vec2_normalized a) l = vec2_scale a (l / vec2_norm a)"
proof (cases "0 < (fst a)\<^sup>2 + (snd a)\<^sup>2")
  case True
  then show ?thesis by (simp add: vec2_scale_def vec2_normalized_def)
next
  case False
  then have "fst a = 0" "snd a = 0"
    by (simp_all add: sum_power2_gt_zero_iff)
  then show ?thesis by (simp add: vec2_scale_def vec2_normalized_def)
qed

lemma bisection_rounds_all_valid_open:
  "(\<And>m. min l r < m \<Longrightarrow> m < max l r \<Longrightarrow> valid m) \<Longrightarrow> l \<noteq> r \<Longrightarrow>
   fst (bisection_rounds valid n (l, r)) = r - (r - l) / 2 ^ n"
proof (induction n arbitrary: l)
  case 0
  then show ?case by simp
next
  case (Suc n)
  let ?m = "(r + l) / 2"
  have vm: "valid ?m" using Suc.prems(2) by (intro Suc.prems(1)) (auto simp: min_def max_def)
  have ne: "?m \<noteq> r" using Suc.prems(2) by simp
  have "fst (bisection_rounds valid n (?m, r)) = r - (r - ?m) / 2 ^ n"
  proof (rule Suc.IH [OF _ ne])
    fix m assume "min ?m r < m" "m < max ?m r"
    then show "valid m" by (intro Suc.prems(1)) (auto simp: min_def max_def split: if_splits)
  qed
  with vm show ?case by (simp add: Let_def field_simps)
qed

lemma bisection_step_valid:
  "valid ((r + l) / 2) \<Longrightarrow> n = Suc k \<Longrightarrow>
   bisection_rounds valid n (l, r) = bisection_rounds valid k ((r + l) / 2, r)"
  by (simp add: Let_def)

lemma bisection_step_invalid:
  "\<not> valid ((r + l) / 2) \<Longrightarrow> n = Suc k \<Longrightarrow>
   bisection_rounds valid n (l, r) = bisection_rounds valid k (l, (r + l) / 2)"
  by (simp add: Let_def)

lemma vec2_norm_on_x_axis: "vec2_norm (x, 0) = \<bar>x\<bar>"
  by (simp add: vec2_norm_def)

lemma vec2_normalized_on_x_axis: "0 < x \<Longrightarrow> vec2_normalized (x, 0) = (1, 0)"
  by (simp add: vec2_normalized_def vec2_norm_def)

lemma arctan_less_quarter_pi: "arctan x * 4 < pi \<longleftrightarrow> x < 1"
  using arctan_less_iff [of x 1] by (simp add: arctan_one)

lemma m_valid_UnitPinhole:
  "m_valid UnitPinhole (a, 0) (1, 0) (pi / 4) (pi / 4) (pi / 4) m \<longleftrightarrow> \<bar>a + m\<bar> < 1"
  by (auto simp: m_valid_def ImageToWorld_def UnitPinhole_def vec2_add_def vec2_scale_def
      vec2_norm_on_x_axis arctan_less_quarter_pi Let_def)

lemma m_valid_BandCamera:
  "m_valid BandCamera (0, 0) (1, 0) (pi / 4) (pi / 4) (pi / 4) m \<longleftrightarrow> \<not> (2 \<le> m \<and> m < 3)"
  by (auto simp: m_valid_def ImageToWorld_def BandCamera_def BandUnproject_def vec2_add_def
      vec2_scale_def vec2_norm_on_x_axis arctan_less_quarter_pi Let_def)

lemma SelectLengthOnRay_along_x_axis:
  "a < b \<Longrightarrow>
   SelectLengthOnRay camera (a, 0) (b, 0) max_length max_angle max_horizontal_angle
       max_vertical_angle =
     fst (bisection_rounds
            (m_valid camera (a, 0) (1, 0) max_angle max_horizontal_angle max_vertical_angle)
            32 (0, min max_length (b - a)))"
  by (simp add: SelectLengthOnRay_def vec2_sub_def vec2_norm_on_x_axis
      vec2_normalized_on_x_axis Let_def)

lemma SelectPointOnRay_along_x_axis:
  "a < b \<Longrightarrow>
   SelectPointOnRay camera (a, 0) (b, 0) max_length max_angle max_horizontal_angle
       max_vertical_angle =
     (a + SelectLengthOnRay camera (a, 0) (b, 0) max_length max_angle max_horizontal_angle
            max_vertical_angle, 0)"
  by (simp add: SelectPointOnRay_def vec2_sub_def vec2_normalized_on_x_axis vec2_add_def
      vec2_scale_def Let_def)

text \<open>
  The length \<open>l\<close> that the search returns at the inputs used below. Where the first
  rounds decide, they are taken one by one; the rest follows from the two lemmas on a
  range without an invalid, or without a valid, midpoint.
\<close>

lemma length_all_valid_half:
  "SelectLengthOnRay UnitPinhole (0, 0) (1 / 2, 0) (1 / 2) (pi / 4) (pi / 4) (pi / 4) =
     1 / 2 - 1 / 2 ^ 33"
proof -
  have "fst (bisection_rounds (m_valid UnitPinhole (0, 0) (1, 0) (pi / 4) (pi / 4) (pi / 4))
               32 (0, 1 / 2)) = 1 / 2 - (1 / 2 - 0) / 2 ^ 32"
    by (rule bisection_rounds_all_valid_open) (simp_all add: m_valid_UnitPinhole)
  then show ?thesis by (simp add: SelectLengthOnRay_along_x_axis)
qed

lemma length_threshold_one:
  "SelectLengthOnRay UnitPinhole (0, 0) (2, 0) 1 (pi / 4) (pi / 4) (pi / 4) = 1 - 1 / 2 ^ 32"
proof -
  have "fst (bisection_rounds (m_valid UnitPinhole (0, 0) (1, 0) (pi / 4) (pi / 4) (pi / 4))
               32 (0, 1)) = 1 - (1 - 0) / 2 ^ 32"
    by (rule bisection_rounds_all_valid_open) (simp_all add: m_valid_UnitPinhole)
  then show ?thesis by (simp add: SelectLengthOnRay_along_x_axis)
qed

lemma length_threshold_two:
  "SelectLengthOnRay UnitPinhole (0, 0) (2, 0) 2 (pi / 4) (pi / 4) (pi / 4) = 1 - 1 / 2 ^ 31"
proof -
  let ?V = "m_valid UnitPinhole (0, 0) (1, 0) (pi / 4) (pi / 4) (pi / 4)"
  have "bisection_rounds ?V 32 (0, 2) = bisection_rounds ?V 31 (0, (2 + 0) / 2)"
    by (rule bisection_step_invalid) (simp_all add: m_valid_UnitPinhole)
  moreover have "fst (bisection_rounds ?V 31 (0, 1)) = 1 - (1 - 0) / 2 ^ 31"
    by (rule bisection_rounds_all_valid_open) (simp_all add: m_valid_UnitPinhole)
  ultimately show ?thesis by (simp add: SelectLengthOnRay_along_x_axis)
qed

lemma length_offcentre_eight:
  "SelectLengthOnRay UnitPinhole (- 4, 0) (8, 0) 8 (pi / 4) (pi / 4) (pi / 4) = 5 - 1 / 2 ^ 29"
proof -
  let ?V = "m_valid UnitPinhole (- 4, 0) (1, 0) (pi / 4) (pi / 4) (pi / 4)"
  have "bisection_rounds ?V 32 (0, 8) = bisection_rounds ?V 31 ((8 + 0) / 2, 8)"
    by (rule bisection_step_valid) (simp_all add: m_valid_UnitPinhole)
  moreover have "bisection_rounds ?V 31 (4, 8) = bisection_rounds ?V 30 (4, (8 + 4) / 2)"
    by (rule bisection_step_invalid) (simp_all add: m_valid_UnitPinhole)
  moreover have "bisection_rounds ?V 30 (4, 6) = bisection_rounds ?V 29 (4, (6 + 4) / 2)"
    by (rule bisection_step_invalid) (simp_all add: m_valid_UnitPinhole)
  moreover have "fst (bisection_rounds ?V 29 (4, 5)) = 5 - (5 - 4) / 2 ^ 29"
    by (rule bisection_rounds_all_valid_open) (simp_all add: m_valid_UnitPinhole)
  ultimately show ?thesis by (simp add: SelectLengthOnRay_along_x_axis)
qed

lemma length_offcentre_twelve:
  "SelectLengthOnRay UnitPinhole (- 4, 0) (8, 0) 12 (pi / 4) (pi / 4) (pi / 4) = 0"
proof -
  let ?V = "m_valid UnitPinhole (- 4, 0) (1, 0) (pi / 4) (pi / 4) (pi / 4)"
  have "bisection_rounds ?V 32 (0, 12) = bisection_rounds ?V 31 (0, (12 + 0) / 2)"
    by (rule bisection_step_invalid) (simp_all add: m_valid_UnitPinhole)
  moreover have "bisection_rounds ?V 31 (0, 6) = bisection_rounds ?V 30 (0, (6 + 0) / 2)"
    by (rule bisection_step_invalid) (simp_all add: m_valid_UnitPinhole)
  moreover have "fst (bisection_rounds ?V 30 (0, 3)) = 0"
    by (rule bisection_rounds_none_valid) (simp_all add: m_valid_UnitPinhole)
  ultimately show ?thesis by (simp add: SelectLengthOnRay_along_x_axis)
qed

lemma length_negative_max_length:
  "SelectLengthOnRay UnitPinhole (0, 0) (1, 0) (- 1) (pi / 4) (pi / 4) (pi / 4) = - 1 + 1 / 2 ^ 32"
proof -
  have "fst (bisection_rounds (m_valid UnitPinhole (0, 0) (1, 0) (pi / 4) (pi / 4) (pi / 4))
               32 (0, - 1)) = - 1 - (- 1 - 0) / 2 ^ 32"
    by (rule bisection_rounds_all_valid_open) (simp_all add: m_valid_UnitPinhole)
  then show ?thesis by (simp add: SelectLengthOnRay_along_x_axis)
qed

lemma length_band:
  "SelectLengthOnRay BandCamera (0, 0) (4, 0) 4 (pi / 4) (pi / 4) (pi / 4) = 2 - 1 / 2 ^ 30"
proof -
  let ?V = "m_valid BandCamera (0, 0) (1, 0) (pi / 4) (pi / 4) (pi / 4)"
  have "bisection_rounds ?V 32 (0, 4) = bisection_rounds ?V 31 (0, (4 + 0) / 2)"
    by (rule bisection_step_invalid) (simp_all add: m_valid_BandCamera)
  moreover have "fst (bisection_rounds ?V 31 (0, 2)) = 2 - (2 - 0) / 2 ^ 31"
    by (rule bisection_rounds_all_valid_open) (simp_all add: m_valid_BandCamera)
  ultimately show ?thesis by (simp add: SelectLengthOnRay_along_x_axis)
qed

subsection \<open>SelectPointOnRay: what the search returns\<close>

lemma bisection_rounds_upper_eq:
  "snd (bisection_rounds valid n (l, r)) = fst (bisection_rounds valid n (l, r)) + (r - l) / 2 ^ n"
  using bisection_rounds_width [of valid n l r] by simp

lemma bisection_rounds_next_invalid:
  "fst (bisection_rounds valid n (0, r)) + r / 2 ^ n = r \<or>
   \<not> valid (fst (bisection_rounds valid n (0, r)) + r / 2 ^ n)"
  using bisection_rounds_upper_invalid [of valid n 0 r] bisection_rounds_upper_eq [of valid n 0 r]
  by simp

lemma bisection_rounds_nearly_farthest:
  assumes r0: "0 \<le> r"
    and closed: "\<And>m m'. 0 \<le> m' \<Longrightarrow> m' \<le> m \<Longrightarrow> m \<le> r \<Longrightarrow> valid m \<Longrightarrow> valid m'"
    and m: "m \<le> r" "valid m"
  shows "m \<le> fst (bisection_rounds valid n (0, r)) + r / 2 ^ n"
proof -
  let ?u = "fst (bisection_rounds valid n (0, r)) + r / 2 ^ n"
  have l0: "0 \<le> fst (bisection_rounds valid n (0, r))"
    using bisection_rounds_bounds [OF r0, of valid n] by simp
  have u0: "0 \<le> ?u" using l0 r0 by simp
  from bisection_rounds_next_invalid [of valid n r] show ?thesis
  proof
    assume "?u = r"
    with m(1) show ?thesis by simp
  next
    assume inv: "\<not> valid ?u"
    show ?thesis
    proof (rule ccontr)
      assume "\<not> m \<le> ?u"
      then have "?u \<le> m" by simp
      with u0 have "valid ?u" using closed m by blast
      with inv show False by simp
    qed
  qed
qed

lemma SelectLengthOnRay_bounds:
  assumes "0 \<le> max_length"
  shows "0 \<le> SelectLengthOnRay camera origin target max_length max_angle max_horizontal_angle
                max_vertical_angle"
    and "SelectLengthOnRay camera origin target max_length max_angle max_horizontal_angle
           max_vertical_angle \<le> min max_length (vec2_norm (vec2_sub target origin))"
proof -
  have r0: "0 \<le> min max_length (vec2_norm (vec2_sub target origin))"
    using assms by (simp add: vec2_norm_nonneg)
  note b = bisection_rounds_bounds [OF r0, of
      "m_valid camera origin (vec2_normalized (vec2_sub target origin)) max_angle
         max_horizontal_angle max_vertical_angle" 32]
  from b show "0 \<le> SelectLengthOnRay camera origin target max_length max_angle
                 max_horizontal_angle max_vertical_angle"
    by (simp add: SelectLengthOnRay_def Let_def)
  from b show "SelectLengthOnRay camera origin target max_length max_angle max_horizontal_angle
           max_vertical_angle \<le> min max_length (vec2_norm (vec2_sub target origin))"
    unfolding SelectLengthOnRay_def Let_def by linarith
qed

lemma SelectPointOnRay_none_valid:
  assumes "0 \<le> max_length"
    and "\<And>m. 0 < m \<Longrightarrow> m < min max_length (vec2_norm (vec2_sub target origin)) \<Longrightarrow>
           \<not> m_valid camera origin (vec2_normalized (vec2_sub target origin)) max_angle
               max_horizontal_angle max_vertical_angle m"
  shows "SelectPointOnRay camera origin target max_length max_angle max_horizontal_angle
           max_vertical_angle = origin"
proof -
  have "0 \<le> min max_length (vec2_norm (vec2_sub target origin))"
    using assms(1) by (simp add: vec2_norm_nonneg)
  then have "SelectLengthOnRay camera origin target max_length max_angle max_horizontal_angle
               max_vertical_angle = 0"
    unfolding SelectLengthOnRay_def Let_def
    by (intro bisection_rounds_none_valid assms(2)) simp_all
  then show ?thesis
    by (simp add: SelectPointOnRay_def Let_def vec2_add_def vec2_scale_def)
qed

lemma SelectPointOnRay_distance:
  assumes "0 \<le> max_length"
  shows "vec2_norm (vec2_sub (SelectPointOnRay camera origin target max_length max_angle
             max_horizontal_angle max_vertical_angle) origin) =
         SelectLengthOnRay camera origin target max_length max_angle max_horizontal_angle
           max_vertical_angle"
proof -
  let ?diff = "vec2_sub target origin"
  let ?l = "SelectLengthOnRay camera origin target max_length max_angle max_horizontal_angle
              max_vertical_angle"
  note f = SelectLengthOnRay_bounds [OF assms, where target = target and origin = origin
      and camera = camera and max_angle = max_angle
      and max_horizontal_angle = max_horizontal_angle
      and max_vertical_angle = max_vertical_angle]
  have d: "vec2_norm (vec2_sub (SelectPointOnRay camera origin target max_length max_angle
             max_horizontal_angle max_vertical_angle) origin) =
           \<bar>?l\<bar> * vec2_norm (vec2_normalized ?diff)"
    by (simp add: SelectPointOnRay_def Let_def vec2_add_sub_cancel vec2_norm_scale)
  show ?thesis
  proof (cases "0 < (fst ?diff)\<^sup>2 + (snd ?diff)\<^sup>2")
    case True
    then show ?thesis using d f(1) by (simp add: vec2_norm_normalized)
  next
    case False
    then have "vec2_norm ?diff = 0" by (simp add: vec2_norm_def sum_power2_gt_zero_iff)
    with f(1,2) assms have "?l = 0" by simp
    then show ?thesis using d by simp
  qed
qed

lemma SelectPointOnRay_on_segment:
  assumes "0 \<le> max_length"
  shows "\<exists>t. 0 \<le> t \<and> t \<le> 1 \<and>
           SelectPointOnRay camera origin target max_length max_angle max_horizontal_angle
             max_vertical_angle = vec2_add origin (vec2_scale (vec2_sub target origin) t)"
proof -
  let ?diff = "vec2_sub target origin"
  let ?l = "SelectLengthOnRay camera origin target max_length max_angle max_horizontal_angle
              max_vertical_angle"
  note f = SelectLengthOnRay_bounds [OF assms, where target = target and origin = origin
      and camera = camera and max_angle = max_angle
      and max_horizontal_angle = max_horizontal_angle
      and max_vertical_angle = max_vertical_angle]
  have p: "SelectPointOnRay camera origin target max_length max_angle max_horizontal_angle
             max_vertical_angle = vec2_add origin (vec2_scale ?diff (?l / vec2_norm ?diff))"
    by (simp add: SelectPointOnRay_def Let_def vec2_scale_normalized)
  have "0 \<le> ?l / vec2_norm ?diff" using f(1) by (simp add: vec2_norm_nonneg)
  moreover have "?l / vec2_norm ?diff \<le> 1"
  proof (cases "vec2_norm ?diff = 0")
    case True
    then show ?thesis by simp
  next
    case False
    then have "0 < vec2_norm ?diff" using vec2_norm_nonneg [of ?diff] by simp
    moreover have "?l \<le> vec2_norm ?diff" using f(2) by simp
    ultimately show ?thesis by (simp add: divide_le_eq)
  qed
  ultimately show ?thesis using p by blast
qed

text \<open>
  C2, as amended. For \<open>max_length \<ge> 0\<close>, \<open>SelectPointOnRay\<close> returns the point
  \<open>origin + dir * l\<close> at the distance \<open>l\<close> that 32 rounds of bisection of \<open>[0, r]\<close> leave,
  \<open>r = min max_length |target - origin|\<close>. The distance satisfies \<open>0 \<le> l \<le> r\<close>; it is
  \<open>0\<close> or passes the three angle tests; the distance \<open>l + r / 2^32\<close> is \<open>r\<close> itself or fails
  a test. If no distance strictly between \<open>0\<close> and \<open>r\<close> passes, the result is \<open>origin\<close>. If
  the distances that pass are downward closed in \<open>[0, r]\<close>, every distance up to \<open>r\<close> that
  passes is at most \<open>l + r / 2^32\<close>: the result is the farthest valid point up to the
  resolution of the search.
\<close>

theorem C2_SelectPointOnRay_bisection:
  assumes "0 \<le> max_length"
  shows "let dir = vec2_normalized (vec2_sub target origin);
             r = min max_length (vec2_norm (vec2_sub target origin));
             l = SelectLengthOnRay camera origin target max_length max_angle
                   max_horizontal_angle max_vertical_angle;
             p = SelectPointOnRay camera origin target max_length max_angle
                   max_horizontal_angle max_vertical_angle;
             valid = m_valid camera origin dir max_angle max_horizontal_angle max_vertical_angle
         in p = vec2_add origin (vec2_scale dir l) \<and>
            0 \<le> l \<and> l \<le> r \<and>
            (l = 0 \<or> valid l) \<and>
            (l + r / 2 ^ 32 = r \<or> \<not> valid (l + r / 2 ^ 32)) \<and>
            ((\<forall>m. 0 < m \<and> m < r \<longrightarrow> \<not> valid m) \<longrightarrow> p = origin) \<and>
            ((\<forall>m m'. 0 \<le> m' \<and> m' \<le> m \<and> m \<le> r \<and> valid m \<longrightarrow> valid m') \<longrightarrow>
               (\<forall>m. m \<le> r \<and> valid m \<longrightarrow> m \<le> l + r / 2 ^ 32))"
proof -
  let ?dir = "vec2_normalized (vec2_sub target origin)"
  let ?r = "min max_length (vec2_norm (vec2_sub target origin))"
  let ?l = "SelectLengthOnRay camera origin target max_length max_angle
              max_horizontal_angle max_vertical_angle"
  let ?p = "SelectPointOnRay camera origin target max_length max_angle
              max_horizontal_angle max_vertical_angle"
  let ?valid = "m_valid camera origin ?dir max_angle max_horizontal_angle max_vertical_angle"
  have l_eq: "?l = fst (bisection_rounds ?valid 32 (0, ?r))"
    by (simp add: SelectLengthOnRay_def Let_def)
  have r0: "0 \<le> ?r" using assms by (simp add: vec2_norm_nonneg)
  have 1: "?p = vec2_add origin (vec2_scale ?dir ?l)"
    by (simp add: SelectPointOnRay_def Let_def)
  have 2: "0 \<le> ?l" "?l \<le> ?r"
    using SelectLengthOnRay_bounds [OF assms] by blast+
  have 3: "?l = 0 \<or> ?valid ?l"
    unfolding l_eq by (rule bisection_rounds_lower_valid)
  have 4: "?l + ?r / 2 ^ 32 = ?r \<or> \<not> ?valid (?l + ?r / 2 ^ 32)"
    unfolding l_eq by (rule bisection_rounds_next_invalid)
  have 5: "(\<forall>m. 0 < m \<and> m < ?r \<longrightarrow> \<not> ?valid m) \<longrightarrow> ?p = origin"
    using SelectPointOnRay_none_valid [OF assms] by blast
  have 6: "(\<forall>m m'. 0 \<le> m' \<and> m' \<le> m \<and> m \<le> ?r \<and> ?valid m \<longrightarrow> ?valid m') \<longrightarrow>
             (\<forall>m. m \<le> ?r \<and> ?valid m \<longrightarrow> m \<le> ?l + ?r / 2 ^ 32)"
  proof (intro impI allI)
    fix m
    assume c: "\<forall>m m'. 0 \<le> m' \<and> m' \<le> m \<and> m \<le> ?r \<and> ?valid m \<longrightarrow> ?valid m'"
      and m: "m \<le> ?r \<and> ?valid m"
    show "m \<le> ?l + ?r / 2 ^ 32"
      unfolding l_eq
    proof (rule bisection_rounds_nearly_farthest [OF r0])
      show "m \<le> ?r" "?valid m" using m by simp_all
    next
      fix m m' assume "0 \<le> m'" "m' \<le> m" "m \<le> ?r" "?valid m"
      with c show "?valid m'" by blast
    qed
  qed
  show ?thesis unfolding Let_def using 1 2 3 4 5 6 by blast
qed

text \<open>
  The theorem at the unit pinhole camera, from \<open>(0, 0)\<close> towards \<open>(1 / 2, 0)\<close>, with
  \<open>max_length = 1 / 2\<close> and all three angle bounds at 45 degrees: every distance up to
  \<open>1 / 2\<close> passes the tests, so they are downward closed.
\<close>

theorem C2_witness:
  "(0::real) \<le> 1 / 2 \<and>
   SelectPointOnRay UnitPinhole (0, 0) (1 / 2, 0) (1 / 2) (pi / 4) (pi / 4) (pi / 4) =
     vec2_add (0, 0) (vec2_scale (1, 0)
       (SelectLengthOnRay UnitPinhole (0, 0) (1 / 2, 0) (1 / 2) (pi / 4) (pi / 4) (pi / 4))) \<and>
   0 \<le> SelectLengthOnRay UnitPinhole (0, 0) (1 / 2, 0) (1 / 2) (pi / 4) (pi / 4) (pi / 4) \<and>
   SelectLengthOnRay UnitPinhole (0, 0) (1 / 2, 0) (1 / 2) (pi / 4) (pi / 4) (pi / 4) \<le> 1 / 2 \<and>
   m_valid UnitPinhole (0, 0) (1, 0) (pi / 4) (pi / 4) (pi / 4) (1 / 2) \<and>
   1 / 2 \<le> SelectLengthOnRay UnitPinhole (0, 0) (1 / 2, 0) (1 / 2) (pi / 4) (pi / 4) (pi / 4) +
             (1 / 2) / 2 ^ 32"
proof -
  have h: "(0::real) \<le> 1 / 2" by simp
  have dir: "vec2_normalized (vec2_sub (1 / 2, 0) (0, 0)) = (1, 0)"
    by (simp add: vec2_sub_def vec2_normalized_on_x_axis)
  have r: "min (1 / 2) (vec2_norm (vec2_sub (1 / 2, 0) (0, 0))) = 1 / 2"
    by (simp add: vec2_sub_def vec2_norm_on_x_axis)
  have closed: "\<forall>m m'. 0 \<le> m' \<and> m' \<le> m \<and> m \<le> 1 / 2 \<and>
                  m_valid UnitPinhole (0, 0) (1, 0) (pi / 4) (pi / 4) (pi / 4) m \<longrightarrow>
                  m_valid UnitPinhole (0, 0) (1, 0) (pi / 4) (pi / 4) (pi / 4) m'"
    by (simp add: m_valid_UnitPinhole)
  have v: "m_valid UnitPinhole (0, 0) (1, 0) (pi / 4) (pi / 4) (pi / 4) (1 / 2)"
    by (simp add: m_valid_UnitPinhole)
  from C2_SelectPointOnRay_bisection [OF h, of "(1 / 2, 0)" "(0, 0)" UnitPinhole "pi / 4" "pi / 4" "pi / 4"]
  show ?thesis
    unfolding Let_def dir r using closed v h by blast
qed

text \<open>
  The claim as stated fails. With the unit pinhole camera, from \<open>(0, 0)\<close> towards
  \<open>(1 / 2, 0)\<close> with \<open>max_length = 1 / 2\<close>, the target itself passes the three tests and is
  within \<open>max_length\<close>, and the result is the nearer point at distance \<open>1 / 2 - 2^-33\<close>. With
  a camera whose back-projection is not monotonic, from \<open>(0, 0)\<close> towards \<open>(4, 0)\<close> with
  \<open>max_length = 4\<close>, the origin and the target both pass, and the result is at distance
  \<open>2 - 2^-30\<close>.
\<close>

theorem C2_counterexample:
  "SelectPointOnRay UnitPinhole (0, 0) (1 / 2, 0) (1 / 2) (pi / 4) (pi / 4) (pi / 4) =
     (1 / 2 - 1 / 2 ^ 33, 0) \<and>
   m_valid UnitPinhole (0, 0) (vec2_normalized (vec2_sub (1 / 2, 0) (0, 0)))
     (pi / 4) (pi / 4) (pi / 4) (1 / 2) \<and>
   SelectPointOnRay BandCamera (0, 0) (4, 0) 4 (pi / 4) (pi / 4) (pi / 4) =
     (2 - 1 / 2 ^ 30, 0) \<and>
   m_valid BandCamera (0, 0) (vec2_normalized (vec2_sub (4, 0) (0, 0)))
     (pi / 4) (pi / 4) (pi / 4) 0 \<and>
   m_valid BandCamera (0, 0) (vec2_normalized (vec2_sub (4, 0) (0, 0)))
     (pi / 4) (pi / 4) (pi / 4) 4"
  by (simp add: SelectPointOnRay_along_x_axis length_all_valid_half length_band
      vec2_sub_def vec2_normalized_on_x_axis m_valid_UnitPinhole m_valid_BandCamera)

text \<open>
  C10, as amended. For \<open>0 \<le> L1 \<le> L2\<close> as \<open>max_length\<close>: each returned point is
  \<open>origin + t * (target - origin)\<close> with \<open>0 \<le> t \<le> 1\<close> and lies within its \<open>max_length\<close> of
  \<open>origin\<close>; and if the distances that pass the angle tests are downward closed in
  \<open>[0, min L2 |target - origin|]\<close>, the distance returned for \<open>L1\<close> exceeds the one returned
  for \<open>L2\<close> by at most the resolution \<open>min L2 |target - origin| / 2^32\<close> of the search.
\<close>

theorem C10_SelectPointOnRay_monotone_up_to_resolution:
  assumes "0 \<le> L1" and "L1 \<le> L2"
  shows "let diff = vec2_sub target origin;
             p1 = SelectPointOnRay camera origin target L1 max_angle max_horizontal_angle
                    max_vertical_angle;
             p2 = SelectPointOnRay camera origin target L2 max_angle max_horizontal_angle
                    max_vertical_angle;
             valid = m_valid camera origin (vec2_normalized diff) max_angle
                       max_horizontal_angle max_vertical_angle
         in (\<exists>t. 0 \<le> t \<and> t \<le> 1 \<and> p1 = vec2_add origin (vec2_scale diff t)) \<and>
            vec2_norm (vec2_sub p1 origin) \<le> L1 \<and>
            (\<exists>t. 0 \<le> t \<and> t \<le> 1 \<and> p2 = vec2_add origin (vec2_scale diff t)) \<and>
            vec2_norm (vec2_sub p2 origin) \<le> L2 \<and>
            ((\<forall>m m'. 0 \<le> m' \<and> m' \<le> m \<and> m \<le> min L2 (vec2_norm diff) \<and> valid m \<longrightarrow> valid m') \<longrightarrow>
               vec2_norm (vec2_sub p1 origin) \<le>
                 vec2_norm (vec2_sub p2 origin) + min L2 (vec2_norm diff) / 2 ^ 32)"
proof -
  let ?diff = "vec2_sub target origin"
  let ?valid = "m_valid camera origin (vec2_normalized ?diff) max_angle max_horizontal_angle
                  max_vertical_angle"
  let ?l1 = "SelectLengthOnRay camera origin target L1 max_angle max_horizontal_angle
               max_vertical_angle"
  let ?l2 = "SelectLengthOnRay camera origin target L2 max_angle max_horizontal_angle
               max_vertical_angle"
  let ?p1 = "SelectPointOnRay camera origin target L1 max_angle max_horizontal_angle
               max_vertical_angle"
  let ?p2 = "SelectPointOnRay camera origin target L2 max_angle max_horizontal_angle
               max_vertical_angle"
  let ?r2 = "min L2 (vec2_norm ?diff)"
  have L2: "0 \<le> L2" using assms by simp
  have d1: "vec2_norm (vec2_sub ?p1 origin) = ?l1" by (rule SelectPointOnRay_distance [OF assms(1)])
  have d2: "vec2_norm (vec2_sub ?p2 origin) = ?l2" by (rule SelectPointOnRay_distance [OF L2])
  have b1: "0 \<le> ?l1" "?l1 \<le> min L1 (vec2_norm ?diff)"
    using SelectLengthOnRay_bounds [OF assms(1)] by blast+
  have b2: "0 \<le> ?l2" "?l2 \<le> ?r2"
    using SelectLengthOnRay_bounds [OF L2] by blast+
  have l1_eq: "?l1 = fst (bisection_rounds ?valid 32 (0, min L1 (vec2_norm ?diff)))"
    by (simp add: SelectLengthOnRay_def Let_def)
  have l2_eq: "?l2 = fst (bisection_rounds ?valid 32 (0, ?r2))"
    by (simp add: SelectLengthOnRay_def Let_def)
  have r2: "0 \<le> ?r2" using L2 by (simp add: vec2_norm_nonneg)
  have mono: "?l1 \<le> ?l2 + ?r2 / 2 ^ 32"
    if c: "\<forall>m m'. 0 \<le> m' \<and> m' \<le> m \<and> m \<le> ?r2 \<and> ?valid m \<longrightarrow> ?valid m'"
  proof -
    have "?l1 = 0 \<or> ?valid ?l1"
      unfolding l1_eq by (rule bisection_rounds_lower_valid)
    then show ?thesis
    proof
      assume "?l1 = 0"
      then show ?thesis using b2(1) r2 by simp
    next
      assume v: "?valid ?l1"
      have le: "?l1 \<le> ?r2" using b1(2) assms(2) by simp
      show ?thesis
        unfolding l2_eq
      proof (rule bisection_rounds_nearly_farthest [where valid = ?valid and n = 32, OF r2 _ le v])
        fix m m' assume "0 \<le> m'" "m' \<le> m" "m \<le> ?r2" "?valid m"
        with c show "?valid m'" by blast
      qed
    qed
  qed
  have s1: "\<exists>t. 0 \<le> t \<and> t \<le> 1 \<and> ?p1 = vec2_add origin (vec2_scale ?diff t)"
    by (rule SelectPointOnRay_on_segment [OF assms(1)])
  have s2: "\<exists>t. 0 \<le> t \<and> t \<le> 1 \<and> ?p2 = vec2_add origin (vec2_scale ?diff t)"
    by (rule SelectPointOnRay_on_segment [OF L2])
  have c1: "vec2_norm (vec2_sub ?p1 origin) \<le> L1" using d1 b1(2) by simp
  have c2: "vec2_norm (vec2_sub ?p2 origin) \<le> L2" using d2 b2(2) by simp
  show ?thesis
    unfolding Let_def using s1 s2 c1 c2 mono d1 d2 by simp
qed

text \<open>
  The theorem at the unit pinhole camera, from \<open>(0, 0)\<close> towards \<open>(2, 0)\<close>, with all three
  angle bounds at 45 degrees, for the lengths 1 and 2.
\<close>

theorem C10_witness:
  "(0::real) \<le> 1 \<and> (1::real) \<le> 2 \<and>
   vec2_norm (vec2_sub
     (SelectPointOnRay UnitPinhole (0, 0) (2, 0) 1 (pi / 4) (pi / 4) (pi / 4)) (0, 0)) \<le> 1 \<and>
   vec2_norm (vec2_sub
     (SelectPointOnRay UnitPinhole (0, 0) (2, 0) 2 (pi / 4) (pi / 4) (pi / 4)) (0, 0)) \<le> 2 \<and>
   vec2_norm (vec2_sub
     (SelectPointOnRay UnitPinhole (0, 0) (2, 0) 1 (pi / 4) (pi / 4) (pi / 4)) (0, 0)) \<le>
   vec2_norm (vec2_sub
     (SelectPointOnRay UnitPinhole (0, 0) (2, 0) 2 (pi / 4) (pi / 4) (pi / 4)) (0, 0)) +
     2 / 2 ^ 32"
proof -
  have h1: "(0::real) \<le> 1" and h2: "(1::real) \<le> 2" by simp_all
  have dir: "vec2_normalized (vec2_sub (2, 0) (0, 0)) = (1, 0)"
    by (simp add: vec2_sub_def vec2_normalized_on_x_axis)
  have r: "min 2 (vec2_norm (vec2_sub (2, 0) (0, 0))) = 2"
    by (simp add: vec2_sub_def vec2_norm_on_x_axis)
  have closed: "\<forall>m m'. 0 \<le> m' \<and> m' \<le> m \<and> m \<le> 2 \<and>
                  m_valid UnitPinhole (0, 0) (1, 0) (pi / 4) (pi / 4) (pi / 4) m \<longrightarrow>
                  m_valid UnitPinhole (0, 0) (1, 0) (pi / 4) (pi / 4) (pi / 4) m'"
    by (auto simp: m_valid_UnitPinhole)
  from C10_SelectPointOnRay_monotone_up_to_resolution [OF h1 h2, of "(2, 0)" "(0, 0)"
      UnitPinhole "pi / 4" "pi / 4" "pi / 4"]
  show ?thesis
    unfolding Let_def dir r using closed h1 h2 by blast
qed

text \<open>
  The claim as stated fails three ways, each with the unit pinhole camera and all angle
  bounds at 45 degrees. From \<open>(0, 0)\<close> towards \<open>(2, 0)\<close> the valid distances are those below
  1: with \<open>max_length = 1\<close> the result is at distance \<open>1 - 2^-32\<close>, with \<open>max_length = 2\<close>
  at the smaller distance \<open>1 - 2^-31\<close>. From \<open>(-4, 0)\<close> towards \<open>(8, 0)\<close> the valid distances
  are those strictly between 3 and 5: with \<open>max_length = 8\<close> the result is at distance
  \<open>5 - 2^-29\<close>, with \<open>max_length = 12\<close> it is the origin. With \<open>max_length = -1\<close> the result
  lies behind the origin, off the segment.
\<close>

theorem C10_counterexample:
  "SelectPointOnRay UnitPinhole (0, 0) (2, 0) 1 (pi / 4) (pi / 4) (pi / 4) = (1 - 1 / 2 ^ 32, 0) \<and>
   SelectPointOnRay UnitPinhole (0, 0) (2, 0) 2 (pi / 4) (pi / 4) (pi / 4) = (1 - 1 / 2 ^ 31, 0) \<and>
   SelectPointOnRay UnitPinhole (- 4, 0) (8, 0) 8 (pi / 4) (pi / 4) (pi / 4) = (1 - 1 / 2 ^ 29, 0) \<and>
   SelectPointOnRay UnitPinhole (- 4, 0) (8, 0) 12 (pi / 4) (pi / 4) (pi / 4) = (- 4, 0) \<and>
   SelectPointOnRay UnitPinhole (0, 0) (1, 0) (- 1) (pi / 4) (pi / 4) (pi / 4) =
     (- 1 + 1 / 2 ^ 32, 0)"
  by (simp add: SelectPointOnRay_along_x_axis length_threshold_one length_threshold_two
      length_offcentre_eight length_offcentre_twelve length_negative_max_length)

subsection \<open>UndistortCamera: the maximal valid radius and the half field of view\<close>

lemma MaxValidRegion_fov_half:
  "fst (MaxValidRegion options camera) = DegToRad (max_fov options) / 2"
  by (simp add: MaxValidRegion_def Let_def split: prod.splits)

lemma MaxValidRegion_principal_point:
  "snd (snd (MaxValidRegion options camera)) =
     (if length (PrincipalPointIdxs camera) = 2
      then (PrincipalPointX camera, PrincipalPointY camera) else (0, 0))"
  by (simp add: MaxValidRegion_def Let_def split: prod.splits)

lemma MaxValidRegion_without_principal_point:
  "length (PrincipalPointIdxs camera) \<noteq> 2 \<Longrightarrow>
   MaxValidRegion options camera =
     (DegToRad (max_fov options) / 2, vec2_norm (real (Width camera), real (Height camera)),
      (0, 0))"
  by (simp add: MaxValidRegion_def Let_def)

lemma vec2_norm_pythagorean: "0 \<le> c \<Longrightarrow> a\<^sup>2 + b\<^sup>2 = c\<^sup>2 \<Longrightarrow> vec2_norm (a, b) = c"
  by (simp add: vec2_norm_def)

lemma arctan_two_gt_third_pi: "pi / 3 < arctan 2"
proof -
  have "arctan (sqrt 3) = pi / 3"
  proof (rule arctan_unique)
    show "- (pi / 2) < pi / 3" using pi_gt_zero by linarith
    show "pi / 3 < pi / 2" using pi_gt_zero by linarith
    show "tan (pi / 3) = sqrt 3" by (rule tan_60)
  qed
  moreover have "sqrt 3 < 2" by (rule real_less_lsqrt) simp_all
  then have "arctan (sqrt 3) < arctan 2" by (simp only: arctan_less_iff)
  ultimately show ?thesis by simp
qed

lemma farthest_corner_SquarePinhole:
  "farthest_corner (corners SquarePinhole) (1, 0) (0, (0, 0)) = (5, (3 / 5, 4 / 5))"
proof -
  have n1: "vec2_norm (- 1, 0) = 1" by (rule vec2_norm_pythagorean) simp_all
  have n2: "vec2_norm (3, 0) = 3" by (rule vec2_norm_pythagorean) simp_all
  have n3: "vec2_norm (3, 4) = 5" by (rule vec2_norm_pythagorean) simp_all
  have n4: "vec2_norm (- 1, 4) \<le> 5"
    unfolding vec2_norm_def by (rule real_le_lsqrt) simp_all
  have d3: "vec2_normalized (3, 4) = (3 / 5, 4 / 5)"
    by (simp add: vec2_normalized_def n3)
  show ?thesis
    using n4 by (simp add: corners_def SquarePinhole_def vec2_sub_def n1 n2 n3 d3 Let_def)
qed

lemma march_SquarePinhole:
  "march SquarePinhole (1, 0) (3 / 5, 4 / 5) 5 (DegToRad 120) (Suc 0) (0, sqrt 32) = (pi / 4, 1)"
proof -
  have w1: "ImageToWorld SquarePinhole (vec2_add (vec2_scale (3 / 5, 4 / 5) 1) (1, 0)) =
              (3 / 5, 4 / 5)"
    by (simp add: ImageToWorld_def SquarePinhole_def vec2_add_def vec2_scale_def)
  have w2: "ImageToWorld SquarePinhole (vec2_add (vec2_scale (3 / 5, 4 / 5) 2) (1, 0)) =
              (6 / 5, 8 / 5)"
    by (simp add: ImageToWorld_def SquarePinhole_def vec2_add_def vec2_scale_def)
  have n1: "vec2_norm (3 / 5, 4 / 5) = 1"
    by (rule vec2_norm_pythagorean) (simp_all add: power2_eq_square)
  have n2: "vec2_norm (6 / 5, 8 / 5) = 2"
    by (rule vec2_norm_pythagorean) (simp_all add: power2_eq_square)
  have r1: "real (Suc 0) = 1" and r2: "real (Suc (Suc 0)) = 2" by simp_all
  have c0: "(1::real) < 5" and c0': "(2::real) < 5" by simp_all
  have c1: "\<not> pi / 4 \<le> 0" using pi_gt_zero by linarith
  have c2: "\<not> DegToRad 120 < 2 * (pi / 4)" unfolding DegToRad_def using pi_gt_zero by linarith
  have c3: "DegToRad 120 < 2 * arctan 2"
    unfolding DegToRad_def using arctan_two_gt_third_pi by linarith
  have second: "march SquarePinhole (1, 0) (3 / 5, 4 / 5) 5 (DegToRad 120) (Suc (Suc 0))
                  (pi / 4, 1) = (pi / 4, 1)"
    by (subst march.simps [of _ _ _ _ _ "Suc (Suc 0)"])
      (simp only: r2 c0' if_True Let_def w2 n2 c3 simp_thms)
  have first: "march SquarePinhole (1, 0) (3 / 5, 4 / 5) 5 (DegToRad 120) (Suc 0) (0, sqrt 32) =
                 march SquarePinhole (1, 0) (3 / 5, 4 / 5) 5 (DegToRad 120) (Suc (Suc 0))
                   (pi / 4, 1)"
    by (subst march.simps [of _ _ _ _ _ "Suc 0"])
      (simp only: r1 c0 if_True Let_def w1 n1 arctan_one c1 c2 simp_thms if_False)
  show ?thesis by (simp only: first second)
qed

lemma MaxValidRegion_SquarePinhole:
  "MaxValidRegion ExampleOptions SquarePinhole = (pi / 3, 1, (1, 0))"
proof -
  have o: "max_fov ExampleOptions = 120" by (simp add: ExampleOptions_def)
  have c: "PrincipalPointIdxs SquarePinhole = [2, 3]" "PrincipalPointX SquarePinhole = 1"
    "PrincipalPointY SquarePinhole = 0" "Width SquarePinhole = 4" "Height SquarePinhole = 4"
    by (simp_all add: SquarePinhole_def)
  have d: "vec2_norm (4, 4) = sqrt 32" by (simp add: vec2_norm_def)
  have h: "DegToRad 120 / 2 = pi / 3" by (simp add: DegToRad_def)
  show ?thesis
    unfolding MaxValidRegion_def o c Let_def
    by (simp add: farthest_corner_SquarePinhole d march_SquarePinhole h)
qed

text \<open>
  C5. At the failing input, a pinhole camera of 4 x 4 pixels with focal length 1 and
  principal point (1, 0), with \<open>max_fov = 120\<close> degrees: the march along the direction of the
  farthest corner stops after the first pixel, at the half angle \<open>pi / 4\<close> (45 degrees) and
  the radius 1. The block returns the radius 1 of the march, and as half field of view
  \<open>pi / 3\<close>, which is \<open>max_fov / 2\<close> and not the half angle of the march.
\<close>

theorem C5_half_fov_of_march_is_dropped:
  "farthest_corner (corners SquarePinhole) (1, 0) (0, (0, 0)) = (5, (3 / 5, 4 / 5)) \<and>
   march SquarePinhole (1, 0) (3 / 5, 4 / 5) 5 (DegToRad (max_fov ExampleOptions)) 1
     (0, vec2_norm (real (Width SquarePinhole), real (Height SquarePinhole))) = (pi / 4, 1) \<and>
   MaxValidRegion ExampleOptions SquarePinhole = (pi / 3, 1, (1, 0)) \<and>
   DegToRad (max_fov ExampleOptions) / 2 = pi / 3"
proof -
  have d: "vec2_norm (real (Width SquarePinhole), real (Height SquarePinhole)) = sqrt 32"
    by (simp add: vec2_norm_def SquarePinhole_def)
  have o: "max_fov ExampleOptions = 120" by (simp add: ExampleOptions_def)
  have h: "DegToRad 120 / 2 = pi / 3" by (simp add: DegToRad_def)
  have one: "(1::nat) = Suc 0" by simp
  have m: "march SquarePinhole (1, 0) (3 / 5, 4 / 5) 5 (DegToRad (max_fov ExampleOptions)) 1
             (0, vec2_norm (real (Width SquarePinhole), real (Height SquarePinhole))) =
           (pi / 4, 1)"
    by (simp only: d o one march_SquarePinhole)
  have h': "DegToRad (max_fov ExampleOptions) / 2 = pi / 3"
    by (simp only: o h)
  from farthest_corner_SquarePinhole m MaxValidRegion_SquarePinhole h'
  show ?thesis by (intro conjI)
qed

subsection \<open>UndistortCamera: the size limit and the override\<close>

lemma LimitImageSize_unbounded:
  "max_image_size options < 0 \<Longrightarrow> LimitImageSize ops options undistorted_camera = undistorted_camera"
  by (simp add: LimitImageSize_def)

lemma LimitImageSize_fits:
  assumes "0 < Width undistorted_camera" "0 < Height undistorted_camera"
    and "int (Width undistorted_camera) \<le> max_image_size options"
    and "int (Height undistorted_camera) \<le> max_image_size options"
  shows "LimitImageSize ops options undistorted_camera = undistorted_camera"
proof -
  have "real (Width undistorted_camera) \<le> real_of_int (max_image_size options)"
    using assms(3) by (metis of_int_le_iff of_int_of_nat_eq)
  then have x: "1 \<le> real_of_int (max_image_size options) / real (Width undistorted_camera)"
    using assms(1) by (simp add: le_divide_eq)
  have "real (Height undistorted_camera) \<le> real_of_int (max_image_size options)"
    using assms(4) by (metis of_int_le_iff of_int_of_nat_eq)
  then have y: "1 \<le> real_of_int (max_image_size options) / real (Height undistorted_camera)"
    using assms(2) by (simp add: le_divide_eq)
  have m: "\<not> min (real_of_int (max_image_size options) / real (Width undistorted_camera))
                 (real_of_int (max_image_size options) / real (Height undistorted_camera)) < 1"
    using x y by linarith
  have z: "Width undistorted_camera \<noteq> 0" "Height undistorted_camera \<noteq> 0"
    using assms(1) assms(2) by simp_all
  show ?thesis
    unfolding LimitImageSize_def Let_def by (simp only: z m if_False simp_thms if_cancel)
qed

lemma LimitImageSize_zero_size:
  "Width undistorted_camera = 0 \<Longrightarrow> Height undistorted_camera = 0 \<Longrightarrow>
   LimitImageSize ops options undistorted_camera = undistorted_camera"
  by (simp add: LimitImageSize_def Let_def)

lemma CheckOptions_None_iff:
  "CheckOptions options = None \<longleftrightarrow>
     0 \<le> blank_pixels options \<and> blank_pixels options \<le> 1 \<and>
     0 < min_scale options \<and> min_scale options \<le> max_scale options \<and>
     max_image_size options \<noteq> 0 \<and>
     max_fov options < 180 \<and> 0 < max_fov options \<and>
     max_vertical_fov options \<le> 180 \<and> 0 < max_vertical_fov options \<and>
     max_horizontal_fov options \<le> 180 \<and> 0 < max_horizontal_fov options"
  by (simp add: CheckOptions_def)

lemma CheckOptions_ExampleOptions: "CheckOptions ExampleOptions = None"
  by (simp add: CheckOptions_None_iff ExampleOptions_def)

lemma UndistortCamera_without_override:
  "CheckOptions options = None \<Longrightarrow> camera_model_override options = [] \<Longrightarrow>
   UndistortCamera ops options camera =
     (case UndistortCameraBeforeSizeLimit options camera of
        Inl e \<Rightarrow> Inl e
      | Inr undistorted_camera \<Rightarrow> Inr (LimitImageSize ops options undistorted_camera))"
  by (simp add: UndistortCamera_def)

lemma InitialUndistortedCamera_eq:
  "InitialUndistortedCamera camera =
     \<lparr>ModelId = PinholeCameraModel, Width = Width camera, Height = Height camera,
      FocalLengthIdxs = [0, 1], PrincipalPointIdxs = [2, 3],
      FocalLengthX = 0, FocalLengthY = 0, PrincipalPointX = 0, PrincipalPointY = 0,
      Unproject = id, Project = id\<rparr>"
  by (simp add: InitialUndistortedCamera_def SetModelId_def DefaultCamera_def)

lemma CSVToVector_1100: "CSVToVector 0 ''1,1,0,0'' = [1, 1, 0, 0]"
  by simp

lemma UndistortCamera_pinhole_override:
  assumes "CheckOptions options = None"
    and "camera_model_override options = ''PINHOLE''"
    and "camera_model_override_params options = ''1,1,0,0''"
  shows "UndistortCamera ExampleOps options camera =
     Inr \<lparr>ModelId = PinholeCameraModel, Width = Width camera, Height = Height camera,
          FocalLengthIdxs = [0, 1], PrincipalPointIdxs = [2, 3],
          FocalLengthX = 1, FocalLengthY = 1, PrincipalPointX = 0, PrincipalPointY = 0,
          Unproject = id, Project = id\<rparr>"
  using assms
  by (simp add: UndistortCamera_def ExampleOps_def ExampleNameToId_def ExampleSetParams_def
      ExampleVerifyParams_def InitialUndistortedCamera_eq SetModelId_def Let_def)

text \<open>
  C7, as amended. A \<^verbatim>\<open>max_image_size\<close> of 0 is a fatal configuration error: when the four
  checks before it pass, \<open>UndistortCamera\<close> fails with \<^verbatim>\<open>CHECK_NE(options.max_image_size, 0)\<close>
  for every camera. A negative \<^verbatim>\<open>max_image_size\<close> is accepted and means unbounded: that
  check does not fail, the size limit leaves every camera as it is, and without an override
  \<open>UndistortCamera\<close> returns the camera as it stands before the size limit.
\<close>

theorem C7_zero_size_rejected_negative_unbounded:
  "(max_image_size options = 0 \<and> 0 \<le> blank_pixels options \<and> blank_pixels options \<le> 1 \<and>
      0 < min_scale options \<and> min_scale options \<le> max_scale options \<longrightarrow>
      UndistortCamera ops options camera =
        Inl (CheckFailed ''CHECK_NE(options.max_image_size, 0)'')) \<and>
   (max_image_size options < 0 \<longrightarrow>
      CheckOptions options \<noteq> Some (CheckFailed ''CHECK_NE(options.max_image_size, 0)'') \<and>
      LimitImageSize ops options undistorted_camera = undistorted_camera \<and>
      (CheckOptions options = None \<and> camera_model_override options = [] \<longrightarrow>
         UndistortCamera ops options camera = UndistortCameraBeforeSizeLimit options camera))"
proof (intro conjI impI)
  assume "max_image_size options = 0 \<and> 0 \<le> blank_pixels options \<and> blank_pixels options \<le> 1 \<and>
      0 < min_scale options \<and> min_scale options \<le> max_scale options"
  then show "UndistortCamera ops options camera =
        Inl (CheckFailed ''CHECK_NE(options.max_image_size, 0)'')"
    by (simp add: UndistortCamera_def CheckOptions_def)
next
  assume "max_image_size options < 0"
  then show "CheckOptions options \<noteq> Some (CheckFailed ''CHECK_NE(options.max_image_size, 0)'')"
    by (simp add: CheckOptions_def)
next
  assume "max_image_size options < 0"
  then show "LimitImageSize ops options undistorted_camera = undistorted_camera"
    by (rule LimitImageSize_unbounded)
next
  assume neg: "max_image_size options < 0"
    and "CheckOptions options = None \<and> camera_model_override options = []"
  then have "UndistortCamera ops options camera =
     (case UndistortCameraBeforeSizeLimit options camera of
        Inl e \<Rightarrow> Inl e
      | Inr undistorted_camera \<Rightarrow> Inr (LimitImageSize ops options undistorted_camera))"
    by (simp add: UndistortCamera_without_override)
  then show "UndistortCamera ops options camera = UndistortCameraBeforeSizeLimit options camera"
    by (simp add: LimitImageSize_unbounded [OF neg] split: sum.splits)
qed

text \<open>
  The theorem at the example options, whose \<^verbatim>\<open>max_image_size\<close> is \<open>-1\<close>, with the pinhole
  camera of 640 x 480 pixels; and at the same options with \<^verbatim>\<open>max_image_size = 0\<close>.
\<close>

theorem C7_witness:
  "max_image_size ExampleOptions < 0 \<and> CheckOptions ExampleOptions = None \<and>
   camera_model_override ExampleOptions = [] \<and>
   LimitImageSize ExampleOps ExampleOptions ExamplePinhole = ExamplePinhole \<and>
   UndistortCamera ExampleOps ExampleOptions ExamplePinhole =
     UndistortCameraBeforeSizeLimit ExampleOptions ExamplePinhole \<and>
   max_image_size (ExampleOptions\<lparr>max_image_size := 0\<rparr>) = 0 \<and>
   UndistortCamera ExampleOps (ExampleOptions\<lparr>max_image_size := 0\<rparr>) UnitPinhole =
     Inl (CheckFailed ''CHECK_NE(options.max_image_size, 0)'')"
proof -
  have a: "max_image_size ExampleOptions < 0" "camera_model_override ExampleOptions = []"
    by (simp_all add: ExampleOptions_def)
  have z: "max_image_size (ExampleOptions\<lparr>max_image_size := 0\<rparr>) = 0 \<and>
           0 \<le> blank_pixels (ExampleOptions\<lparr>max_image_size := 0\<rparr>) \<and>
           blank_pixels (ExampleOptions\<lparr>max_image_size := 0\<rparr>) \<le> 1 \<and>
           0 < min_scale (ExampleOptions\<lparr>max_image_size := 0\<rparr>) \<and>
           min_scale (ExampleOptions\<lparr>max_image_size := 0\<rparr>) \<le>
             max_scale (ExampleOptions\<lparr>max_image_size := 0\<rparr>)"
    by (simp add: ExampleOptions_def)
  from C7_zero_size_rejected_negative_unbounded
         [of ExampleOptions ExampleOps ExamplePinhole ExamplePinhole]
       C7_zero_size_rejected_negative_unbounded
         [of "ExampleOptions\<lparr>max_image_size := 0\<rparr>" ExampleOps UnitPinhole UnitPinhole]
       a z CheckOptions_ExampleOptions
  show ?thesis by blast
qed

text \<open>
  The claim as stated fails: with \<^verbatim>\<open>max_image_size = 0\<close> and every other option valid,
  \<open>UndistortCamera\<close> ends in the fatal check.
\<close>

theorem C7_counterexample:
  "UndistortCamera ExampleOps (ExampleOptions\<lparr>max_image_size := 0\<rparr>) ExamplePinhole =
     Inl (CheckFailed ''CHECK_NE(options.max_image_size, 0)'')"
  by (simp add: UndistortCamera_def CheckOptions_def ExampleOptions_def)

subsection \<open>UndistortCamera: pinhole inputs\<close>

lemma ScaleToBorder_pinhole:
  "ModelId camera = SimplePinholeCameraModel \<or> ModelId camera = PinholeCameraModel \<Longrightarrow>
   ScaleToBorder options camera undistorted_camera = Some undistorted_camera"
  by (auto simp: ScaleToBorder_def)

lemma UndistortCameraBeforeSizeLimit_pinhole_copy:
  assumes "\<not> estimate_focal_length_from_fov options"
    and "(ModelId camera = SimplePinholeCameraModel \<and> length (FocalLengthIdxs camera) = 1 \<and>
            FocalLengthY camera = FocalLengthX camera) \<or>
         (ModelId camera = PinholeCameraModel \<and> length (FocalLengthIdxs camera) = 2)"
  shows "UndistortCameraBeforeSizeLimit options camera =
     Inr \<lparr>ModelId = PinholeCameraModel, Width = Width camera, Height = Height camera,
          FocalLengthIdxs = [0, 1], PrincipalPointIdxs = [2, 3],
          FocalLengthX = FocalLengthX camera, FocalLengthY = FocalLengthY camera,
          PrincipalPointX = PrincipalPointX camera, PrincipalPointY = PrincipalPointY camera,
          Unproject = id, Project = id\<rparr>"
proof -
  have fam: "ModelId camera = SimplePinholeCameraModel \<or> ModelId camera = PinholeCameraModel"
    using assms(2) by blast
  have f: "SetFocalLengths options camera (InitialUndistortedCamera camera) =
             Inr ((InitialUndistortedCamera camera)
                    \<lparr>FocalLengthX := FocalLengthX camera, FocalLengthY := FocalLengthY camera\<rparr>)"
    using assms by (auto simp: SetFocalLengths_def FocalLength_def)
  show ?thesis
    unfolding UndistortCameraBeforeSizeLimit_def f
    by (simp add: ScaleToBorder_pinhole [OF fam] InitialUndistortedCamera_eq)
qed

text \<open>
  C8, as amended. For an input camera of a pinhole kind (\<^verbatim>\<open>SIMPLE_PINHOLE\<close> with its one
  focal length, or \<^verbatim>\<open>PINHOLE\<close> with two), valid options with no override,
  \<^verbatim>\<open>estimate_focal_length_from_fov\<close> false and no size limit that applies (a negative
  \<^verbatim>\<open>max_image_size\<close>, or one that width and height do not exceed), \<open>UndistortCamera\<close> returns
  the pinhole camera with the focal lengths, the principal point, the width and the height
  of the input.
\<close>

theorem C8_pinhole_input_unchanged:
  assumes "CheckOptions options = None"
    and "camera_model_override options = []"
    and "\<not> estimate_focal_length_from_fov options"
    and "(ModelId camera = SimplePinholeCameraModel \<and> length (FocalLengthIdxs camera) = 1 \<and>
            FocalLengthY camera = FocalLengthX camera) \<or>
         (ModelId camera = PinholeCameraModel \<and> length (FocalLengthIdxs camera) = 2)"
    and "max_image_size options < 0 \<or>
         (0 < Width camera \<and> 0 < Height camera \<and>
          int (Width camera) \<le> max_image_size options \<and>
          int (Height camera) \<le> max_image_size options)"
  shows "UndistortCamera ops options camera =
     Inr \<lparr>ModelId = PinholeCameraModel, Width = Width camera, Height = Height camera,
          FocalLengthIdxs = [0, 1], PrincipalPointIdxs = [2, 3],
          FocalLengthX = FocalLengthX camera, FocalLengthY = FocalLengthY camera,
          PrincipalPointX = PrincipalPointX camera, PrincipalPointY = PrincipalPointY camera,
          Unproject = id, Project = id\<rparr>"
proof -
  let ?c = "\<lparr>ModelId = PinholeCameraModel, Width = Width camera, Height = Height camera,
          FocalLengthIdxs = [0, 1], PrincipalPointIdxs = [2, 3],
          FocalLengthX = FocalLengthX camera, FocalLengthY = FocalLengthY camera,
          PrincipalPointX = PrincipalPointX camera, PrincipalPointY = PrincipalPointY camera,
          Unproject = id, Project = id\<rparr>"
  have b: "UndistortCameraBeforeSizeLimit options camera = Inr ?c"
    by (rule UndistortCameraBeforeSizeLimit_pinhole_copy [OF assms(3) assms(4)])
  have l: "LimitImageSize ops options ?c = ?c"
    using assms(5)
  proof
    assume "max_image_size options < 0"
    then show ?thesis by (rule LimitImageSize_unbounded)
  next
    assume "0 < Width camera \<and> 0 < Height camera \<and>
          int (Width camera) \<le> max_image_size options \<and>
          int (Height camera) \<le> max_image_size options"
    then show ?thesis by (simp add: LimitImageSize_fits)
  qed
  show ?thesis
    unfolding UndistortCamera_without_override [OF assms(1) assms(2)] b
    by (simp only: sum.case l)
qed

text \<open>The theorem at the example options and the pinhole camera of 640 x 480 pixels.\<close>

theorem C8_witness:
  "CheckOptions ExampleOptions = None \<and> camera_model_override ExampleOptions = [] \<and>
   \<not> estimate_focal_length_from_fov ExampleOptions \<and>
   ModelId ExamplePinhole = PinholeCameraModel \<and> length (FocalLengthIdxs ExamplePinhole) = 2 \<and>
   max_image_size ExampleOptions < 0 \<and>
   UndistortCamera ExampleOps ExampleOptions ExamplePinhole = Inr ExamplePinhole"
proof -
  have a: "camera_model_override ExampleOptions = []"
    "\<not> estimate_focal_length_from_fov ExampleOptions" "max_image_size ExampleOptions < 0"
    by (simp_all add: ExampleOptions_def)
  have b: "ModelId ExamplePinhole = PinholeCameraModel \<and> length (FocalLengthIdxs ExamplePinhole) = 2"
    by (simp add: ExamplePinhole_def)
  have "UndistortCamera ExampleOps ExampleOptions ExamplePinhole =
     Inr \<lparr>ModelId = PinholeCameraModel, Width = Width ExamplePinhole,
          Height = Height ExamplePinhole,
          FocalLengthIdxs = [0, 1], PrincipalPointIdxs = [2, 3],
          FocalLengthX = FocalLengthX ExamplePinhole, FocalLengthY = FocalLengthY ExamplePinhole,
          PrincipalPointX = PrincipalPointX ExamplePinhole,
          PrincipalPointY = PrincipalPointY ExamplePinhole,
          Unproject = id, Project = id\<rparr>"
    by (rule C8_pinhole_input_unchanged [OF CheckOptions_ExampleOptions a(1) a(2)])
      (use a b in blast)+
  then have "UndistortCamera ExampleOps ExampleOptions ExamplePinhole = Inr ExamplePinhole"
    by (simp add: ExamplePinhole_def)
  with a b CheckOptions_ExampleOptions show ?thesis by simp
qed

text \<open>
  The claim as stated fails when an override is configured: with the override
  \<^verbatim>\<open>PINHOLE\<close> and the parameters \<^verbatim>\<open>1,1,0,0\<close>, \<^verbatim>\<open>estimate_focal_length_from_fov\<close> false
  and no size limit, the pinhole camera with focal length 500 and principal point
  (320, 240) comes back with focal length 1 and principal point (0, 0).
\<close>

theorem C8_counterexample:
  "\<not> estimate_focal_length_from_fov ExampleOptions \<and> max_image_size ExampleOptions = - 1 \<and>
   FocalLengthX ExamplePinhole = 500 \<and> PrincipalPointX ExamplePinhole = 320 \<and>
   UndistortCamera ExampleOps
       (ExampleOptions\<lparr>camera_model_override := ''PINHOLE'',
                        camera_model_override_params := ''1,1,0,0''\<rparr>) ExamplePinhole =
     Inr \<lparr>ModelId = PinholeCameraModel, Width = 640, Height = 480,
          FocalLengthIdxs = [0, 1], PrincipalPointIdxs = [2, 3],
          FocalLengthX = 1, FocalLengthY = 1, PrincipalPointX = 0, PrincipalPointY = 0,
          Unproject = id, Project = id\<rparr>"
proof -
  have c: "CheckOptions (ExampleOptions\<lparr>camera_model_override := ''PINHOLE'',
                        camera_model_override_params := ''1,1,0,0''\<rparr>) = None"
    by (simp add: CheckOptions_None_iff ExampleOptions_def)
  show ?thesis
    using UndistortCamera_pinhole_override [OF c, of ExamplePinhole]
    by (simp add: ExampleOptions_def ExamplePinhole_def)
qed

subsection \<open>UndistortCamera: the estimated focal length\<close>

text \<open>
  The pinhole camera of 4 x 3 pixels with focal length 1.5 and principal point (2.5, 2),
  under options with \<^verbatim>\<open>max_fov = 120\<close> and \<^verbatim>\<open>max_horizontal_fov = max_vertical_fov = 180\<close>.
  The corner of the table \<^verbatim>\<open>corners\<close> farthest from the principal point is (0, 0), at
  distance about 3.2; the march accepts the pixels 1 and 2 and stops at pixel 3, whose
  angle \<open>arctan 2\<close> exceeds 60 degrees, so that \<^verbatim>\<open>max_valid_radius\<close> is 2. Every point
  within that radius passes the three angle tests, so that a probe towards a target at
  distance \<open>d\<close> stops at the distance \<open>min 2 d * (1 - 2^-32)\<close>.
\<close>

lemma ImageToWorld_OffCentrePinhole:
  "ImageToWorld OffCentrePinhole (vec2_add (5 / 2, 2) (vec2_scale dir m)) =
     vec2_scale dir (m / (3 / 2))"
  by (simp add: ImageToWorld_def OffCentrePinhole_def vec2_add_def vec2_scale_def)

lemma norm_ImageToWorld_OffCentrePinhole:
  assumes "vec2_norm dir = 1" and "0 \<le> m"
  shows "vec2_norm (ImageToWorld OffCentrePinhole (vec2_add (5 / 2, 2) (vec2_scale dir m))) =
           2 * m / 3"
  unfolding ImageToWorld_OffCentrePinhole vec2_norm_scale using assms by simp

lemma corners_OffCentrePinhole:
  "corners OffCentrePinhole = [(0, 0), (4, 0), (3, 4), (0, 3)]"
  by (simp add: corners_def OffCentrePinhole_def)

lemma farthest_corner_OffCentrePinhole:
  "farthest_corner (corners OffCentrePinhole) (5 / 2, 2) (0, (0, 0)) =
     (vec2_norm (- (5 / 2), - 2), vec2_normalized (- (5 / 2), - 2))"
  unfolding corners_OffCentrePinhole
  by (simp add: vec2_sub_def vec2_norm_def Let_def power2_eq_square)

lemma far_corner_distance: "3 < vec2_norm (- (5 / 2), - 2)"
  unfolding vec2_norm_def by (rule real_less_rsqrt) (simp add: power2_eq_square)

lemma arctan_sqrt_three: "arctan (sqrt 3) = pi / 3"
proof (rule arctan_unique)
  show "- (pi / 2) < pi / 3" using pi_gt_zero by linarith
  show "pi / 3 < pi / 2" using pi_gt_zero by linarith
  show "tan (pi / 3) = sqrt 3" by (rule tan_60)
qed

lemma arctan_less_third_pi: "x \<le> 4 / 3 \<Longrightarrow> arctan x < pi / 3"
proof -
  assume x: "x \<le> 4 / 3"
  have "(4 / 3 :: real) < sqrt 3" by (rule real_less_rsqrt) (simp add: power2_eq_square)
  with x have "x < sqrt 3" by linarith
  then have "arctan x < arctan (sqrt 3)" by (simp only: arctan_less_iff)
  then show ?thesis by (simp only: arctan_sqrt_three)
qed

lemma march_OffCentrePinhole:
  "march OffCentrePinhole (5 / 2, 2) (vec2_normalized (- (5 / 2), - 2)) (vec2_norm (- (5 / 2), - 2))
     (DegToRad 120) (Suc 0) (0, vec2_norm (4, 3)) = (arctan (4 / 3), 2)"
proof -
  let ?d = "vec2_normalized (- (5 / 2), - 2)"
  let ?r = "vec2_norm (- (5 / 2), - 2)"
  have nd: "vec2_norm ?d = 1" by (rule vec2_norm_normalized) (simp add: power2_eq_square)
  have w: "vec2_norm (ImageToWorld OffCentrePinhole (vec2_add (vec2_scale ?d m) (5 / 2, 2))) =
             2 * m / 3" if "0 \<le> m" for m
  proof -
    have "vec2_add (vec2_scale ?d m) (5 / 2, 2) = vec2_add (5 / 2, 2) (vec2_scale ?d m)"
      by (simp add: vec2_add_def)
    then show ?thesis using norm_ImageToWorld_OffCentrePinhole [OF nd that] by simp
  qed
  have w1: "vec2_norm (ImageToWorld OffCentrePinhole (vec2_add (vec2_scale ?d 1) (5 / 2, 2))) =
              2 / 3"
    using w [of 1] by simp
  have w2: "vec2_norm (ImageToWorld OffCentrePinhole (vec2_add (vec2_scale ?d 2) (5 / 2, 2))) =
              4 / 3"
    using w [of 2] by simp
  have w3: "vec2_norm (ImageToWorld OffCentrePinhole (vec2_add (vec2_scale ?d 3) (5 / 2, 2))) =
              2"
    using w [of 3] by simp
  have r1: "real (Suc 0) = 1" and r2: "real (Suc (Suc 0)) = 2"
    and r3: "real (Suc (Suc (Suc 0))) = 3" by simp_all
  have c: "1 < ?r" "2 < ?r" "3 < ?r" using far_corner_distance by simp_all
  have a1: "\<not> arctan (2 / 3) \<le> 0"
    using arctan_less_iff [of 0 "2 / 3"] by simp
  have a2: "\<not> DegToRad 120 < 2 * arctan (2 / 3)"
    unfolding DegToRad_def using arctan_less_third_pi [of "2 / 3"] by simp
  have b1: "\<not> arctan (4 / 3) \<le> arctan (2 / 3)"
    using arctan_less_iff [of "2 / 3" "4 / 3"] by simp
  have b2: "\<not> DegToRad 120 < 2 * arctan (4 / 3)"
    unfolding DegToRad_def using arctan_less_third_pi [of "4 / 3"] by simp
  have c3: "DegToRad 120 < 2 * arctan 2"
    unfolding DegToRad_def using arctan_two_gt_third_pi by linarith
  have third: "march OffCentrePinhole (5 / 2, 2) ?d ?r (DegToRad 120) (Suc (Suc (Suc 0)))
                 (arctan (4 / 3), 2) = (arctan (4 / 3), 2)"
    by (subst march.simps [of _ _ _ _ _ "Suc (Suc (Suc 0))"])
      (simp only: r3 c if_True Let_def w3 c3 simp_thms)
  have second: "march OffCentrePinhole (5 / 2, 2) ?d ?r (DegToRad 120) (Suc (Suc 0))
                  (arctan (2 / 3), 1) =
                march OffCentrePinhole (5 / 2, 2) ?d ?r (DegToRad 120) (Suc (Suc (Suc 0)))
                  (arctan (4 / 3), 2)"
    by (subst march.simps [of _ _ _ _ _ "Suc (Suc 0)"])
      (simp only: r2 c if_True Let_def w2 b1 b2 simp_thms if_False)
  have first: "march OffCentrePinhole (5 / 2, 2) ?d ?r (DegToRad 120) (Suc 0)
                 (0, vec2_norm (4, 3)) =
               march OffCentrePinhole (5 / 2, 2) ?d ?r (DegToRad 120) (Suc (Suc 0))
                 (arctan (2 / 3), 1)"
    by (subst march.simps [of _ _ _ _ _ "Suc 0"])
      (simp only: r1 c if_True Let_def w1 a1 a2 simp_thms if_False)
  show ?thesis by (simp only: first second third)
qed

lemma MaxValidRegion_OffCentrePinhole:
  assumes "max_fov options = 120"
  shows "MaxValidRegion options OffCentrePinhole = (pi / 3, 2, (5 / 2, 2))"
proof -
  have c: "PrincipalPointIdxs OffCentrePinhole = [2, 3]" "PrincipalPointX OffCentrePinhole = 5 / 2"
    "PrincipalPointY OffCentrePinhole = 2" "Width OffCentrePinhole = 4"
    "Height OffCentrePinhole = 3"
    by (simp_all add: OffCentrePinhole_def)
  have h: "DegToRad 120 / 2 = pi / 3" by (simp add: DegToRad_def)
  show ?thesis
    unfolding MaxValidRegion_def assms c Let_def
    by (simp add: farthest_corner_OffCentrePinhole march_OffCentrePinhole h)
qed

lemma m_valid_OffCentrePinhole:
  assumes "vec2_norm dir = 1" and "0 < m" and "m < 2"
  shows "m_valid OffCentrePinhole (5 / 2, 2) dir (pi / 3) (pi / 2) (pi / 2) m"
proof -
  have n: "vec2_norm (ImageToWorld OffCentrePinhole (vec2_add (5 / 2, 2) (vec2_scale dir m))) =
             2 * m / 3"
    using assms by (intro norm_ImageToWorld_OffCentrePinhole) simp_all
  have a: "arctan (2 * m / 3) < pi / 3"
    using assms(3) by (intro arctan_less_third_pi) simp
  have u: "arctan x < pi / 2" for x by (rule arctan_ubound)
  show ?thesis
    unfolding m_valid_def n Let_def using a u by blast
qed

lemma SelectLengthOnRay_OffCentrePinhole:
  assumes "vec2_norm (vec2_sub target (5 / 2, 2)) \<noteq> 0"
  shows "SelectLengthOnRay OffCentrePinhole (5 / 2, 2) target 2 (pi / 3) (pi / 2) (pi / 2) =
           min 2 (vec2_norm (vec2_sub target (5 / 2, 2))) * (1 - 1 / 2 ^ 32)"
proof -
  let ?diff = "vec2_sub target (5 / 2, 2)"
  let ?dir = "vec2_normalized ?diff"
  let ?r = "min 2 (vec2_norm ?diff)"
  have dpos: "0 < vec2_norm ?diff" using assms vec2_norm_nonneg [of ?diff] by simp
  have nd: "vec2_norm ?dir = 1"
    using dpos by (intro vec2_norm_normalized) (simp add: vec2_norm_pos_iff)
  have rpos: "0 < ?r" using dpos by simp
  have "fst (bisection_rounds (m_valid OffCentrePinhole (5 / 2, 2) ?dir (pi / 3) (pi / 2) (pi / 2))
               32 (0, ?r)) = ?r - (?r - 0) / 2 ^ 32"
  proof (rule bisection_rounds_all_valid_open)
    fix m assume "min 0 ?r < m" "m < max 0 ?r"
    then have "0 < m" "m < 2" using rpos by simp_all
    then show "m_valid OffCentrePinhole (5 / 2, 2) ?dir (pi / 3) (pi / 2) (pi / 2) m"
      by (rule m_valid_OffCentrePinhole [OF nd])
  next
    show "0 \<noteq> ?r" using rpos by simp
  qed
  then show ?thesis
    by (simp add: SelectLengthOnRay_def Let_def algebra_simps)
qed

lemma probed_angle_OffCentrePinhole:
  assumes "max_fov options = 120"
    and "max_horizontal_fov options = 180" and "max_vertical_fov options = 180"
    and "vec2_norm (vec2_sub target (5 / 2, 2)) \<noteq> 0"
  shows "vec2_norm (ImageToWorld OffCentrePinhole (ProbeBorder options OffCentrePinhole target)) =
           2 * (min 2 (vec2_norm (vec2_sub target (5 / 2, 2))) * (1 - 1 / 2 ^ 32)) / 3"
proof -
  let ?diff = "vec2_sub target (5 / 2, 2)"
  let ?dir = "vec2_normalized ?diff"
  let ?l = "min 2 (vec2_norm ?diff) * (1 - 1 / 2 ^ 32)"
  have dpos: "0 < vec2_norm ?diff" using assms(4) vec2_norm_nonneg [of ?diff] by simp
  have nd: "vec2_norm ?dir = 1"
    using dpos by (intro vec2_norm_normalized) (simp add: vec2_norm_pos_iff)
  have lpos: "0 \<le> ?l" using dpos by simp
  have h: "DegToRad (max_horizontal_fov options) / 2 = pi / 2"
    "DegToRad (max_vertical_fov options) / 2 = pi / 2"
    by (simp_all add: DegToRad_def assms(2) assms(3))
  have "ProbeBorder options OffCentrePinhole target =
          SelectPointOnRay OffCentrePinhole (5 / 2, 2) target 2 (pi / 3) (pi / 2) (pi / 2)"
    by (simp add: ProbeBorder_def MaxValidRegion_OffCentrePinhole [OF assms(1)] h)
  also have "\<dots> = vec2_add (5 / 2, 2) (vec2_scale ?dir ?l)"
    by (simp only: SelectPointOnRay_def Let_def SelectLengthOnRay_OffCentrePinhole [OF assms(4)])
  finally show ?thesis
    by (simp only: norm_ImageToWorld_OffCentrePinhole [OF nd lpos])
qed

lemma tan_half_sum_ge:
  assumes "0 \<le> t" "t < 1" "0 \<le> s" "s < 1"
    and "2 * t / (1 - t\<^sup>2) \<le> a" and "2 * s / (1 - s\<^sup>2) \<le> b"
  shows "(t + s) / (1 - t * s) \<le> tan ((arctan a + arctan b) / 2)"
proof -
  have "2 * arctan t = arctan (2 * t / (1 - t\<^sup>2))"
    using assms(1) assms(2) by (intro arctan_double) simp
  also have "\<dots> \<le> arctan a" using assms(5) by (simp only: arctan_le_iff)
  finally have ta: "2 * arctan t \<le> arctan a" .
  have "2 * arctan s = arctan (2 * s / (1 - s\<^sup>2))"
    using assms(3) assms(4) by (intro arctan_double) simp
  also have "\<dots> \<le> arctan b" using assms(6) by (simp only: arctan_le_iff)
  finally have sb: "2 * arctan s \<le> arctan b" .
  have "arctan ((t + s) / (1 - t * s)) = arctan t + arctan s"
    using assms(1-4) by (intro arctan_add [symmetric]) simp_all
  also have "\<dots> \<le> (arctan a + arctan b) / 2" using ta sb by (simp add: le_divide_eq)
  finally have le: "arctan ((t + s) / (1 - t * s)) \<le> (arctan a + arctan b) / 2" .
  have ub: "(arctan a + arctan b) / 2 < pi / 2"
    using arctan_ubound [of a] arctan_ubound [of b] by simp
  have "tan (arctan ((t + s) / (1 - t * s))) \<le> tan ((arctan a + arctan b) / 2)"
    using arctan_lbound [of "(t + s) / (1 - t * s)"] le ub by (intro tan_mono_le) simp_all
  then show ?thesis by (simp only: tan_arctan)
qed

lemma vec2_norm_ge_two: "4 \<le> x\<^sup>2 + y\<^sup>2 \<Longrightarrow> 2 \<le> vec2_norm (x, y)"
  unfolding vec2_norm_def by (rule real_le_rsqrt) simp

lemma corner_distances_OffCentrePinhole:
  "min 2 (vec2_norm (vec2_sub (0, 0) (5 / 2, 2))) = 2"
  "min 2 (vec2_norm (vec2_sub (4, 0) (5 / 2, 2))) = 2"
  "min 2 (vec2_norm (vec2_sub (3, 4) (5 / 2, 2))) = 2"
  "min 2 (vec2_norm (vec2_sub (0, 3) (5 / 2, 2))) = 2"
  "vec2_norm (vec2_sub (0, 0) (5 / 2, 2)) \<noteq> 0"
  "vec2_norm (vec2_sub (4, 0) (5 / 2, 2)) \<noteq> 0"
  "vec2_norm (vec2_sub (3, 4) (5 / 2, 2)) \<noteq> 0"
  "vec2_norm (vec2_sub (0, 3) (5 / 2, 2)) \<noteq> 0"
proof -
  have a: "2 \<le> vec2_norm (vec2_sub (0, 0) (5 / 2, 2))"
    unfolding vec2_sub_def by (simp add: vec2_norm_ge_two power2_eq_square)
  have b: "2 \<le> vec2_norm (vec2_sub (4, 0) (5 / 2, 2))"
    unfolding vec2_sub_def by (simp add: vec2_norm_ge_two power2_eq_square)
  have c: "2 \<le> vec2_norm (vec2_sub (3, 4) (5 / 2, 2))"
    unfolding vec2_sub_def by (simp add: vec2_norm_ge_two power2_eq_square)
  have d: "2 \<le> vec2_norm (vec2_sub (0, 3) (5 / 2, 2))"
    unfolding vec2_sub_def by (simp add: vec2_norm_ge_two power2_eq_square)
  show "min 2 (vec2_norm (vec2_sub (0, 0) (5 / 2, 2))) = 2" using a by simp
  show "min 2 (vec2_norm (vec2_sub (4, 0) (5 / 2, 2))) = 2" using b by simp
  show "min 2 (vec2_norm (vec2_sub (3, 4) (5 / 2, 2))) = 2" using c by simp
  show "min 2 (vec2_norm (vec2_sub (0, 3) (5 / 2, 2))) = 2" using d by simp
  show "vec2_norm (vec2_sub (0, 0) (5 / 2, 2)) \<noteq> 0" using a by simp
  show "vec2_norm (vec2_sub (4, 0) (5 / 2, 2)) \<noteq> 0" using b by simp
  show "vec2_norm (vec2_sub (3, 4) (5 / 2, 2)) \<noteq> 0" using c by simp
  show "vec2_norm (vec2_sub (0, 3) (5 / 2, 2)) \<noteq> 0" using d by simp
qed

lemma image_diagonal_OffCentrePinhole: "vec2_norm (4, 3) = 5"
  by (rule vec2_norm_pythagorean) simp_all

lemma focal_from_corner_pair_OffCentrePinhole:
  assumes "max_fov options = 120"
    and "max_horizontal_fov options = 180" and "max_vertical_fov options = 180"
  shows "focal_from_corner_pair options OffCentrePinhole 0 = Some (15 / (8 * (1 - 1 / 2 ^ 32)))"
    and "focal_from_corner_pair options OffCentrePinhole 1 = Some (15 / (8 * (1 - 1 / 2 ^ 32)))"
proof -
  note d = corner_distances_OffCentrePinhole
  note p = probed_angle_OffCentrePinhole [OF assms]
  have wh: "Width OffCentrePinhole = 4" "Height OffCentrePinhole = 3"
    by (simp_all add: OffCentrePinhole_def)
  have n: "corners OffCentrePinhole ! 0 = (0, 0)" "corners OffCentrePinhole ! (0 + 2) = (3, 4)"
    "corners OffCentrePinhole ! 1 = (4, 0)" "corners OffCentrePinhole ! (1 + 2) = (0, 3)"
    by (simp_all add: corners_OffCentrePinhole)
  have a: "vec2_norm (ImageToWorld OffCentrePinhole (ProbeBorder options OffCentrePinhole (0, 0))) =
             4 / 3 * (1 - 1 / 2 ^ 32)"
    "vec2_norm (ImageToWorld OffCentrePinhole (ProbeBorder options OffCentrePinhole (4, 0))) =
             4 / 3 * (1 - 1 / 2 ^ 32)"
    "vec2_norm (ImageToWorld OffCentrePinhole (ProbeBorder options OffCentrePinhole (3, 4))) =
             4 / 3 * (1 - 1 / 2 ^ 32)"
    "vec2_norm (ImageToWorld OffCentrePinhole (ProbeBorder options OffCentrePinhole (0, 3))) =
             4 / 3 * (1 - 1 / 2 ^ 32)"
    unfolding p [OF d(5)] p [OF d(6)] p [OF d(7)] p [OF d(8)] d(1-4) by simp_all
  have t: "tan ((arctan (4 / 3 * (1 - 1 / 2 ^ 32)) + arctan (4 / 3 * (1 - 1 / 2 ^ 32))) / 2) =
             4 / 3 * (1 - 1 / 2 ^ 32)"
    by (simp add: tan_arctan)
  have q: "fdiv (5 / 2) (4 / 3 * (1 - 1 / 2 ^ 32)) = Some (15 / (8 * (1 - 1 / 2 ^ 32)))"
    by (simp add: fdiv_def)
  show "focal_from_corner_pair options OffCentrePinhole 0 = Some (15 / (8 * (1 - 1 / 2 ^ 32)))"
    unfolding focal_from_corner_pair_def Let_def n wh
    by (simp only: a t of_nat_numeral image_diagonal_OffCentrePinhole q)
  show "focal_from_corner_pair options OffCentrePinhole 1 = Some (15 / (8 * (1 - 1 / 2 ^ 32)))"
    unfolding focal_from_corner_pair_def Let_def n wh
    by (simp only: a t of_nat_numeral image_diagonal_OffCentrePinhole q)
qed

lemma focal_from_max_valid_fov_OffCentrePinhole:
  assumes "max_fov options = 120"
  shows "focal_from_max_valid_fov options OffCentrePinhole = Some (5 / 2 / sqrt 3)"
proof -
  have wh: "Width OffCentrePinhole = 4" "Height OffCentrePinhole = 3"
    by (simp_all add: OffCentrePinhole_def)
  show ?thesis
    unfolding focal_from_max_valid_fov_def MaxValidRegion_OffCentrePinhole [OF assms] wh
    by (simp add: image_diagonal_OffCentrePinhole tan_60 fdiv_def)
qed

lemma tan_half_fov_OffCentrePinhole:
  "9 / 8 \<le> tan ((arctan (4 / 3) + arctan 1) / 2)"
  "16 / 17 \<le> tan ((arctan (4 / 3) + arctan (2 / 3)) / 2)"
proof -
  have "(1 / 2 + 2 / 5) / (1 - 1 / 2 * (2 / 5)) \<le> tan ((arctan (4 / 3) + arctan 1) / 2)"
    by (rule tan_half_sum_ge) (simp_all add: power2_eq_square)
  then show "9 / 8 \<le> tan ((arctan (4 / 3) + arctan 1) / 2)" by simp
  have "(1 / 2 + 3 / 10) / (1 - 1 / 2 * (3 / 10)) \<le> tan ((arctan (4 / 3) + arctan (2 / 3)) / 2)"
    by (rule tan_half_sum_ge) (simp_all add: power2_eq_square)
  then show "16 / 17 \<le> tan ((arctan (4 / 3) + arctan (2 / 3)) / 2)" by simp
qed

lemma focal_horizontal_fov_OffCentrePinhole:
  assumes "max_fov options = 120" and "max_horizontal_fov options = 180"
  shows "focal_horizontal_fov options OffCentrePinhole =
           Some (2 / tan ((arctan (4 / 3) + arctan 1) / 2))"
proof -
  have wh: "Width OffCentrePinhole = 4" "Height OffCentrePinhole = 3"
    by (simp_all add: OffCentrePinhole_def)
  have l: "ImageToWorld OffCentrePinhole (1 / 2, 2) = (- (4 / 3), 0)"
    and r: "ImageToWorld OffCentrePinhole (4, 2) = (1, 0)"
    by (simp_all add: ImageToWorld_def OffCentrePinhole_def)
  have u: "arctan (4 / 3) + arctan 1 < pi"
    using arctan_ubound [of "4 / 3"] arctan_ubound [of 1] by simp
  have m: "min (DegToRad 180) (arctan (4 / 3) + arctan 1) = arctan (4 / 3) + arctan 1"
    using u by (simp add: DegToRad_def)
  have nz: "tan ((arctan (4 / 3) + arctan 1) / 2) \<noteq> 0"
    using tan_half_fov_OffCentrePinhole(1) by simp
  show ?thesis
    unfolding focal_horizontal_fov_def MaxValidRegion_OffCentrePinhole [OF assms(1)] wh assms(2)
    using nz by (simp add: l r m fdiv_def)
qed

lemma focal_vertical_fov_OffCentrePinhole:
  assumes "max_fov options = 120" and "max_vertical_fov options = 180"
  shows "focal_vertical_fov options OffCentrePinhole =
           Some (3 / 2 / tan ((arctan (4 / 3) + arctan (2 / 3)) / 2))"
proof -
  have wh: "Width OffCentrePinhole = 4" "Height OffCentrePinhole = 3"
    by (simp_all add: OffCentrePinhole_def)
  have t: "ImageToWorld OffCentrePinhole (5 / 2, 0) = (0, - (4 / 3))"
    and b: "ImageToWorld OffCentrePinhole (5 / 2, 3) = (0, 2 / 3)"
    by (simp_all add: ImageToWorld_def OffCentrePinhole_def)
  have u: "arctan (4 / 3) + arctan (2 / 3) < pi"
    using arctan_ubound [of "4 / 3"] arctan_ubound [of "2 / 3"] by simp
  have m: "min (DegToRad 180) (arctan (4 / 3) + arctan (2 / 3)) = arctan (4 / 3) + arctan (2 / 3)"
    using u by (simp add: DegToRad_def)
  have nz: "tan ((arctan (4 / 3) + arctan (2 / 3)) / 2) \<noteq> 0"
    using tan_half_fov_OffCentrePinhole(2) by simp
  show ?thesis
    unfolding focal_vertical_fov_def MaxValidRegion_OffCentrePinhole [OF assms(1)] wh assms(2)
    using nz by (simp add: t b m fdiv_def)
qed

lemma EstimateOptions_fields:
  "CheckOptions EstimateOptions = None"
  "camera_model_override EstimateOptions = []"
  "estimate_focal_length_from_fov EstimateOptions"
  "max_image_size EstimateOptions < 0"
  "max_fov EstimateOptions = 120"
  "max_horizontal_fov EstimateOptions = 180"
  "max_vertical_fov EstimateOptions = 180"
  by (simp_all add: EstimateOptions_def ExampleOptions_def CheckOptions_None_iff)

lemma EstimateFocalLength_OffCentrePinhole:
  "EstimateFocalLength EstimateOptions OffCentrePinhole = Some (15 / (8 * (1 - 1 / 2 ^ 32)))"
proof -
  note o = EstimateOptions_fields
  let ?X = "15 / (8 * (1 - 1 / 2 ^ 32)) :: real"
  let ?h = "2 / tan ((arctan (4 / 3) + arctan 1) / 2)"
  let ?v = "3 / 2 / tan ((arctan (4 / 3) + arctan (2 / 3)) / 2)"
  have x: "15 / 8 \<le> ?X" by simp
  have "(4 / 3 :: real) \<le> sqrt 3" by (rule real_le_rsqrt) (simp add: power2_eq_square)
  then have "5 / 2 / sqrt 3 \<le> 5 / 2 / (4 / 3)" by (intro divide_left_mono) simp_all
  then have d: "5 / 2 / sqrt 3 \<le> ?X" using x by simp
  have "?h \<le> 2 / (9 / 8)"
    using tan_half_fov_OffCentrePinhole(1) by (intro divide_left_mono) simp_all
  then have h: "?h \<le> ?X" using x by simp
  have "?v \<le> 3 / 2 / (16 / 17)"
    using tan_half_fov_OffCentrePinhole(2) by (intro divide_left_mono) simp_all
  then have v: "?v \<le> ?X" using x by simp
  have m: "max (max (5 / 2 / sqrt 3) ?X) ?X = ?X" using d by (simp only: max_absorb2 max.idem)
  have g: "focal_diagonal_fov EstimateOptions OffCentrePinhole = Some ?X"
    unfolding focal_diagonal_fov_def
    by (simp only: foldl_Cons foldl_Nil focal_from_max_valid_fov_OffCentrePinhole [OF o(5)]
        focal_from_corner_pair_OffCentrePinhole [OF o(5) o(6) o(7)] bind.bind_lunit m)
  show ?thesis
    unfolding EstimateFocalLength_def g
      focal_horizontal_fov_OffCentrePinhole [OF o(5) o(6)]
      focal_vertical_fov_OffCentrePinhole [OF o(5) o(7)]
    using h v by (simp add: max_def)
qed

lemma UndistortCamera_OffCentrePinhole:
  "UndistortCamera ops EstimateOptions OffCentrePinhole =
     Inr \<lparr>ModelId = PinholeCameraModel, Width = 4, Height = 3,
          FocalLengthIdxs = [0, 1], PrincipalPointIdxs = [2, 3],
          FocalLengthX = 15 / (8 * (1 - 1 / 2 ^ 32)), FocalLengthY = 15 / (8 * (1 - 1 / 2 ^ 32)),
          PrincipalPointX = 5 / 2, PrincipalPointY = 2,
          Unproject = id, Project = id\<rparr>"
proof -
  note o = EstimateOptions_fields
  have k: "ModelId OffCentrePinhole = SimplePinholeCameraModel \<or>
           ModelId OffCentrePinhole = PinholeCameraModel"
    by (simp add: OffCentrePinhole_def)
  have f: "SetFocalLengths EstimateOptions OffCentrePinhole
             (InitialUndistortedCamera OffCentrePinhole) =
           Inr ((InitialUndistortedCamera OffCentrePinhole)
                  \<lparr>FocalLengthX := 15 / (8 * (1 - 1 / 2 ^ 32)),
                   FocalLengthY := 15 / (8 * (1 - 1 / 2 ^ 32))\<rparr>)"
    using o(3) by (simp add: SetFocalLengths_def EstimateFocalLength_OffCentrePinhole)
  have b: "UndistortCameraBeforeSizeLimit EstimateOptions OffCentrePinhole =
     Inr \<lparr>ModelId = PinholeCameraModel, Width = 4, Height = 3,
          FocalLengthIdxs = [0, 1], PrincipalPointIdxs = [2, 3],
          FocalLengthX = 15 / (8 * (1 - 1 / 2 ^ 32)), FocalLengthY = 15 / (8 * (1 - 1 / 2 ^ 32)),
          PrincipalPointX = 5 / 2, PrincipalPointY = 2,
          Unproject = id, Project = id\<rparr>"
    unfolding UndistortCameraBeforeSizeLimit_def f
    by (simp only: sum.case ScaleToBorder_pinhole [OF k] option.case)
      (simp add: InitialUndistortedCamera_eq OffCentrePinhole_def)
  show ?thesis
    unfolding UndistortCamera_without_override [OF o(1) o(2)] b
    by (simp only: sum.case LimitImageSize_unbounded [OF o(4)])
qed

lemma opposite_corner_candidate_OffCentrePinhole:
  "15 / (8 * (1 - 1 / 2 ^ 32)) <
     vec2_norm (4, 3) / 2 /
       tan ((arctan (vec2_norm (ImageToWorld OffCentrePinhole
                                  (ProbeBorder EstimateOptions OffCentrePinhole (0, 0)))) +
             arctan (vec2_norm (ImageToWorld OffCentrePinhole
                                  (ProbeBorder EstimateOptions OffCentrePinhole (4, 3))))) / 2)"
proof -
  note o = EstimateOptions_fields
  note p = probed_angle_OffCentrePinhole [OF o(5) o(6) o(7)]
  note d = corner_distances_OffCentrePinhole
  let ?A = "4 / 3 * (1 - 1 / 2 ^ 32) :: real"
  let ?d = "vec2_norm (vec2_sub (4, 3) (5 / 2, 2))"
  let ?B = "2 * (?d * (1 - 1 / 2 ^ 32)) / 3"
  have dpos: "0 < ?d"
    unfolding vec2_sub_def vec2_norm_def by (simp add: power2_eq_square)
  have dlt: "?d < 2"
    unfolding vec2_sub_def vec2_norm_def by (rule real_less_lsqrt) (simp_all add: power2_eq_square)
  have a: "vec2_norm (ImageToWorld OffCentrePinhole
                        (ProbeBorder EstimateOptions OffCentrePinhole (0, 0))) = ?A"
    unfolding p [OF d(5)] d(1) by simp
  have m: "min 2 ?d = ?d" using dlt by simp
  have b: "vec2_norm (ImageToWorld OffCentrePinhole
                        (ProbeBorder EstimateOptions OffCentrePinhole (4, 3))) = ?B"
    using dpos by (simp only: p [of "(4, 3)"] m)
  have BA: "?B < ?A" using dlt by simp
  have Bpos: "0 < ?B" using dpos by simp
  have Apos: "0 < ?A" by simp
  let ?t = "(arctan ?A + arctan ?B) / 2"
  have aB: "arctan ?B < arctan ?A" using BA by (simp only: arctan_less_iff)
  have aB0: "0 < arctan ?B" using Bpos arctan_less_iff [of 0 ?B] by simp
  have t1: "?t < arctan ?A" using aB by simp
  have aA0: "0 < arctan ?A" using Apos arctan_less_iff [of 0 ?A] by simp
  have "0 < arctan ?A + arctan ?B" using aA0 aB0 by (rule add_pos_pos)
  then have t0: "0 < ?t" by (simp only: zero_less_divide_iff zero_less_numeral simp_thms)
  have tu: "?t < pi / 2" using t1 arctan_ubound [of ?A] by linarith
  have "tan ?t < tan (arctan ?A)"
    using t0 t1 arctan_ubound [of ?A] by (intro tan_monotone) simp_all
  then have lt: "tan ?t < ?A" by (simp only: tan_arctan)
  have pos: "0 < tan ?t" using t0 tu by (rule tan_gt_zero)
  have "5 / 2 / ?A < 5 / 2 / tan ?t"
    using lt pos by (intro divide_strict_left_mono) simp_all
  moreover have "5 / 2 / ?A = 15 / (8 * (1 - 1 / 2 ^ 32))" by simp
  ultimately show ?thesis
    unfolding a b image_diagonal_OffCentrePinhole by simp
qed

text \<open>
  C1 does not hold of the code. The table \<^verbatim>\<open>corners\<close> holds (\<^verbatim>\<open>Height\<close>, \<^verbatim>\<open>Width\<close>) where
  the corner opposite to (0, 0) is (\<^verbatim>\<open>Width\<close>, \<^verbatim>\<open>Height\<close>): for the camera of 4 x 3
  pixels its third entry is (3, 4), a point below the image, and the candidate of the first
  pair of corners is computed from the probes towards (0, 0) and (3, 4). Both targets are
  farther than \<^verbatim>\<open>max_valid_radius = 2\<close> from the principal point, both probes stop at
  \<open>2 (1 - 2^-32)\<close>, and the candidate is \<open>15 / (8 (1 - 2^-32))\<close>, about 1.875, as is the
  candidate of the second pair; the candidates from \<^verbatim>\<open>max_valid_fov_half\<close>, from the row
  and from the column through the principal point are smaller, and \<open>UndistortCamera\<close>
  returns the focal length \<open>15 / (8 (1 - 2^-32))\<close>. The candidate computed from the opposite
  corners (0, 0) and (4, 3), each probed in the same way, is larger (the corner (4, 3) is
  nearer than 2 to the principal point), so that the maximum over the candidates of the
  claim is not the focal length returned.
\<close>

theorem C1_corner_pair_probes_transposed_corner:
  "corners OffCentrePinhole = [(0, 0), (4, 0), (3, 4), (0, 3)] \<and>
   focal_from_max_valid_fov EstimateOptions OffCentrePinhole = Some (5 / 2 / sqrt 3) \<and>
   focal_from_corner_pair EstimateOptions OffCentrePinhole 0 =
     Some (15 / (8 * (1 - 1 / 2 ^ 32))) \<and>
   focal_from_corner_pair EstimateOptions OffCentrePinhole 1 =
     Some (15 / (8 * (1 - 1 / 2 ^ 32))) \<and>
   focal_horizontal_fov EstimateOptions OffCentrePinhole =
     Some (2 / tan ((arctan (4 / 3) + arctan 1) / 2)) \<and>
   focal_vertical_fov EstimateOptions OffCentrePinhole =
     Some (3 / 2 / tan ((arctan (4 / 3) + arctan (2 / 3)) / 2)) \<and>
   EstimateFocalLength EstimateOptions OffCentrePinhole = Some (15 / (8 * (1 - 1 / 2 ^ 32))) \<and>
   UndistortCamera ExampleOps EstimateOptions OffCentrePinhole =
     Inr \<lparr>ModelId = PinholeCameraModel, Width = 4, Height = 3,
          FocalLengthIdxs = [0, 1], PrincipalPointIdxs = [2, 3],
          FocalLengthX = 15 / (8 * (1 - 1 / 2 ^ 32)), FocalLengthY = 15 / (8 * (1 - 1 / 2 ^ 32)),
          PrincipalPointX = 5 / 2, PrincipalPointY = 2,
          Unproject = id, Project = id\<rparr> \<and>
   15 / (8 * (1 - 1 / 2 ^ 32)) <
     vec2_norm (4, 3) / 2 /
       tan ((arctan (vec2_norm (ImageToWorld OffCentrePinhole
                                  (ProbeBorder EstimateOptions OffCentrePinhole (0, 0)))) +
             arctan (vec2_norm (ImageToWorld OffCentrePinhole
                                  (ProbeBorder EstimateOptions OffCentrePinhole (4, 3))))) / 2)"
proof -
  note o = EstimateOptions_fields
  from corners_OffCentrePinhole
    focal_from_max_valid_fov_OffCentrePinhole [OF o(5)]
    focal_from_corner_pair_OffCentrePinhole(1) [OF o(5) o(6) o(7)]
    focal_from_corner_pair_OffCentrePinhole(2) [OF o(5) o(6) o(7)]
    focal_horizontal_fov_OffCentrePinhole [OF o(5) o(6)]
    focal_vertical_fov_OffCentrePinhole [OF o(5) o(7)]
    EstimateFocalLength_OffCentrePinhole
    UndistortCamera_OffCentrePinhole [of ExampleOps]
    opposite_corner_candidate_OffCentrePinhole
  show ?thesis by (intro conjI)
qed

subsection \<open>UndistortCamera on a camera without distortion\<close>

text \<open>
  The camera \<open>PlainRadial\<close> under options with \<^verbatim>\<open>max_fov = 120\<close>,
  \<^verbatim>\<open>max_horizontal_fov = max_vertical_fov = 180\<close> and \<^verbatim>\<open>blank_pixels = 0.5\<close>: the march
  accepts one pixel, every probe of a border pixel stops \<open>2^-32\<close> of the way short of its
  target, and the scale before clipping is \<open>2 (1 - 2^-32) / 3\<close> on both axes.
\<close>

lemma vec2_scale_normalized_norm:
  "vec2_norm a \<noteq> 0 \<Longrightarrow> vec2_scale (vec2_normalized a) (vec2_norm a * c) = vec2_scale a c"
proof -
  assume n: "vec2_norm a \<noteq> 0"
  have "vec2_scale (vec2_normalized a) (vec2_norm a * c) =
          vec2_scale a (vec2_norm a * c / vec2_norm a)"
    by (rule vec2_scale_normalized)
  also have "vec2_norm a * c / vec2_norm a = c" using n by simp
  finally show ?thesis .
qed

lemma farthest_corner_PlainRadial:
  "farthest_corner (corners PlainRadial) (1, 1) (0, (0, 0)) =
     (sqrt 2, vec2_normalized (- 1, - 1))"
  by (simp add: corners_def PlainRadial_def vec2_sub_def vec2_norm_def Let_def)

lemma march_PlainRadial:
  "march PlainRadial (1, 1) (vec2_normalized (- 1, - 1)) (sqrt 2) (DegToRad 120) (Suc 0)
     (0, sqrt 8) = (pi / 4, 1)"
proof -
  let ?d = "vec2_normalized (- 1, - 1)"
  have nd: "vec2_norm ?d = 1" by (rule vec2_norm_normalized) simp
  have w1: "ImageToWorld PlainRadial (vec2_add (vec2_scale ?d 1) (1, 1)) = ?d"
    by (simp add: ImageToWorld_def PlainRadial_def PlainRadialUnproject_def vec2_add_def
        vec2_scale_def)
  have r1: "real (Suc 0) = 1" and r2: "real (Suc (Suc 0)) = 2" by simp_all
  have c0: "(1::real) < sqrt 2" by (rule real_less_rsqrt) simp
  have c0': "\<not> (2::real) < sqrt 2"
  proof -
    have "sqrt 2 \<le> 2" by (rule real_le_lsqrt) simp_all
    then show ?thesis by simp
  qed
  have c1: "\<not> pi / 4 \<le> 0" using pi_gt_zero by linarith
  have c2: "\<not> DegToRad 120 < 2 * (pi / 4)" unfolding DegToRad_def using pi_gt_zero by linarith
  have second: "march PlainRadial (1, 1) ?d (sqrt 2) (DegToRad 120) (Suc (Suc 0)) (pi / 4, 1) =
                  (pi / 4, 1)"
    by (subst march.simps [of _ _ _ _ _ "Suc (Suc 0)"]) (simp only: r2 c0' if_False)
  have first: "march PlainRadial (1, 1) ?d (sqrt 2) (DegToRad 120) (Suc 0) (0, sqrt 8) =
                 march PlainRadial (1, 1) ?d (sqrt 2) (DegToRad 120) (Suc (Suc 0)) (pi / 4, 1)"
    by (subst march.simps [of _ _ _ _ _ "Suc 0"])
      (simp only: r1 c0 if_True Let_def w1 nd arctan_one c1 c2 simp_thms if_False)
  show ?thesis by (simp only: first second)
qed

lemma MaxValidRegion_PlainRadial:
  assumes "max_fov options = 120"
  shows "MaxValidRegion options PlainRadial = (pi / 3, 1, (1, 1))"
proof -
  have c: "PrincipalPointIdxs PlainRadial = [1, 2]" "PrincipalPointX PlainRadial = 1"
    "PrincipalPointY PlainRadial = 1" "Width PlainRadial = 2" "Height PlainRadial = 2"
    by (simp_all add: PlainRadial_def)
  have d: "vec2_norm (2, 2) = sqrt 8" by (simp add: vec2_norm_def)
  have h: "DegToRad 120 / 2 = pi / 3" by (simp add: DegToRad_def)
  show ?thesis
    unfolding MaxValidRegion_def assms c Let_def
    by (simp add: farthest_corner_PlainRadial d march_PlainRadial h)
qed

lemma m_valid_PlainRadial:
  assumes "vec2_norm dir = 1" and "0 < m" and "m < 1"
  shows "m_valid PlainRadial (1, 1) dir (pi / 3) (pi / 2) (pi / 2) m"
proof -
  have w: "ImageToWorld PlainRadial (vec2_add (1, 1) (vec2_scale dir m)) = vec2_scale dir m"
    by (simp add: ImageToWorld_def PlainRadial_def PlainRadialUnproject_def vec2_add_def
        vec2_scale_def)
  have n: "vec2_norm (vec2_scale dir m) = m"
    using assms by (simp add: vec2_norm_scale)
  have "arctan m < arctan 1" using assms(3) by (simp only: arctan_less_iff)
  then have a: "arctan m < pi / 3" using pi_gt_zero arctan_one by linarith
  have u: "arctan x < pi / 2" for x by (rule arctan_ubound)
  show ?thesis
    unfolding m_valid_def w n Let_def using a u by blast
qed

lemma ProbeBorder_PlainRadial:
  assumes "max_fov options = 120"
    and "max_horizontal_fov options = 180" and "max_vertical_fov options = 180"
    and "vec2_norm (vec2_sub target (1, 1)) \<noteq> 0"
    and "vec2_norm (vec2_sub target (1, 1)) < 1"
  shows "ProbeBorder options PlainRadial target =
           vec2_add (1, 1) (vec2_scale (vec2_sub target (1, 1)) (1 - 1 / 2 ^ 32))"
proof -
  let ?diff = "vec2_sub target (1, 1)"
  let ?dir = "vec2_normalized ?diff"
  let ?d = "vec2_norm ?diff"
  have dpos: "0 < ?d" using assms(4) vec2_norm_nonneg [of ?diff] by simp
  have nd: "vec2_norm ?dir = 1"
    using dpos by (intro vec2_norm_normalized) (simp add: vec2_norm_pos_iff)
  have r: "min 1 ?d = ?d" using assms(5) by simp
  have "fst (bisection_rounds (m_valid PlainRadial (1, 1) ?dir (pi / 3) (pi / 2) (pi / 2))
               32 (0, ?d)) = ?d - (?d - 0) / 2 ^ 32"
  proof (rule bisection_rounds_all_valid_open)
    fix m assume "min 0 ?d < m" "m < max 0 ?d"
    then have "0 < m" "m < 1" using dpos assms(5) by simp_all
    then show "m_valid PlainRadial (1, 1) ?dir (pi / 3) (pi / 2) (pi / 2) m"
      by (rule m_valid_PlainRadial [OF nd])
  next
    show "0 \<noteq> ?d" using dpos by simp
  qed
  then have l: "SelectLengthOnRay PlainRadial (1, 1) target 1 (pi / 3) (pi / 2) (pi / 2) =
                  ?d * (1 - 1 / 2 ^ 32)"
    by (simp add: SelectLengthOnRay_def Let_def r algebra_simps)
  have h: "DegToRad (max_horizontal_fov options) / 2 = pi / 2"
    "DegToRad (max_vertical_fov options) / 2 = pi / 2"
    by (simp_all add: DegToRad_def assms(2) assms(3))
  have "ProbeBorder options PlainRadial target =
          SelectPointOnRay PlainRadial (1, 1) target 1 (pi / 3) (pi / 2) (pi / 2)"
    by (simp add: ProbeBorder_def MaxValidRegion_PlainRadial [OF assms(1)] h)
  also have "\<dots> = vec2_add (1, 1) (vec2_scale ?dir (?d * (1 - 1 / 2 ^ 32)))"
    by (simp only: SelectPointOnRay_def Let_def l)
  also have "\<dots> = vec2_add (1, 1) (vec2_scale ?diff (1 - 1 / 2 ^ 32))"
    by (simp only: vec2_scale_normalized_norm [OF assms(4)])
  finally show ?thesis .
qed

lemma UndistortedBorderPoint_PlainRadial:
  assumes "max_fov options = 120"
    and "max_horizontal_fov options = 180" and "max_vertical_fov options = 180"
    and "vec2_norm (vec2_sub target (1, 1)) \<noteq> 0"
    and "vec2_norm (vec2_sub target (1, 1)) < 1"
    and "ModelId u = PinholeCameraModel"
    and "FocalLengthX u = 1" "FocalLengthY u = 1" "PrincipalPointX u = 1" "PrincipalPointY u = 1"
  shows "UndistortedBorderPoint options PlainRadial u target =
           (1 + (fst target - 1) * (1 - 1 / 2 ^ 32), 1 + (snd target - 1) * (1 - 1 / 2 ^ 32))"
proof -
  have w: "ImageToWorld PlainRadial q = (fst q - 1, snd q - 1)" for q
    by (simp add: ImageToWorld_def PlainRadial_def PlainRadialUnproject_def)
  have i: "WorldToImage u v = (fst v + 1, snd v + 1)" for v
    using assms(6-10) by (simp add: WorldToImage_def)
  show ?thesis
    unfolding UndistortedBorderPoint_def Let_def
      ProbeBorder_PlainRadial [OF assms(1-5)] w i
    by (simp add: vec2_add_def vec2_scale_def vec2_sub_def)
qed

lemma half_pixel_targets:
  "vec2_norm (vec2_sub (1 / 2, 1 / 2) (1, 1)) \<noteq> 0 \<and> vec2_norm (vec2_sub (1 / 2, 1 / 2) (1, 1)) < 1"
  "vec2_norm (vec2_sub (1 / 2, 3 / 2) (1, 1)) \<noteq> 0 \<and> vec2_norm (vec2_sub (1 / 2, 3 / 2) (1, 1)) < 1"
  "vec2_norm (vec2_sub (3 / 2, 1 / 2) (1, 1)) \<noteq> 0 \<and> vec2_norm (vec2_sub (3 / 2, 1 / 2) (1, 1)) < 1"
  "vec2_norm (vec2_sub (3 / 2, 3 / 2) (1, 1)) \<noteq> 0 \<and> vec2_norm (vec2_sub (3 / 2, 3 / 2) (1, 1)) < 1"
  by (simp_all add: vec2_sub_def vec2_norm_def power2_eq_square)

lemma DBL_MAX_ge_two: "2 \<le> DBL_MAX"
proof -
  have "(1::real) \<le> 2 - 1 / 2 ^ 52" by simp
  moreover have "(2::real) \<le> 2 ^ 1023" by (rule self_le_power) simp_all
  ultimately have "1 * 2 \<le> (2 - 1 / 2 ^ 52) * (2::real) ^ 1023"
    by (rule mult_mono) simp_all
  then show ?thesis by (simp only: DBL_MAX_def mult_1_left)
qed

lemma extrema_start:
  assumes "0 \<le> x" "x \<le> 2"
  shows "min DBL_MAX x = x" "max (- DBL_MAX) x = x"
  using assms DBL_MAX_ge_two by simp_all

lemma border_points_PlainRadial:
  assumes "max_fov options = 120"
    and "max_horizontal_fov options = 180" and "max_vertical_fov options = 180"
    and "ModelId u = PinholeCameraModel"
    and "FocalLengthX u = 1" "FocalLengthY u = 1" "PrincipalPointX u = 1" "PrincipalPointY u = 1"
  shows "UndistortedBorderPoint options PlainRadial u (1 / 2, 1 / 2) =
           (1 / 2 + 1 / 2 ^ 33, 1 / 2 + 1 / 2 ^ 33)"
    and "UndistortedBorderPoint options PlainRadial u (1 / 2, 3 / 2) =
           (1 / 2 + 1 / 2 ^ 33, 3 / 2 - 1 / 2 ^ 33)"
    and "UndistortedBorderPoint options PlainRadial u (3 / 2, 1 / 2) =
           (3 / 2 - 1 / 2 ^ 33, 1 / 2 + 1 / 2 ^ 33)"
    and "UndistortedBorderPoint options PlainRadial u (3 / 2, 3 / 2) =
           (3 / 2 - 1 / 2 ^ 33, 3 / 2 - 1 / 2 ^ 33)"
proof -
  note t = half_pixel_targets
  note o = assms(1-3)
  note c = assms(4-8)
  show "UndistortedBorderPoint options PlainRadial u (1 / 2, 1 / 2) =
           (1 / 2 + 1 / 2 ^ 33, 1 / 2 + 1 / 2 ^ 33)"
    using UndistortedBorderPoint_PlainRadial [OF o t(1) [THEN conjunct1] t(1) [THEN conjunct2] c]
    by simp
  show "UndistortedBorderPoint options PlainRadial u (1 / 2, 3 / 2) =
           (1 / 2 + 1 / 2 ^ 33, 3 / 2 - 1 / 2 ^ 33)"
    using UndistortedBorderPoint_PlainRadial [OF o t(2) [THEN conjunct1] t(2) [THEN conjunct2] c]
    by simp
  show "UndistortedBorderPoint options PlainRadial u (3 / 2, 1 / 2) =
           (3 / 2 - 1 / 2 ^ 33, 1 / 2 + 1 / 2 ^ 33)"
    using UndistortedBorderPoint_PlainRadial [OF o t(3) [THEN conjunct1] t(3) [THEN conjunct2] c]
    by simp
  show "UndistortedBorderPoint options PlainRadial u (3 / 2, 3 / 2) =
           (3 / 2 - 1 / 2 ^ 33, 3 / 2 - 1 / 2 ^ 33)"
    using UndistortedBorderPoint_PlainRadial [OF o t(4) [THEN conjunct1] t(4) [THEN conjunct2] c]
    by simp
qed

lemma extrema_PlainRadial:
  assumes "max_fov options = 120"
    and "max_horizontal_fov options = 180" and "max_vertical_fov options = 180"
    and "ModelId u = PinholeCameraModel"
    and "FocalLengthX u = 1" "FocalLengthY u = 1" "PrincipalPointX u = 1" "PrincipalPointY u = 1"
  shows "RowExtrema options PlainRadial u =
           (1 / 2 + 1 / 2 ^ 33, 1 / 2 + 1 / 2 ^ 33, 3 / 2 - 1 / 2 ^ 33, 3 / 2 - 1 / 2 ^ 33)"
    and "ColumnExtrema options PlainRadial u =
           (1 / 2 + 1 / 2 ^ 33, 1 / 2 + 1 / 2 ^ 33, 3 / 2 - 1 / 2 ^ 33, 3 / 2 - 1 / 2 ^ 33)"
proof -
  have s: "[0..<2] = [0, Suc 0]" by (simp add: upt_rec)
  have wh: "Width PlainRadial = 2" "Height PlainRadial = 2" by (simp_all add: PlainRadial_def)
  have m: "min DBL_MAX (1 / 2 + 1 / 2 ^ 33) = 1 / 2 + 1 / 2 ^ 33"
    "max (- DBL_MAX) (1 / 2 + 1 / 2 ^ 33) = 1 / 2 + 1 / 2 ^ 33"
    "min DBL_MAX (3 / 2 - 1 / 2 ^ 33) = 3 / 2 - 1 / 2 ^ 33"
    "max (- DBL_MAX) (3 / 2 - 1 / 2 ^ 33) = 3 / 2 - 1 / 2 ^ 33"
    by (rule extrema_start; simp)+
  note b = border_points_PlainRadial [OF assms]
  have t: "(0.5::real) = 1 / 2" "real 0 + 1 / 2 = 1 / 2" "real (Suc 0) + 1 / 2 = 3 / 2"
    "real 2 - 1 / 2 = 3 / 2"
    by simp_all
  show "RowExtrema options PlainRadial u =
           (1 / 2 + 1 / 2 ^ 33, 1 / 2 + 1 / 2 ^ 33, 3 / 2 - 1 / 2 ^ 33, 3 / 2 - 1 / 2 ^ 33)"
    unfolding RowExtrema_def wh s
    by (simp only: foldl.simps prod.case Let_def t b fst_conv snd_conv m min.idem max.idem)
  show "ColumnExtrema options PlainRadial u =
           (1 / 2 + 1 / 2 ^ 33, 1 / 2 + 1 / 2 ^ 33, 3 / 2 - 1 / 2 ^ 33, 3 / 2 - 1 / 2 ^ 33)"
    unfolding ColumnExtrema_def wh s
    by (simp only: foldl.simps prod.case Let_def t b fst_conv snd_conv m min.idem max.idem)
qed

lemma scales_PlainRadial:
  "min_scale_x PlainRadial 1
     (1 / 2 + 1 / 2 ^ 33, 1 / 2 + 1 / 2 ^ 33, 3 / 2 - 1 / 2 ^ 33, 3 / 2 - 1 / 2 ^ 33) =
     Some (1 / (1 - 1 / 2 ^ 32))"
  "max_scale_x PlainRadial 1
     (1 / 2 + 1 / 2 ^ 33, 1 / 2 + 1 / 2 ^ 33, 3 / 2 - 1 / 2 ^ 33, 3 / 2 - 1 / 2 ^ 33) =
     Some (2 / (1 - 1 / 2 ^ 32))"
  "min_scale_y PlainRadial 1
     (1 / 2 + 1 / 2 ^ 33, 1 / 2 + 1 / 2 ^ 33, 3 / 2 - 1 / 2 ^ 33, 3 / 2 - 1 / 2 ^ 33) =
     Some (1 / (1 - 1 / 2 ^ 32))"
  "max_scale_y PlainRadial 1
     (1 / 2 + 1 / 2 ^ 33, 1 / 2 + 1 / 2 ^ 33, 3 / 2 - 1 / 2 ^ 33, 3 / 2 - 1 / 2 ^ 33) =
     Some (2 / (1 - 1 / 2 ^ 32))"
  by (simp_all add: min_scale_x_def max_scale_x_def min_scale_y_def max_scale_y_def
      fdiv_def PlainRadial_def)

lemma clipped_scales_PlainRadial:
  assumes "blank_pixels options = 1 / 2"
  shows "scale_x options PlainRadial 1
     (1 / 2 + 1 / 2 ^ 33, 1 / 2 + 1 / 2 ^ 33, 3 / 2 - 1 / 2 ^ 33, 3 / 2 - 1 / 2 ^ 33) =
     Some (Clip (2 * (1 - 1 / 2 ^ 32) / 3) (min_scale options) (max_scale options))"
  and "scale_y options PlainRadial 1
     (1 / 2 + 1 / 2 ^ 33, 1 / 2 + 1 / 2 ^ 33, 3 / 2 - 1 / 2 ^ 33, 3 / 2 - 1 / 2 ^ 33) =
     Some (Clip (2 * (1 - 1 / 2 ^ 32) / 3) (min_scale options) (max_scale options))"
  unfolding scale_x_def scale_y_def scales_PlainRadial assms
  by (simp_all add: fdiv_def)

lemma ScaleToBorder_PlainRadial:
  assumes "max_fov options = 120"
    and "max_horizontal_fov options = 180" and "max_vertical_fov options = 180"
    and "blank_pixels options = 1 / 2"
    and "Clip (2 * (1 - 1 / 2 ^ 32) / 3) (min_scale options) (max_scale options) = s"
    and "size_t_of_double (max 1 (s * 2)) = n"
  shows "ScaleToBorder options PlainRadial
     \<lparr>ModelId = PinholeCameraModel, Width = 2, Height = 2,
      FocalLengthIdxs = [0, 1], PrincipalPointIdxs = [2, 3],
      FocalLengthX = 1, FocalLengthY = 1, PrincipalPointX = 1, PrincipalPointY = 1,
      Unproject = id, Project = id\<rparr> =
     Some \<lparr>ModelId = PinholeCameraModel, Width = n, Height = n,
          FocalLengthIdxs = [0, 1], PrincipalPointIdxs = [2, 3],
          FocalLengthX = 1, FocalLengthY = 1,
          PrincipalPointX = real n / 2, PrincipalPointY = real n / 2,
          Unproject = id, Project = id\<rparr>"
proof -
  let ?u = "\<lparr>ModelId = PinholeCameraModel, Width = 2, Height = 2,
          FocalLengthIdxs = [0, 1], PrincipalPointIdxs = [2, 3],
          FocalLengthX = 1, FocalLengthY = 1, PrincipalPointX = 1, PrincipalPointY = 1,
          Unproject = id, Project = id\<rparr>"
  note o = assms(1-3)
  have px: "PrincipalPointX ?u = 1" "PrincipalPointY ?u = 1" by simp_all
  have ex: "RowExtrema options PlainRadial ?u =
      (1 / 2 + 1 / 2 ^ 33, 1 / 2 + 1 / 2 ^ 33, 3 / 2 - 1 / 2 ^ 33, 3 / 2 - 1 / 2 ^ 33)"
    by (rule extrema_PlainRadial [OF o]) simp_all
  have ey: "ColumnExtrema options PlainRadial ?u =
      (1 / 2 + 1 / 2 ^ 33, 1 / 2 + 1 / 2 ^ 33, 3 / 2 - 1 / 2 ^ 33, 3 / 2 - 1 / 2 ^ 33)"
    by (rule extrema_PlainRadial [OF o]) simp_all
  have sx: "scale_x options PlainRadial (PrincipalPointX ?u)
              (RowExtrema options PlainRadial ?u) = Some s"
    by (simp only: px ex clipped_scales_PlainRadial [OF assms(4)] assms(5))
  have sy: "scale_y options PlainRadial (PrincipalPointY ?u)
              (ColumnExtrema options PlainRadial ?u) = Some s"
    by (simp only: px ey clipped_scales_PlainRadial [OF assms(4)] assms(5))
  have k: "ModelId PlainRadial \<noteq> SimplePinholeCameraModel \<and>
           ModelId PlainRadial \<noteq> PinholeCameraModel"
    "Width PlainRadial = 2" "Height PlainRadial = 2"
    by (simp_all add: PlainRadial_def)
  show ?thesis
    unfolding ScaleToBorder_def Let_def sx sy
    using k(1) by (simp add: k(2,3) assms(6) fdiv_def)
qed

lemma UndistortCamera_PlainRadial_scaled:
  assumes "CheckOptions options = None"
    and "camera_model_override options = []"
    and "\<not> estimate_focal_length_from_fov options"
    and "max_image_size options < 0"
    and "max_fov options = 120"
    and "max_horizontal_fov options = 180" and "max_vertical_fov options = 180"
    and "blank_pixels options = 1 / 2"
    and "Clip (2 * (1 - 1 / 2 ^ 32) / 3) (min_scale options) (max_scale options) = s"
    and "size_t_of_double (max 1 (s * 2)) = n"
  shows "UndistortCamera ops options PlainRadial =
     Inr \<lparr>ModelId = PinholeCameraModel, Width = n, Height = n,
          FocalLengthIdxs = [0, 1], PrincipalPointIdxs = [2, 3],
          FocalLengthX = 1, FocalLengthY = 1,
          PrincipalPointX = real n / 2, PrincipalPointY = real n / 2,
          Unproject = id, Project = id\<rparr>"
proof -
  have f: "SetFocalLengths options PlainRadial (InitialUndistortedCamera PlainRadial) =
             Inr ((InitialUndistortedCamera PlainRadial)\<lparr>FocalLengthX := 1, FocalLengthY := 1\<rparr>)"
    using assms(3) by (simp add: SetFocalLengths_def FocalLength_def PlainRadial_def)
  have u: "(InitialUndistortedCamera PlainRadial)
             \<lparr>FocalLengthX := 1, FocalLengthY := 1,
              PrincipalPointX := PrincipalPointX PlainRadial,
              PrincipalPointY := PrincipalPointY PlainRadial\<rparr> =
           \<lparr>ModelId = PinholeCameraModel, Width = 2, Height = 2,
            FocalLengthIdxs = [0, 1], PrincipalPointIdxs = [2, 3],
            FocalLengthX = 1, FocalLengthY = 1, PrincipalPointX = 1, PrincipalPointY = 1,
            Unproject = id, Project = id\<rparr>"
    by (simp add: InitialUndistortedCamera_eq PlainRadial_def)
  note s = ScaleToBorder_PlainRadial [OF assms(5-10)]
  have b: "UndistortCameraBeforeSizeLimit options PlainRadial =
     Inr \<lparr>ModelId = PinholeCameraModel, Width = n, Height = n,
          FocalLengthIdxs = [0, 1], PrincipalPointIdxs = [2, 3],
          FocalLengthX = 1, FocalLengthY = 1,
          PrincipalPointX = real n / 2, PrincipalPointY = real n / 2,
          Unproject = id, Project = id\<rparr>"
    unfolding UndistortCameraBeforeSizeLimit_def f
    by (simp only: sum.case u s option.case Camera.update_convs Camera.simps)
  show ?thesis
    unfolding UndistortCamera_without_override [OF assms(1) assms(2)] b
    by (simp only: sum.case LimitImageSize_unbounded [OF assms(4)])
qed

lemma UndistortCamera_PlainRadial:
  "UndistortCamera ExampleOps ExampleOptions PlainRadial =
     Inr \<lparr>ModelId = PinholeCameraModel, Width = 1, Height = 1,
          FocalLengthIdxs = [0, 1], PrincipalPointIdxs = [2, 3],
          FocalLengthX = 1, FocalLengthY = 1, PrincipalPointX = 1 / 2, PrincipalPointY = 1 / 2,
          Unproject = id, Project = id\<rparr>"
proof -
  have c: "Clip (2 * (1 - 1 / 2 ^ 32) / 3) (min_scale ExampleOptions) (max_scale ExampleOptions) =
             2 * (1 - 1 / 2 ^ 32) / 3"
    by (simp add: Clip_def ExampleOptions_def)
  have n: "size_t_of_double (max 1 (2 * (1 - 1 / 2 ^ 32) / 3 * 2)) = 1"
    by (simp add: size_t_of_double_def)
  show ?thesis
    using UndistortCamera_PlainRadial_scaled [OF CheckOptions_ExampleOptions _ _ _ _ _ _ _ c n,
        of ExampleOps]
    by (simp add: ExampleOptions_def)
qed

subsection \<open>UndistortCamera: the scale\<close>

lemma Clip_bounds: "low \<le> high \<Longrightarrow> low \<le> Clip v low high \<and> Clip v low high \<le> high"
  by (simp add: Clip_def)

lemma fdiv_Some: "fdiv a b = Some q \<longleftrightarrow> b \<noteq> 0 \<and> q = a / b"
  by (auto simp: fdiv_def)

lemma min_scale_x_Some:
  "min_scale_x camera cx (left_min_x, left_max_x, right_min_x, right_max_x) = Some m \<longleftrightarrow>
     cx - left_min_x \<noteq> 0 \<and> right_max_x - cx \<noteq> 0 \<and>
     m = min (cx / (cx - left_min_x)) ((real (Width camera) - 1 / 2 - cx) / (right_max_x - cx))"
  by (auto simp: min_scale_x_def fdiv_def split: if_splits)

lemma max_scale_x_Some:
  "max_scale_x camera cx (left_min_x, left_max_x, right_min_x, right_max_x) = Some m \<longleftrightarrow>
     cx - left_max_x \<noteq> 0 \<and> right_min_x - cx \<noteq> 0 \<and>
     m = max (cx / (cx - left_max_x)) ((real (Width camera) - 1 / 2 - cx) / (right_min_x - cx))"
  by (auto simp: max_scale_x_def fdiv_def split: if_splits)

lemma min_scale_y_Some:
  "min_scale_y camera cy (top_min_y, top_max_y, bottom_min_y, bottom_max_y) = Some m \<longleftrightarrow>
     cy - top_min_y \<noteq> 0 \<and> bottom_max_y - cy \<noteq> 0 \<and>
     m = min (cy / (cy - top_min_y)) ((real (Height camera) - 1 / 2 - cy) / (bottom_max_y - cy))"
  by (auto simp: min_scale_y_def fdiv_def split: if_splits)

lemma max_scale_y_Some:
  "max_scale_y camera cy (top_min_y, top_max_y, bottom_min_y, bottom_max_y) = Some m \<longleftrightarrow>
     cy - top_max_y \<noteq> 0 \<and> bottom_min_y - cy \<noteq> 0 \<and>
     m = max (cy / (cy - top_max_y)) ((real (Height camera) - 1 / 2 - cy) / (bottom_min_y - cy))"
  by (auto simp: max_scale_y_def fdiv_def split: if_splits)

lemma scale_x_Some:
  "scale_x options camera cx ex = Some s \<longleftrightarrow>
     (\<exists>min_x max_x. min_scale_x camera cx ex = Some min_x \<and> max_scale_x camera cx ex = Some max_x \<and>
        min_x * blank_pixels options + max_x * (1 - blank_pixels options) \<noteq> 0 \<and>
        s = Clip (1 / (min_x * blank_pixels options + max_x * (1 - blank_pixels options)))
              (min_scale options) (max_scale options))"
  by (auto simp: scale_x_def fdiv_def bind_eq_Some_conv split: if_splits)

lemma scale_y_Some:
  "scale_y options camera cy ey = Some s \<longleftrightarrow>
     (\<exists>min_y max_y. min_scale_y camera cy ey = Some min_y \<and> max_scale_y camera cy ey = Some max_y \<and>
        min_y * blank_pixels options + max_y * (1 - blank_pixels options) \<noteq> 0 \<and>
        s = Clip (1 / (min_y * blank_pixels options + max_y * (1 - blank_pixels options)))
              (min_scale options) (max_scale options))"
  by (auto simp: scale_y_def fdiv_def bind_eq_Some_conv split: if_splits)


text \<open>
  C9, as amended. In the block that scales the image, for an input camera of another kind
  than the two pinhole kinds and in a run in which no divisor is zero, the scale of each
  axis is the reciprocal of the linear interpolation, weighted by \<^verbatim>\<open>blank_pixels\<close>, between
  the quantity for no missing source pixels (\<^verbatim>\<open>min_scale_x\<close>, \<^verbatim>\<open>min_scale_y\<close>) and the
  quantity for no blank output pixels (\<^verbatim>\<open>max_scale_x\<close>, \<^verbatim>\<open>max_scale_y\<close>), both computed
  from the four border extrema of the axis; the reciprocal is clipped, and for valid options
  the clipped scale lies between \<^verbatim>\<open>min_scale\<close> and \<^verbatim>\<open>max_scale\<close>. The block returns the
  camera whose width and height are the products of the old ones with these scales, floored
  at 1 and converted to \<^verbatim>\<open>size_t\<close>, and whose principal point is rescaled by the ratio of
  the new width and height to those of the input camera.
\<close>

theorem C9_scale_is_clipped_reciprocal_interpolation:
  fixes cx cy no_missing_x no_blank_x no_missing_y no_blank_y :: real
    and interpolation_x interpolation_y applied_x applied_y :: real
    and new_width new_height :: nat
  assumes "CheckOptions options = None"
    and "ModelId camera \<noteq> SimplePinholeCameraModel" and "ModelId camera \<noteq> PinholeCameraModel"
    and "RowExtrema options camera undistorted_camera =
           (left_min_x, left_max_x, right_min_x, right_max_x)"
    and "ColumnExtrema options camera undistorted_camera =
           (top_min_y, top_max_y, bottom_min_y, bottom_max_y)"
  defines "cx \<equiv> PrincipalPointX undistorted_camera"
    and "cy \<equiv> PrincipalPointY undistorted_camera"
    and "no_missing_x \<equiv>
           min (cx / (cx - left_min_x)) ((real (Width camera) - 1 / 2 - cx) / (right_max_x - cx))"
    and "no_missing_y \<equiv>
           min (cy / (cy - top_min_y)) ((real (Height camera) - 1 / 2 - cy) / (bottom_max_y - cy))"
    and "no_blank_x \<equiv>
           max (cx / (cx - left_max_x)) ((real (Width camera) - 1 / 2 - cx) / (right_min_x - cx))"
    and "no_blank_y \<equiv>
           max (cy / (cy - top_max_y)) ((real (Height camera) - 1 / 2 - cy) / (bottom_min_y - cy))"
    and "interpolation_x \<equiv>
           no_missing_x * blank_pixels options + no_blank_x * (1 - blank_pixels options)"
    and "interpolation_y \<equiv>
           no_missing_y * blank_pixels options + no_blank_y * (1 - blank_pixels options)"
    and "applied_x \<equiv> Clip (1 / interpolation_x) (min_scale options) (max_scale options)"
    and "applied_y \<equiv> Clip (1 / interpolation_y) (min_scale options) (max_scale options)"
    and "new_width \<equiv> size_t_of_double (max 1 (applied_x * real (Width undistorted_camera)))"
    and "new_height \<equiv> size_t_of_double (max 1 (applied_y * real (Height undistorted_camera)))"
  assumes "cx - left_min_x \<noteq> 0" and "right_max_x - cx \<noteq> 0"
    and "cx - left_max_x \<noteq> 0" and "right_min_x - cx \<noteq> 0"
    and "cy - top_min_y \<noteq> 0" and "bottom_max_y - cy \<noteq> 0"
    and "cy - top_max_y \<noteq> 0" and "bottom_min_y - cy \<noteq> 0"
    and "interpolation_x \<noteq> 0" and "interpolation_y \<noteq> 0"
    and "Width camera \<noteq> 0" and "Height camera \<noteq> 0"
  shows "min_scale options \<le> applied_x \<and> applied_x \<le> max_scale options \<and>
         min_scale options \<le> applied_y \<and> applied_y \<le> max_scale options \<and>
         ScaleToBorder options camera undistorted_camera =
           Some (undistorted_camera
                   \<lparr>Width := new_width, Height := new_height,
                    PrincipalPointX := cx * real new_width / real (Width camera),
                    PrincipalPointY := cy * real new_height / real (Height camera)\<rparr>)"
proof -
  have le: "min_scale options \<le> max_scale options"
    using assms(1) by (simp add: CheckOptions_None_iff)
  have bx: "min_scale options \<le> applied_x \<and> applied_x \<le> max_scale options"
    unfolding applied_x_def by (rule Clip_bounds [OF le])
  have bnd_y: "min_scale options \<le> applied_y \<and> applied_y \<le> max_scale options"
    unfolding applied_y_def by (rule Clip_bounds [OF le])
  have mnx: "min_scale_x camera cx (left_min_x, left_max_x, right_min_x, right_max_x) =
               Some no_missing_x"
    unfolding min_scale_x_Some no_missing_x_def using assms by simp
  have mxx: "max_scale_x camera cx (left_min_x, left_max_x, right_min_x, right_max_x) =
               Some no_blank_x"
    unfolding max_scale_x_Some no_blank_x_def using assms by simp
  have mny: "min_scale_y camera cy (top_min_y, top_max_y, bottom_min_y, bottom_max_y) =
               Some no_missing_y"
    unfolding min_scale_y_Some no_missing_y_def using assms by simp
  have mxy: "max_scale_y camera cy (top_min_y, top_max_y, bottom_min_y, bottom_max_y) =
               Some no_blank_y"
    unfolding max_scale_y_Some no_blank_y_def using assms by simp
  have sx: "scale_x options camera cx (left_min_x, left_max_x, right_min_x, right_max_x) =
              Some applied_x"
    unfolding scale_x_Some mnx mxx applied_x_def
    using \<open>interpolation_x \<noteq> 0\<close> by (simp add: interpolation_x_def)
  have sy: "scale_y options camera cy (top_min_y, top_max_y, bottom_min_y, bottom_max_y) =
              Some applied_y"
    unfolding scale_y_Some mny mxy applied_y_def
    using \<open>interpolation_y \<noteq> 0\<close> by (simp add: interpolation_y_def)
  have s: "ScaleToBorder options camera undistorted_camera =
           Some (undistorted_camera
                   \<lparr>Width := new_width, Height := new_height,
                    PrincipalPointX := cx * real new_width / real (Width camera),
                    PrincipalPointY := cy * real new_height / real (Height camera)\<rparr>)"
    unfolding ScaleToBorder_def Let_def assms(4) assms(5)
    using assms(2) assms(3) \<open>Width camera \<noteq> 0\<close> \<open>Height camera \<noteq> 0\<close>
    by (simp add: sx [unfolded cx_def] sy [unfolded cy_def] fdiv_def new_width_def
        new_height_def cx_def cy_def)
  from bx bnd_y s show ?thesis by blast
qed

text \<open>
  The theorem at the example options (\<^verbatim>\<open>blank_pixels = 0.5\<close>, scales between 0.5 and 2) and
  the camera of 2 x 2 pixels without distortion, at the stage where \<open>UndistortCamera\<close> scales
  it: the border extrema are \<open>1/2 + 2^-33\<close> on the near borders and \<open>3/2 - 2^-33\<close> on the far
  ones, no divisor is zero, the scale of both axes is \<open>2 (1 - 2^-32) / 3\<close>, and the scaled
  camera has 1 x 1 pixels.
\<close>

theorem C9_witness:
  "CheckOptions ExampleOptions = None \<and>
   ModelId PlainRadial \<noteq> SimplePinholeCameraModel \<and> ModelId PlainRadial \<noteq> PinholeCameraModel \<and>
   RowExtrema ExampleOptions PlainRadial
     \<lparr>ModelId = PinholeCameraModel, Width = 2, Height = 2,
      FocalLengthIdxs = [0, 1], PrincipalPointIdxs = [2, 3],
      FocalLengthX = 1, FocalLengthY = 1, PrincipalPointX = 1, PrincipalPointY = 1,
      Unproject = id, Project = id\<rparr> =
     (1 / 2 + 1 / 2 ^ 33, 1 / 2 + 1 / 2 ^ 33, 3 / 2 - 1 / 2 ^ 33, 3 / 2 - 1 / 2 ^ 33) \<and>
   ColumnExtrema ExampleOptions PlainRadial
     \<lparr>ModelId = PinholeCameraModel, Width = 2, Height = 2,
      FocalLengthIdxs = [0, 1], PrincipalPointIdxs = [2, 3],
      FocalLengthX = 1, FocalLengthY = 1, PrincipalPointX = 1, PrincipalPointY = 1,
      Unproject = id, Project = id\<rparr> =
     (1 / 2 + 1 / 2 ^ 33, 1 / 2 + 1 / 2 ^ 33, 3 / 2 - 1 / 2 ^ 33, 3 / 2 - 1 / 2 ^ 33) \<and>
   Width PlainRadial \<noteq> 0 \<and> Height PlainRadial \<noteq> 0 \<and>
   min_scale ExampleOptions \<le> 2 * (1 - 1 / 2 ^ 32) / 3 \<and>
   2 * (1 - 1 / 2 ^ 32) / 3 \<le> max_scale ExampleOptions \<and>
   ScaleToBorder ExampleOptions PlainRadial
     \<lparr>ModelId = PinholeCameraModel, Width = 2, Height = 2,
      FocalLengthIdxs = [0, 1], PrincipalPointIdxs = [2, 3],
      FocalLengthX = 1, FocalLengthY = 1, PrincipalPointX = 1, PrincipalPointY = 1,
      Unproject = id, Project = id\<rparr> =
     Some \<lparr>ModelId = PinholeCameraModel, Width = 1, Height = 1,
          FocalLengthIdxs = [0, 1], PrincipalPointIdxs = [2, 3],
          FocalLengthX = 1, FocalLengthY = 1, PrincipalPointX = 1 / 2, PrincipalPointY = 1 / 2,
          Unproject = id, Project = id\<rparr>"
proof -
  let ?u = "\<lparr>ModelId = PinholeCameraModel, Width = 2, Height = 2,
      FocalLengthIdxs = [0, 1], PrincipalPointIdxs = [2, 3],
      FocalLengthX = 1, FocalLengthY = 1, PrincipalPointX = 1, PrincipalPointY = 1,
      Unproject = id, Project = id\<rparr>"
  have o: "max_fov ExampleOptions = 120" "max_horizontal_fov ExampleOptions = 180"
    "max_vertical_fov ExampleOptions = 180" "blank_pixels ExampleOptions = 1 / 2"
    "min_scale ExampleOptions = 1 / 2" "max_scale ExampleOptions = 2"
    by (simp_all add: ExampleOptions_def)
  have k: "ModelId PlainRadial \<noteq> SimplePinholeCameraModel"
    "ModelId PlainRadial \<noteq> PinholeCameraModel" "Width PlainRadial = 2" "Height PlainRadial = 2"
    by (simp_all add: PlainRadial_def)
  have ex: "RowExtrema ExampleOptions PlainRadial ?u =
      (1 / 2 + 1 / 2 ^ 33, 1 / 2 + 1 / 2 ^ 33, 3 / 2 - 1 / 2 ^ 33, 3 / 2 - 1 / 2 ^ 33)"
    by (rule extrema_PlainRadial [OF o(1-3)]) simp_all
  have ey: "ColumnExtrema ExampleOptions PlainRadial ?u =
      (1 / 2 + 1 / 2 ^ 33, 1 / 2 + 1 / 2 ^ 33, 3 / 2 - 1 / 2 ^ 33, 3 / 2 - 1 / 2 ^ 33)"
    by (rule extrema_PlainRadial [OF o(1-3)]) simp_all
  have r: "min_scale ExampleOptions \<le> 2 * (1 - 1 / 2 ^ 32) / 3 \<and>
           2 * (1 - 1 / 2 ^ 32) / 3 \<le> max_scale ExampleOptions \<and>
           ScaleToBorder ExampleOptions PlainRadial ?u =
             Some \<lparr>ModelId = PinholeCameraModel, Width = 1, Height = 1,
                  FocalLengthIdxs = [0, 1], PrincipalPointIdxs = [2, 3],
                  FocalLengthX = 1, FocalLengthY = 1,
                  PrincipalPointX = 1 / 2, PrincipalPointY = 1 / 2,
                  Unproject = id, Project = id\<rparr>"
    using C9_scale_is_clipped_reciprocal_interpolation
      [OF CheckOptions_ExampleOptions k(1) k(2) ex ey]
    by (simp add: o k Clip_def size_t_of_double_def)
  have z: "Width PlainRadial \<noteq> 0 \<and> Height PlainRadial \<noteq> 0" by (simp add: k)
  from CheckOptions_ExampleOptions k(1) k(2) ex ey z r show ?thesis by (intro conjI) blast+
qed

text \<open>
  The claim as stated fails. For the camera of 2 x 2 pixels without distortion, of the kind
  \<^verbatim>\<open>SIMPLE_RADIAL\<close>, with focal length 1 and principal point (1, 1), and the example options,
  the row extrema are \<open>1/2 + 2^-33\<close> and \<open>3/2 - 2^-33\<close>, the two quantities computed from them
  are \<open>1 / (1 - 2^-32)\<close> and \<open>2 / (1 - 2^-32)\<close>, and their linear interpolation with weight
  0.5, about 1.5, lies between \<^verbatim>\<open>min_scale\<close> and \<^verbatim>\<open>max_scale\<close> and is what clipping leaves of
  it. The scale applied is its reciprocal, about 2 / 3, and \<open>UndistortCamera\<close> returns a camera
  of 1 x 1 pixels, where the interpolation as a scale would give 3 x 3.
\<close>

theorem C9_counterexample:
  "blank_pixels ExampleOptions = 1 / 2 \<and>
   min_scale ExampleOptions = 1 / 2 \<and> max_scale ExampleOptions = 2 \<and>
   RowExtrema ExampleOptions PlainRadial
     \<lparr>ModelId = PinholeCameraModel, Width = 2, Height = 2,
      FocalLengthIdxs = [0, 1], PrincipalPointIdxs = [2, 3],
      FocalLengthX = 1, FocalLengthY = 1, PrincipalPointX = 1, PrincipalPointY = 1,
      Unproject = id, Project = id\<rparr> =
     (1 / 2 + 1 / 2 ^ 33, 1 / 2 + 1 / 2 ^ 33, 3 / 2 - 1 / 2 ^ 33, 3 / 2 - 1 / 2 ^ 33) \<and>
   min_scale_x PlainRadial 1
     (1 / 2 + 1 / 2 ^ 33, 1 / 2 + 1 / 2 ^ 33, 3 / 2 - 1 / 2 ^ 33, 3 / 2 - 1 / 2 ^ 33) =
     Some (1 / (1 - 1 / 2 ^ 32)) \<and>
   max_scale_x PlainRadial 1
     (1 / 2 + 1 / 2 ^ 33, 1 / 2 + 1 / 2 ^ 33, 3 / 2 - 1 / 2 ^ 33, 3 / 2 - 1 / 2 ^ 33) =
     Some (2 / (1 - 1 / 2 ^ 32)) \<and>
   Clip (1 / (1 - 1 / 2 ^ 32) * (1 / 2) + 2 / (1 - 1 / 2 ^ 32) * (1 - 1 / 2)) (1 / 2) 2 =
     3 / (2 * (1 - 1 / 2 ^ 32)) \<and>
   size_t_of_double (max 1 (3 / (2 * (1 - 1 / 2 ^ 32)) * 2)) = 3 \<and>
   scale_x ExampleOptions PlainRadial 1
     (1 / 2 + 1 / 2 ^ 33, 1 / 2 + 1 / 2 ^ 33, 3 / 2 - 1 / 2 ^ 33, 3 / 2 - 1 / 2 ^ 33) =
     Some (2 * (1 - 1 / 2 ^ 32) / 3) \<and>
   UndistortCamera ExampleOps ExampleOptions PlainRadial =
     Inr \<lparr>ModelId = PinholeCameraModel, Width = 1, Height = 1,
          FocalLengthIdxs = [0, 1], PrincipalPointIdxs = [2, 3],
          FocalLengthX = 1, FocalLengthY = 1, PrincipalPointX = 1 / 2, PrincipalPointY = 1 / 2,
          Unproject = id, Project = id\<rparr>"
proof -
  have o: "blank_pixels ExampleOptions = 1 / 2 \<and>
           min_scale ExampleOptions = 1 / 2 \<and> max_scale ExampleOptions = 2"
    by (simp add: ExampleOptions_def)
  have f: "max_fov ExampleOptions = 120" "max_horizontal_fov ExampleOptions = 180"
    "max_vertical_fov ExampleOptions = 180"
    by (simp_all add: ExampleOptions_def)
  have ex: "RowExtrema ExampleOptions PlainRadial
     \<lparr>ModelId = PinholeCameraModel, Width = 2, Height = 2,
      FocalLengthIdxs = [0, 1], PrincipalPointIdxs = [2, 3],
      FocalLengthX = 1, FocalLengthY = 1, PrincipalPointX = 1, PrincipalPointY = 1,
      Unproject = id, Project = id\<rparr> =
     (1 / 2 + 1 / 2 ^ 33, 1 / 2 + 1 / 2 ^ 33, 3 / 2 - 1 / 2 ^ 33, 3 / 2 - 1 / 2 ^ 33)"
    by (rule extrema_PlainRadial [OF f]) simp_all
  have c: "Clip (1 / (1 - 1 / 2 ^ 32) * (1 / 2) + 2 / (1 - 1 / 2 ^ 32) * (1 - 1 / 2)) (1 / 2) 2 =
             3 / (2 * (1 - 1 / 2 ^ 32))"
    by (simp add: Clip_def)
  have n: "size_t_of_double (max 1 (3 / (2 * (1 - 1 / 2 ^ 32)) * 2)) = 3"
    by (simp add: size_t_of_double_def)
  have s: "scale_x ExampleOptions PlainRadial 1
     (1 / 2 + 1 / 2 ^ 33, 1 / 2 + 1 / 2 ^ 33, 3 / 2 - 1 / 2 ^ 33, 3 / 2 - 1 / 2 ^ 33) =
     Some (2 * (1 - 1 / 2 ^ 32) / 3)"
    using clipped_scales_PlainRadial(1) [of ExampleOptions]
    by (simp add: ExampleOptions_def Clip_def)
  from o ex scales_PlainRadial(1) scales_PlainRadial(2) c n s UndistortCamera_PlainRadial
  show ?thesis by (intro conjI) blast+
qed

subsection \<open>UndistortCamera: kind and size of the result\<close>









end
